theory Spec2Isabelle
  imports Main "HOL-Library.Sublist"
begin

section \<open>JavaScript values and strings\<close>

text \<open>
  Strings are sequences of the 256 code points of Latin-1. The builders read their options
  from a \<open>Record<string, any>\<close>, which the tool handler fills from the JSON arguments of
  the request: a property holds any JSON value, and a missing property reads as
  \<open>undefined\<close>. A number is kept as the text that \<open>Number.prototype.toString\<close> prints for
  it (\<open>21\<close> as \<open>21\<close>, \<open>0.5\<close> as \<open>0.5\<close>, \<open>1e21\<close> as \<open>1e+21\<close>, both zeros as \<open>0\<close>):
  the builders only test a number for truth and interpolate it. An object is the list of
  its own properties, as \<open>JSON.parse\<close> creates them.
\<close>

datatype jsval =
    JUndefined | JNull | JBool bool | JNum string | JStr string
  | JArr "jsval list" | JObj "(string \<times> jsval) list"

type_synonym options = "string \<rightharpoonup> jsval"

definition get_prop :: "options \<Rightarrow> string \<Rightarrow> jsval" where
  "get_prop opts k = (case opts k of None \<Rightarrow> JUndefined | Some v \<Rightarrow> v)"

fun truthy :: "jsval \<Rightarrow> bool" where
  "truthy JUndefined = False"
| "truthy JNull = False"
| "truthy (JBool b) = b"
| "truthy (JNum t) = (t \<noteq> ''0'' \<and> t \<noteq> ''NaN'')"
| "truthy (JStr s) = (s \<noteq> [])"
| "truthy (JArr vs) = True"
| "truthy (JObj ps) = True"

definition js_or :: "jsval \<Rightarrow> jsval \<Rightarrow> jsval" where
  \<comment> \<open>\<open>a || b\<close>\<close>
  "js_or a b = (if truthy a then a else b)"

definition or_default :: "jsval \<Rightarrow> jsval \<Rightarrow> jsval" where
  \<comment> \<open>a destructuring default, \<open>const { key = d } = options\<close>: it applies to \<open>undefined\<close> only\<close>
  "or_default v d = (if v = JUndefined then d else v)"

definition not_false :: "jsval \<Rightarrow> bool" where
  \<comment> \<open>\<open>v !== false\<close>\<close>
  "not_false v = (v \<noteq> JBool False)"

text \<open>
  String conversion, as a template literal and \<open>Array.prototype.join\<close> apply it. An array
  joins the conversions of its elements with a comma, \<open>undefined\<close> and \<open>null\<close> giving the
  empty string. An object is converted by its \<open>toString\<close> method: the inherited one gives
  \<open>[object Object]\<close>; an own property \<open>toString\<close> of a parsed object is not callable, and
  then the conversion throws the \<open>TypeError\<close> \<open>Cannot convert object to primitive value\<close>,
  which is the result \<open>None\<close>.
\<close>

fun join_with :: "string \<Rightarrow> string list \<Rightarrow> string" where
  \<comment> \<open>\<open>Array.prototype.join\<close>\<close>
  "join_with sep [] = []"
| "join_with sep [x] = x"
| "join_with sep (x # y # ys) = x @ sep @ join_with sep (y # ys)"

fun to_string :: "jsval \<Rightarrow> string option" where
  "to_string JUndefined = Some ''undefined''"
| "to_string JNull = Some ''null''"
| "to_string (JBool b) = Some (if b then ''true'' else ''false'')"
| "to_string (JNum t) = Some t"
| "to_string (JStr s) = Some s"
| "to_string (JArr vs) =
     map_option (join_with '','')
       (those (map (\<lambda>v. if v = JUndefined \<or> v = JNull then Some [] else to_string v) vs))"
| "to_string (JObj ps) = (if ''toString'' \<in> set (map fst ps) then None else Some ''[object Object]'')"

definition cannot_convert :: string where
  "cannot_convert = ''Cannot convert object to primitive value''"

definition is_upper :: "char \<Rightarrow> bool" where
  "is_upper c = (65 \<le> (of_char c :: nat) \<and> (of_char c :: nat) \<le> 90)"

definition is_lower :: "char \<Rightarrow> bool" where
  "is_lower c = (97 \<le> (of_char c :: nat) \<and> (of_char c :: nat) \<le> 122)"

definition is_upper_latin :: "char \<Rightarrow> bool" where
  \<comment> \<open>the upper-case letters of Latin-1 beyond ASCII: U+00C0 to U+00DE without the sign U+00D7\<close>
  "is_upper_latin c = (192 \<le> (of_char c :: nat) \<and> (of_char c :: nat) \<le> 222 \<and> (of_char c :: nat) \<noteq> 215)"

definition lower_char :: "char \<Rightarrow> char" where
  "lower_char c = (if is_upper c \<or> is_upper_latin c then char_of ((of_char c :: nat) + 32) else c)"

definition upper_char :: "char \<Rightarrow> char" where
  "upper_char c = (if is_lower c then char_of ((of_char c :: nat) - 32) else c)"

definition toLowerCase :: "string \<Rightarrow> string" where
  \<comment> \<open>\<open>String.prototype.toLowerCase\<close>\<close>
  "toLowerCase s = map lower_char s"

definition quoted :: "string \<Rightarrow> string" where
  \<comment> \<open>\<open>'${s}'\<close>\<close>
  "quoted s = [CHR 0x27] @ s @ [CHR 0x27]"

section \<open>Paths\<close>

text \<open>
  A path is the list of its segments below the filesystem root (POSIX). \<open>path.join\<close> and
  \<open>path.resolve\<close> normalise: an empty segment and \<open>.\<close> are dropped, \<open>..\<close> removes the
  segment before it.
\<close>

type_synonym path = "string list"

fun split_on :: "char \<Rightarrow> string \<Rightarrow> string list" where
  "split_on d [] = [[]]"
| "split_on d (c # cs) =
     (if c = d then [] # split_on d cs
      else (case split_on d cs of [] \<Rightarrow> [[c]] | w # ws \<Rightarrow> (c # w) # ws))"

definition step_seg :: "path \<Rightarrow> string \<Rightarrow> path" where
  "step_seg p s = (if s = [] \<or> s = ''.'' then p else if s = ''..'' then butlast p else p @ [s])"

definition segments :: "string \<Rightarrow> string list" where
  "segments s = split_on CHR ''/'' s"

definition path_join :: "path \<Rightarrow> string list \<Rightarrow> path" where
  \<comment> \<open>\<open>path.join(p, ...parts)\<close> for an absolute \<open>p\<close>\<close>
  "path_join p parts = foldl step_seg p (concat (map segments parts))"

definition is_absolute :: "string \<Rightarrow> bool" where
  "is_absolute s = (case s of [] \<Rightarrow> False | c # _ \<Rightarrow> c = CHR ''/'')"

fun path_resolve :: "path \<Rightarrow> string list \<Rightarrow> path" where
  \<comment> \<open>\<open>path.resolve(...parts)\<close> in the working directory \<open>cur\<close>: an absolute part restarts from the root\<close>
  "path_resolve cur [] = cur"
| "path_resolve cur (a # as) =
     path_resolve (foldl step_seg (if is_absolute a then [] else cur) (segments a)) as"

section \<open>The filesystem capability\<close>

text \<open>
  File contents are template literals and serialised objects. A short one is kept as its
  text; a long one is recorded as the name of the template together with the values its
  text is computed from (the strings interpolated and the conditions that select a
  fragment), so that two contents with the same record are the same text.
\<close>

datatype targ = S string | B bool

datatype content = Literal string | Rendered string "targ list"

datatype fs_op = Mkdir path | WriteFile path content

text \<open>
  \<open>fs.mkdir(p, {recursive: true})\<close> and \<open>fs.writeFile(p, c)\<close> either succeed or reject with
  an \<open>Error\<close>. Which one happens is the filesystem's choice: it is a function of the
  operations performed so far and the operation attempted, giving the message of the error.
\<close>

type_synonym filesystem = "fs_op list \<Rightarrow> fs_op \<Rightarrow> string option"

text \<open>
  \<open>process.cwd()\<close> returns the working directory or throws, for instance
  \<open>ENOENT: no such file or directory, uv_cwd\<close> when the directory has been removed; \<open>Inl\<close>
  is the message of the error.
\<close>

record env =
  cwd :: "string + path"
  fs :: filesystem

text \<open>
  The body of every builder method is a sequence of awaited filesystem calls under
  conditions on the configuration only. A method is modelled as the list of steps it
  takes; \<open>Raise\<close> is a \<open>TypeError\<close> thrown by the method's own code.
\<close>

datatype step = Do fs_op | Raise string

fun exec :: "filesystem \<Rightarrow> fs_op list \<Rightarrow> step list \<Rightarrow> fs_op list \<times> string option" where
  "exec f tr [] = (tr, None)"
| "exec f tr (Raise e # rest) = (tr, Some e)"
| "exec f tr (Do a # rest) =
     (case f tr a of Some e \<Rightarrow> (tr, Some e) | None \<Rightarrow> exec f (tr @ [a]) rest)"

fun ops_of :: "step list \<Rightarrow> fs_op list" where
  \<comment> \<open>the operations issued up to the first \<open>Raise\<close>\<close>
  "ops_of [] = []"
| "ops_of (Raise e # rest) = []"
| "ops_of (Do a # rest) = a # ops_of rest"

definition accepting :: filesystem where
  \<comment> \<open>a filesystem on which every operation succeeds\<close>
  "accepting = (\<lambda>tr a. None)"

fun written :: "fs_op list \<Rightarrow> (path \<times> content) list" where
  "written [] = []"
| "written (Mkdir d # r) = written r"
| "written (WriteFile p c # r) = (p, c) # written r"

definition relative_to :: "path \<Rightarrow> path \<Rightarrow> path" where
  "relative_to root p = drop (length root) p"

definition file_nodes :: "path \<Rightarrow> fs_op list \<Rightarrow> (path \<times> content) list" where
  \<comment> \<open>the (relative path, content) pairs written, in order\<close>
  "file_nodes root tr = map (\<lambda>(p, c). (relative_to root p, c)) (written tr)"

fun parents_made :: "path list \<Rightarrow> fs_op list \<Rightarrow> bool" where
  \<comment> \<open>every write happens after a recursive mkdir of its parent directory or of a directory below it\<close>
  "parents_made made [] = True"
| "parents_made made (Mkdir d # r) = parents_made (d # made) r"
| "parents_made made (WriteFile p c # r) =
     (list_ex (\<lambda>d. prefix (butlast p) d) made \<and> parents_made made r)"

section \<open>Types (types.ts)\<close>

text \<open>
  \<open>outputPath\<close> is declared a string, but the tool handler stores \<open>options.outputPath\<close>
  there, a JSON value of any kind or \<open>undefined\<close>; it is kept as a value. The other fields
  are as declared.
\<close>

record ProjectConfig =
  projectName :: string
  projectType :: string
  framework :: string
  options :: "options option"
  outputPath :: jsval

record BuilderResult =
  success :: bool
  message :: string
  files :: "string list option"
  error :: "string option"

definition options_or_empty :: "ProjectConfig \<Rightarrow> options" where
  \<comment> \<open>the destructuring default \<open>options = {}\<close>\<close>
  "options_or_empty config = (case options config of None \<Rightarrow> Map.empty | Some opts \<Rightarrow> opts)"

definition invalid_arg_type :: "jsval \<Rightarrow> string" where
  \<comment> \<open>the message of the \<open>TypeError\<close> with which \<open>path.resolve\<close> refuses its first argument\<close>
  "invalid_arg_type v =
     ''The '' @ [CHR 0x22] @ ''paths[0]'' @ [CHR 0x22] @ '' argument must be of type string. Received '' @
     (case v of
        JUndefined \<Rightarrow> ''undefined''
      | JNull \<Rightarrow> ''null''
      | JBool b \<Rightarrow> ''type boolean ('' @ (if b then ''true'' else ''false'') @ '')''
      | JNum t \<Rightarrow> ''type number ('' @ t @ '')''
      | JStr s \<Rightarrow> ''type string ('' @ [CHR 0x27] @ s @ [CHR 0x27] @ '')''
      | JArr vs \<Rightarrow> ''an instance of Array''
      | JObj ps \<Rightarrow> ''an instance of Object'')"

text \<open>
  The first statements of every \<open>build\<close>, before its \<open>try\<close> block:
  \<open>const basePath = outputPath || process.cwd(); const projectPath = path.resolve(basePath, projectName)\<close>.
  \<open>path.resolve\<close> reads its arguments from the right and stops at the first absolute one;
  it throws a \<open>TypeError\<close> on an argument that is not a string, and calls \<open>process.cwd()\<close>
  itself when no argument is absolute. \<open>Inl\<close> is the message of the error thrown.
\<close>

definition resolve_project_path :: "env \<Rightarrow> ProjectConfig \<Rightarrow> string + path" where
  "resolve_project_path e config =
     (if truthy (outputPath config)
      then (if is_absolute (projectName config) then Inr (path_resolve [] [projectName config])
            else (case outputPath config of
                    JStr out \<Rightarrow>
                      if is_absolute out then Inr (path_resolve [] [out, projectName config])
                      else (case cwd e of
                              Inl err \<Rightarrow> Inl err
                            | Inr cur \<Rightarrow> Inr (path_resolve cur [out, projectName config]))
                  | v \<Rightarrow> Inl (invalid_arg_type v)))
      else (case cwd e of
              Inl err \<Rightarrow> Inl err
            | Inr cur \<Rightarrow> Inr (path_resolve cur [projectName config])))"

definition try_build ::
  "filesystem \<Rightarrow> fs_op list \<Rightarrow> step list \<Rightarrow> BuilderResult \<Rightarrow> string \<Rightarrow> (string + BuilderResult) \<times> fs_op list" where
  \<comment> \<open>\<open>try { ...steps; return ok } catch (error) { return {success: false, message: failed, error: error.message} }\<close>\<close>
  "try_build f tr steps ok failed =
     (case exec f tr steps of
        (tr', None) \<Rightarrow> (Inr ok, tr')
      | (tr', Some e) \<Rightarrow>
          (Inr \<lparr>success = False, message = failed, files = None, error = Some e\<rparr>, tr'))"

section \<open>ReactBuilder (builders/react-builder.ts)\<close>

definition ReactBuilder_createGitignore :: "path \<Rightarrow> step list" where
  "ReactBuilder_createGitignore projectPath =
     [Do (WriteFile (path_join projectPath [''.gitignore'']) (Rendered ''React.gitignore'' []))]"

definition ReactBuilder_createIndexHtml :: "path \<Rightarrow> string \<Rightarrow> step list" where
  "ReactBuilder_createIndexHtml projectPath name =
     [Do (WriteFile (path_join projectPath [''index.html'']) (Rendered ''React.indexHtml'' [S name]))]"

definition ReactBuilder_createPublicFolder :: "path \<Rightarrow> string \<Rightarrow> step list" where
  "ReactBuilder_createPublicFolder projectPath name =
     (let publicPath = path_join projectPath [''public''] in
      [Do (Mkdir publicPath),
       Do (WriteFile (path_join publicPath [''index.html'']) (Rendered ''React.publicIndexHtml'' [S name]))])"

definition ReactBuilder_createReactSourceFiles :: "path \<Rightarrow> bool \<Rightarrow> string \<Rightarrow> string \<Rightarrow> step list" where
  "ReactBuilder_createReactSourceFiles projectPath useTypeScript tsxExt tsExt =
     (let srcPath = path_join projectPath [''src''] in
      [Do (Mkdir srcPath),
       Do (WriteFile (path_join srcPath [''App'' @ tsxExt]) (Rendered ''React.appContent'' [S tsxExt, S tsxExt])),
       Do (WriteFile (path_join srcPath [''main'' @ tsxExt]) (Rendered ''React.mainContent'' [S tsxExt])),
       Do (WriteFile (path_join srcPath [''index.css'']) (Rendered ''React.cssContent'' [])),
       Do (Mkdir (path_join srcPath [''assets'']))])"

definition ReactBuilder_createViteReactProject :: "path \<Rightarrow> string \<Rightarrow> bool \<Rightarrow> options \<Rightarrow> step list" where
  "ReactBuilder_createViteReactProject projectPath name useTypeScript opts =
     (let tsxExt = (if useTypeScript then ''.tsx'' else ''.jsx'');
          tsExt = (if useTypeScript then ''.ts'' else ''.js'')
      in [Do (WriteFile (path_join projectPath [''package.json'']) (Rendered ''React.vite.packageJson'' [S name])),
          Do (WriteFile (path_join projectPath [''vite.config.'' @ tsExt]) (Rendered ''React.viteConfig'' []))]
         @ (if useTypeScript
            then [Do (WriteFile (path_join projectPath [''tsconfig.json'']) (Rendered ''React.vite.tsconfig'' [])),
                  Do (WriteFile (path_join projectPath [''tsconfig.node.json'']) (Rendered ''React.vite.tsconfigNode'' []))]
            else [])
         @ ReactBuilder_createReactSourceFiles projectPath useTypeScript tsxExt tsExt
         @ ReactBuilder_createIndexHtml projectPath name
         @ ReactBuilder_createGitignore projectPath)"

definition ReactBuilder_createCRAProject :: "path \<Rightarrow> string \<Rightarrow> bool \<Rightarrow> options \<Rightarrow> step list" where
  "ReactBuilder_createCRAProject projectPath name useTypeScript opts =
     (let tsxExt = (if useTypeScript then ''.tsx'' else ''.jsx'');
          tsExt = (if useTypeScript then ''.ts'' else ''.js'')
      in [Do (WriteFile (path_join projectPath [''package.json'']) (Rendered ''React.cra.packageJson'' [S name]))]
         @ (if useTypeScript
            then [Do (WriteFile (path_join projectPath [''tsconfig.json'']) (Rendered ''React.cra.tsconfig'' []))]
            else [])
         @ ReactBuilder_createReactSourceFiles projectPath useTypeScript tsxExt tsExt
         @ ReactBuilder_createPublicFolder projectPath name
         @ ReactBuilder_createGitignore projectPath)"

definition ReactBuilder_useTypeScript :: "options \<Rightarrow> bool" where
  "ReactBuilder_useTypeScript opts = not_false (get_prop opts ''typescript'')"

definition ReactBuilder_steps :: "path \<Rightarrow> ProjectConfig \<Rightarrow> step list" where
  \<comment> \<open>the body of the \<open>try\<close> block\<close>
  "ReactBuilder_steps projectPath config =
     (let opts = options_or_empty config;
          useTypeScript = ReactBuilder_useTypeScript opts;
          useVite = (framework config = ''react-vite'' \<or> framework config = ''react'')
      in Do (Mkdir projectPath) #
         (if useVite then ReactBuilder_createViteReactProject projectPath (projectName config) useTypeScript opts
          else ReactBuilder_createCRAProject projectPath (projectName config) useTypeScript opts))"

definition ReactBuilder_ok :: "ProjectConfig \<Rightarrow> BuilderResult" where
  "ReactBuilder_ok config =
     \<lparr>success = True,
      message = ''React project '' @ quoted (projectName config) @ '' created successfully'',
      files = Some [''package.json'', ''src/App.tsx'', ''src/main.tsx'', ''index.html''],
      error = None\<rparr>"

text \<open>
  \<open>build\<close>: the project path is resolved first; an error thrown there leaves \<open>build\<close>
  (\<open>Inl\<close>), everything after it runs inside the \<open>try\<close> block.
\<close>

definition ReactBuilder_build :: "env \<Rightarrow> fs_op list \<Rightarrow> ProjectConfig \<Rightarrow> (string + BuilderResult) \<times> fs_op list" where
  "ReactBuilder_build e tr config =
     (case resolve_project_path e config of
        Inl err \<Rightarrow> (Inl err, tr)
      | Inr projectPath \<Rightarrow>
          try_build (fs e) tr (ReactBuilder_steps projectPath config) (ReactBuilder_ok config)
            ''Failed to create React project'')"

section \<open>ViteBuilder (builders/vite-builder.ts)\<close>

definition ViteBuilder_createGitignore :: "path \<Rightarrow> step list" where
  "ViteBuilder_createGitignore projectPath =
     [Do (WriteFile (path_join projectPath [''.gitignore'']) (Rendered ''Vite.gitignore'' []))]"

definition ViteBuilder_createIndexHtml :: "path \<Rightarrow> string \<Rightarrow> step list" where
  "ViteBuilder_createIndexHtml projectPath name =
     [Do (WriteFile (path_join projectPath [''index.html'']) (Rendered ''Vite.indexHtml'' [S name]))]"

definition ViteBuilder_createSourceFiles :: "path \<Rightarrow> bool \<Rightarrow> string \<Rightarrow> step list" where
  "ViteBuilder_createSourceFiles projectPath useTypeScript jsExt =
     (let srcPath = path_join projectPath [''src''] in
      [Do (Mkdir srcPath),
       Do (WriteFile (path_join srcPath [''main.'' @ jsExt]) (Rendered ''Vite.mainContent'' [])),
       Do (WriteFile (path_join srcPath [''style.css'']) (Rendered ''Vite.styleContent'' []))])"

definition ViteBuilder_createViteProject :: "path \<Rightarrow> string \<Rightarrow> bool \<Rightarrow> step list" where
  "ViteBuilder_createViteProject projectPath name useTypeScript =
     (let jsExt = (if useTypeScript then ''ts'' else ''js'')
      in [Do (WriteFile (path_join projectPath [''package.json'']) (Rendered ''Vite.packageJson'' [S name])),
          Do (WriteFile (path_join projectPath [''vite.config.'' @ jsExt]) (Rendered ''Vite.viteConfig'' []))]
         @ (if useTypeScript
            then [Do (WriteFile (path_join projectPath [''tsconfig.json'']) (Rendered ''Vite.tsconfig'' []))]
            else [])
         @ ViteBuilder_createSourceFiles projectPath useTypeScript jsExt
         @ ViteBuilder_createIndexHtml projectPath name
         @ ViteBuilder_createGitignore projectPath)"

definition ViteBuilder_useTypeScript :: "string \<Rightarrow> options \<Rightarrow> bool" where
  "ViteBuilder_useTypeScript fw opts = (fw = ''vite-ts'' \<or> not_false (get_prop opts ''typescript''))"

definition ViteBuilder_steps :: "path \<Rightarrow> ProjectConfig \<Rightarrow> step list" where
  "ViteBuilder_steps projectPath config =
     (let opts = options_or_empty config;
          useTypeScript = ViteBuilder_useTypeScript (framework config) opts
      in Do (Mkdir projectPath) # ViteBuilder_createViteProject projectPath (projectName config) useTypeScript)"

definition ViteBuilder_ok :: "ProjectConfig \<Rightarrow> BuilderResult" where
  "ViteBuilder_ok config =
     \<lparr>success = True,
      message = ''Vite project '' @ quoted (projectName config) @ '' created successfully'',
      files = Some [''package.json'', ''index.html'', ''src/main.js''],
      error = None\<rparr>"

definition ViteBuilder_build :: "env \<Rightarrow> fs_op list \<Rightarrow> ProjectConfig \<Rightarrow> (string + BuilderResult) \<times> fs_op list" where
  "ViteBuilder_build e tr config =
     (case resolve_project_path e config of
        Inl err \<Rightarrow> (Inl err, tr)
      | Inr projectPath \<Rightarrow>
          try_build (fs e) tr (ViteBuilder_steps projectPath config) (ViteBuilder_ok config)
            ''Failed to create Vite project'')"

section \<open>FlaskBuilder (builders/flask-builder.ts)\<close>

definition FlaskBuilder_requirements :: "string \<Rightarrow> string" where
  "FlaskBuilder_requirements fw =
     ''Flask>=3.0.0\<newline>python-dotenv>=1.0.0\<newline>''
     @ (if fw = ''flask-rest'' then ''flask-restful>=0.3.10\<newline>flask-cors>=4.0.0\<newline>''
        else if fw = ''flask-sqlalchemy'' then ''Flask-SQLAlchemy>=3.1.1\<newline>Flask-Migrate>=4.0.5\<newline>''
        else [])"

definition FlaskBuilder_createRequirements :: "path \<Rightarrow> string \<Rightarrow> step list" where
  "FlaskBuilder_createRequirements projectPath fw =
     [Do (WriteFile (path_join projectPath [''requirements.txt'']) (Literal (FlaskBuilder_requirements fw)))]"

definition FlaskBuilder_createSourceStructure :: "path \<Rightarrow> step list" where
  "FlaskBuilder_createSourceStructure projectPath =
     (let appPath = path_join projectPath [''app''];
          staticPath = path_join appPath [''static''];
          templatesPath = path_join appPath [''templates'']
      in [Do (Mkdir staticPath), Do (Mkdir templatesPath)])"

definition FlaskBuilder_createMainApplication :: "path \<Rightarrow> string \<Rightarrow> step list" where
  "FlaskBuilder_createMainApplication projectPath name =
     [Do (WriteFile (path_join projectPath [''app'', ''__init__.py'']) (Rendered ''Flask.initContent'' [])),
      Do (WriteFile (path_join projectPath [''app'', ''routes.py'']) (Rendered ''Flask.routesContent'' [S name])),
      Do (WriteFile (path_join projectPath [''run.py'']) (Rendered ''Flask.runContent'' []))]"

definition FlaskBuilder_createConfig :: "path \<Rightarrow> step list" where
  "FlaskBuilder_createConfig projectPath =
     [Do (WriteFile (path_join projectPath [''app'', ''config.py'']) (Rendered ''Flask.config'' []))]"

definition FlaskBuilder_createDockerFiles :: "path \<Rightarrow> string \<Rightarrow> step list" where
  "FlaskBuilder_createDockerFiles projectPath name =
     [Do (WriteFile (path_join projectPath [''Dockerfile'']) (Rendered ''Flask.dockerfile'' [])),
      Do (WriteFile (path_join projectPath [''docker-compose.yml'']) (Rendered ''Flask.dockerCompose'' []))]"

definition FlaskBuilder_createTestStructure :: "path \<Rightarrow> string \<Rightarrow> step list" where
  "FlaskBuilder_createTestStructure projectPath name =
     (let testsPath = path_join projectPath [''tests''] in
      [Do (Mkdir testsPath),
       Do (WriteFile (path_join testsPath [''test_app.py'']) (Rendered ''Flask.testContent'' [S name])),
       Do (WriteFile (path_join testsPath [''__init__.py'']) (Literal []))])"

definition FlaskBuilder_createGitignore :: "path \<Rightarrow> step list" where
  "FlaskBuilder_createGitignore projectPath =
     [Do (WriteFile (path_join projectPath [''.gitignore'']) (Rendered ''Flask.gitignore'' []))]"

definition FlaskBuilder_steps :: "path \<Rightarrow> ProjectConfig \<Rightarrow> step list" where
  "FlaskBuilder_steps projectPath config =
     (let backendOptions = options_or_empty config;
          pythonVersion = js_or (get_prop backendOptions ''pythonVersion'') (JStr ''3.11'');
          useDocker = not_false (get_prop backendOptions ''docker'');
          useTests = not_false (get_prop backendOptions ''tests'')
      in Do (Mkdir projectPath) #
         FlaskBuilder_createRequirements projectPath (framework config)
         @ FlaskBuilder_createSourceStructure projectPath
         @ FlaskBuilder_createMainApplication projectPath (projectName config)
         @ FlaskBuilder_createConfig projectPath
         @ FlaskBuilder_createGitignore projectPath
         @ (if useDocker then FlaskBuilder_createDockerFiles projectPath (projectName config) else [])
         @ (if useTests then FlaskBuilder_createTestStructure projectPath (projectName config) else []))"

definition FlaskBuilder_ok :: "ProjectConfig \<Rightarrow> BuilderResult" where
  "FlaskBuilder_ok config =
     \<lparr>success = True,
      message = ''Flask project '' @ quoted (projectName config) @ '' created successfully'',
      files = Some [''requirements.txt'', ''app/__init__.py'', ''app/routes.py'', ''app/config.py''],
      error = None\<rparr>"

definition FlaskBuilder_build :: "env \<Rightarrow> fs_op list \<Rightarrow> ProjectConfig \<Rightarrow> (string + BuilderResult) \<times> fs_op list" where
  "FlaskBuilder_build e tr config =
     (case resolve_project_path e config of
        Inl err \<Rightarrow> (Inl err, tr)
      | Inr projectPath \<Rightarrow>
          try_build (fs e) tr (FlaskBuilder_steps projectPath config) (FlaskBuilder_ok config)
            ''Failed to create Flask project'')"

section \<open>ExpressBuilder (builders/express-builder.ts)\<close>

definition ExpressBuilder_createPackageJson :: "path \<Rightarrow> string \<Rightarrow> bool \<Rightarrow> bool \<Rightarrow> step list" where
  "ExpressBuilder_createPackageJson projectPath name useTypeScript useRest =
     [Do (WriteFile (path_join projectPath [''package.json''])
            (Rendered ''Express.packageJson'' [S name, B useTypeScript, B useRest]))]"

definition ExpressBuilder_createSourceStructure :: "path \<Rightarrow> bool \<Rightarrow> step list" where
  "ExpressBuilder_createSourceStructure projectPath useTypeScript =
     (let srcPath = path_join projectPath [''src''];
          controllersPath = path_join srcPath [''controllers''];
          middlewarePath = path_join srcPath [''middleware''];
          servicesPath = path_join srcPath [''services'']
      in [Do (Mkdir controllersPath), Do (Mkdir middlewarePath), Do (Mkdir servicesPath)])"

definition ExpressBuilder_createMainApplication :: "path \<Rightarrow> string \<Rightarrow> bool \<Rightarrow> step list" where
  "ExpressBuilder_createMainApplication projectPath name useTypeScript =
     (let ext = (if useTypeScript then ''ts'' else ''js'') in
      [Do (WriteFile (path_join projectPath [''src'', ''index.'' @ ext]) (Rendered ''Express.content'' [S name]))])"

definition ExpressBuilder_createRoutes :: "path \<Rightarrow> bool \<Rightarrow> bool \<Rightarrow> step list" where
  "ExpressBuilder_createRoutes projectPath useTypeScript useRest =
     (let ext = (if useTypeScript then ''ts'' else ''js'') in
      [Do (WriteFile (path_join projectPath [''src'', ''routes.'' @ ext]) (Rendered ''Express.routes'' [B useRest]))])"

definition ExpressBuilder_createConfig :: "path \<Rightarrow> bool \<Rightarrow> step list" where
  "ExpressBuilder_createConfig projectPath useTypeScript =
     (let ext = (if useTypeScript then ''ts'' else ''js'') in
      [Do (WriteFile (path_join projectPath [''src'', ''config.'' @ ext]) (Rendered ''Express.config'' [])),
       Do (WriteFile (path_join projectPath [''src'', ''middleware'', ''errorHandler.'' @ ext])
             (Rendered ''Express.errorHandlerContent'' [])),
       Do (WriteFile (path_join projectPath [''.env.example'']) (Rendered ''Express.envContent'' []))])"

definition ExpressBuilder_createDockerFiles :: "path \<Rightarrow> string \<Rightarrow> step list" where
  "ExpressBuilder_createDockerFiles projectPath name =
     [Do (WriteFile (path_join projectPath [''Dockerfile'']) (Rendered ''Express.dockerfile'' [])),
      Do (WriteFile (path_join projectPath [''docker-compose.yml'']) (Rendered ''Express.dockerCompose'' []))]"

definition ExpressBuilder_createTestStructure :: "path \<Rightarrow> string \<Rightarrow> bool \<Rightarrow> step list" where
  "ExpressBuilder_createTestStructure projectPath name useTypeScript =
     (let testsPath = path_join projectPath [''tests''] in
      [Do (Mkdir testsPath),
       Do (WriteFile (path_join testsPath [''app.test.'' @ (if useTypeScript then ''ts'' else ''js'')])
             (Rendered ''Express.testContent'' [S name, S name])),
       Do (WriteFile (path_join projectPath [''jest.config.js'']) (Rendered ''Express.jestConfig'' []))])"

definition ExpressBuilder_createGitignore :: "path \<Rightarrow> step list" where
  "ExpressBuilder_createGitignore projectPath =
     [Do (WriteFile (path_join projectPath [''.gitignore'']) (Rendered ''Express.gitignore'' []))]"

definition ExpressBuilder_steps :: "path \<Rightarrow> ProjectConfig \<Rightarrow> step list" where
  "ExpressBuilder_steps projectPath config =
     (let backendOptions = options_or_empty config;
          useTypeScript = (framework config = ''express-ts'' \<or> not_false (get_prop backendOptions ''typescript''));
          useRest = (framework config = ''express-rest'');
          useDocker = not_false (get_prop backendOptions ''docker'');
          useTests = not_false (get_prop backendOptions ''tests'')
      in Do (Mkdir projectPath) #
         ExpressBuilder_createPackageJson projectPath (projectName config) useTypeScript useRest
         @ ExpressBuilder_createSourceStructure projectPath useTypeScript
         @ ExpressBuilder_createMainApplication projectPath (projectName config) useTypeScript
         @ ExpressBuilder_createRoutes projectPath useTypeScript useRest
         @ ExpressBuilder_createConfig projectPath useTypeScript
         @ ExpressBuilder_createGitignore projectPath
         @ (if useDocker then ExpressBuilder_createDockerFiles projectPath (projectName config) else [])
         @ (if useTests then ExpressBuilder_createTestStructure projectPath (projectName config) useTypeScript else []))"

definition ExpressBuilder_ok :: "ProjectConfig \<Rightarrow> BuilderResult" where
  "ExpressBuilder_ok config =
     \<lparr>success = True,
      message = ''Express project '' @ quoted (projectName config) @ '' created successfully'',
      files = Some [''package.json'', ''src/app.ts'', ''src/routes.ts'', ''src/config.ts''],
      error = None\<rparr>"

definition ExpressBuilder_build :: "env \<Rightarrow> fs_op list \<Rightarrow> ProjectConfig \<Rightarrow> (string + BuilderResult) \<times> fs_op list" where
  "ExpressBuilder_build e tr config =
     (case resolve_project_path e config of
        Inl err \<Rightarrow> (Inl err, tr)
      | Inr projectPath \<Rightarrow>
          try_build (fs e) tr (ExpressBuilder_steps projectPath config) (ExpressBuilder_ok config)
            ''Failed to create Express project'')"

section \<open>SpringBootBuilder (builders/spring-boot-builder.ts)\<close>

definition is_word :: "char \<Rightarrow> bool" where
  \<comment> \<open>the regular expression class \<open>\w\<close>\<close>
  "is_word c = (is_upper c \<or> is_lower c \<or> (48 \<le> (of_char c :: nat) \<and> (of_char c :: nat) \<le> 57) \<or> c = CHR ''_'')"

fun pascal_rest :: "string \<Rightarrow> string" where
  \<comment> \<open>the matches of \<open>-\w\<close> after the start of the string, each replaced by its upper-cased letter\<close>
  "pascal_rest [] = []"
| "pascal_rest [c] = [c]"
| "pascal_rest (c # d # cs) =
     (if c = CHR ''-'' \<and> is_word d then upper_char d # pascal_rest cs else c # pascal_rest (d # cs))"

definition toPascalCase :: "string \<Rightarrow> string" where
  \<comment> \<open>\<open>str.replace(/(^\w|-\w)/g, (match) => match.replace('-', '').toUpperCase())\<close>\<close>
  "toPascalCase str =
     (case str of [] \<Rightarrow> [] | c # cs \<Rightarrow> if is_word c then upper_char c # pascal_rest cs else pascal_rest str)"

definition dots_to_slashes :: "string \<Rightarrow> string" where
  \<comment> \<open>\<open>groupId.replace(/\./g, '/')\<close>\<close>
  "dots_to_slashes s = map (\<lambda>c. if c = CHR ''.'' then CHR ''/'' else c) s"

definition SpringBootBuilder_javaVersion :: "options \<Rightarrow> jsval" where
  "SpringBootBuilder_javaVersion opts = js_or (get_prop opts ''javaVersion'') (JStr ''17'')"

definition SpringBootBuilder_springBootVersion :: "options \<Rightarrow> jsval" where
  "SpringBootBuilder_springBootVersion opts = js_or (get_prop opts ''springBootVersion'') (JStr ''3.2.0'')"

definition SpringBootBuilder_groupId :: "options \<Rightarrow> jsval" where
  "SpringBootBuilder_groupId opts = js_or (get_prop opts ''groupId'') (JStr ''com.example'')"

definition SpringBootBuilder_artifactId :: "options \<Rightarrow> string \<Rightarrow> jsval" where
  "SpringBootBuilder_artifactId opts name = js_or (get_prop opts ''artifactId'') (JStr name)"

definition SpringBootBuilder_generatePomXml :: "jsval \<Rightarrow> jsval \<Rightarrow> jsval \<Rightarrow> jsval \<Rightarrow> content option" where
  \<comment> \<open>a template literal over the four values; \<open>None\<close> when one of them has no string conversion\<close>
  "SpringBootBuilder_generatePomXml groupId artifactId version javaVersion =
     (case (to_string version, to_string groupId, to_string artifactId, to_string javaVersion) of
        (Some v, Some g, Some a, Some j) \<Rightarrow> Some (Rendered ''SpringBoot.pomXml'' [S v, S g, S a, S a, S j])
      | _ \<Rightarrow> None)"

definition SpringBootBuilder_createSourceStructure :: "path \<Rightarrow> jsval \<Rightarrow> jsval \<Rightarrow> step list" where
  "SpringBootBuilder_createSourceStructure projectPath groupId artifactId =
     (case groupId of
        JStr g \<Rightarrow>
          (let packagePath = dots_to_slashes g;
               javaPath = path_join projectPath [''src'', ''main'', ''java'', packagePath];
               resourcesPath = path_join projectPath [''src'', ''main'', ''resources''];
               testPath = path_join projectPath [''src'', ''test'', ''java'', packagePath]
           in [Do (Mkdir javaPath), Do (Mkdir resourcesPath), Do (Mkdir testPath)])
      | _ \<Rightarrow> [Raise ''groupId.replace is not a function''])"

definition SpringBootBuilder_createApplicationProperties :: "path \<Rightarrow> step list" where
  "SpringBootBuilder_createApplicationProperties projectPath =
     [Do (WriteFile (path_join projectPath [''src'', ''main'', ''resources'', ''application.properties''])
            (Rendered ''SpringBoot.applicationProperties'' []))]"

definition SpringBootBuilder_createMainApplication :: "path \<Rightarrow> jsval \<Rightarrow> jsval \<Rightarrow> step list" where
  "SpringBootBuilder_createMainApplication projectPath groupId artifactId =
     (case groupId of
        JStr g \<Rightarrow>
          (case artifactId of
             JStr a \<Rightarrow>
               (let packagePath = dots_to_slashes g;
                    className = toPascalCase a
                in [Do (WriteFile
                          (path_join projectPath [''src'', ''main'', ''java'', packagePath, className @ ''Application.java''])
                          (Rendered ''SpringBoot.mainApplication'' [S g, S className, S className]))])
           | _ \<Rightarrow> [Raise ''str.replace is not a function''])
      | _ \<Rightarrow> [Raise ''groupId.replace is not a function''])"

definition SpringBootBuilder_createGitignore :: "path \<Rightarrow> step list" where
  "SpringBootBuilder_createGitignore projectPath =
     [Do (WriteFile (path_join projectPath [''.gitignore'']) (Rendered ''SpringBoot.gitignore'' []))]"

definition SpringBootBuilder_steps :: "path \<Rightarrow> ProjectConfig \<Rightarrow> step list" where
  "SpringBootBuilder_steps projectPath config =
     (let opts = options_or_empty config;
          javaVersion = SpringBootBuilder_javaVersion opts;
          springBootVersion = SpringBootBuilder_springBootVersion opts;
          groupId = SpringBootBuilder_groupId opts;
          artifactId = SpringBootBuilder_artifactId opts (projectName config);
          pomContent = SpringBootBuilder_generatePomXml groupId artifactId springBootVersion javaVersion
      in [Do (Mkdir projectPath),
          (case pomContent of
             None \<Rightarrow> Raise cannot_convert
           | Some content \<Rightarrow> Do (WriteFile (path_join projectPath [''pom.xml'']) content))]
         @ SpringBootBuilder_createSourceStructure projectPath groupId artifactId
         @ SpringBootBuilder_createApplicationProperties projectPath
         @ SpringBootBuilder_createMainApplication projectPath groupId artifactId
         @ SpringBootBuilder_createGitignore projectPath)"

definition SpringBootBuilder_ok :: "ProjectConfig \<Rightarrow> BuilderResult" where
  "SpringBootBuilder_ok config =
     \<lparr>success = True,
      message = ''Spring Boot project '' @ quoted (projectName config) @ '' created successfully'',
      files = Some [''pom.xml'', ''src/main/resources/application.properties'', ''src/main/java/.../Application.java''],
      error = None\<rparr>"

definition SpringBootBuilder_build :: "env \<Rightarrow> fs_op list \<Rightarrow> ProjectConfig \<Rightarrow> (string + BuilderResult) \<times> fs_op list" where
  "SpringBootBuilder_build e tr config =
     (case resolve_project_path e config of
        Inl err \<Rightarrow> (Inl err, tr)
      | Inr projectPath \<Rightarrow>
          try_build (fs e) tr (SpringBootBuilder_steps projectPath config) (SpringBootBuilder_ok config)
            ''Failed to create Spring Boot project'')"

section \<open>FastifyBuilder (builders/fastify-builder.ts)\<close>

definition FastifyBuilder_createPackageJson :: "path \<Rightarrow> string \<Rightarrow> bool \<Rightarrow> bool \<Rightarrow> step list" where
  "FastifyBuilder_createPackageJson projectPath name useTypeScript useRest =
     [Do (WriteFile (path_join projectPath [''package.json''])
            (Rendered ''Fastify.packageJson'' [S name, B useTypeScript, B useRest]))]"

definition FastifyBuilder_createSourceStructure :: "path \<Rightarrow> bool \<Rightarrow> step list" where
  "FastifyBuilder_createSourceStructure projectPath useTypeScript =
     (let srcPath = path_join projectPath [''src''];
          pluginsPath = path_join srcPath [''plugins''];
          routesPath = path_join srcPath [''routes''];
          servicesPath = path_join srcPath [''services'']
      in [Do (Mkdir pluginsPath), Do (Mkdir routesPath), Do (Mkdir servicesPath)])"

definition FastifyBuilder_createMainApplication :: "path \<Rightarrow> string \<Rightarrow> bool \<Rightarrow> step list" where
  "FastifyBuilder_createMainApplication projectPath name useTypeScript =
     (let ext = (if useTypeScript then ''ts'' else ''js'') in
      [Do (WriteFile (path_join projectPath [''src'', ''index.'' @ ext]) (Rendered ''Fastify.content'' [S name]))])"

definition FastifyBuilder_createRoutes :: "path \<Rightarrow> bool \<Rightarrow> bool \<Rightarrow> step list" where
  "FastifyBuilder_createRoutes projectPath useTypeScript useRest =
     (let ext = (if useTypeScript then ''ts'' else ''js'') in
      [Do (WriteFile (path_join projectPath [''src'', ''routes.'' @ ext]) (Rendered ''Fastify.routes'' [B useRest])),
       Do (WriteFile (path_join projectPath [''src'', ''plugins'', ''index.'' @ ext])
             (Rendered ''Fastify.pluginsContent'' []))])"

definition FastifyBuilder_createConfig :: "path \<Rightarrow> bool \<Rightarrow> step list" where
  "FastifyBuilder_createConfig projectPath useTypeScript =
     (let ext = (if useTypeScript then ''ts'' else ''js'') in
      [Do (WriteFile (path_join projectPath [''src'', ''config.'' @ ext]) (Rendered ''Fastify.config'' [])),
       Do (WriteFile (path_join projectPath [''.env.example'']) (Rendered ''Fastify.envContent'' []))])"

definition FastifyBuilder_createDockerFiles :: "path \<Rightarrow> string \<Rightarrow> step list" where
  "FastifyBuilder_createDockerFiles projectPath name =
     [Do (WriteFile (path_join projectPath [''Dockerfile'']) (Rendered ''Fastify.dockerfile'' [])),
      Do (WriteFile (path_join projectPath [''docker-compose.yml'']) (Rendered ''Fastify.dockerCompose'' []))]"

definition FastifyBuilder_createTestStructure :: "path \<Rightarrow> string \<Rightarrow> bool \<Rightarrow> step list" where
  "FastifyBuilder_createTestStructure projectPath name useTypeScript =
     (let testsPath = path_join projectPath [''tests''] in
      [Do (Mkdir testsPath),
       Do (WriteFile (path_join testsPath [''app.test.'' @ (if useTypeScript then ''ts'' else ''js'')])
             (Rendered ''Fastify.testContent'' [S name, S name]))])"

definition FastifyBuilder_createGitignore :: "path \<Rightarrow> step list" where
  "FastifyBuilder_createGitignore projectPath =
     [Do (WriteFile (path_join projectPath [''.gitignore'']) (Rendered ''Fastify.gitignore'' []))]"

definition FastifyBuilder_steps :: "path \<Rightarrow> ProjectConfig \<Rightarrow> step list" where
  "FastifyBuilder_steps projectPath config =
     (let backendOptions = options_or_empty config;
          useTypeScript = (framework config = ''fastify-ts'' \<or> not_false (get_prop backendOptions ''typescript''));
          useRest = (framework config = ''fastify-rest'');
          useDocker = not_false (get_prop backendOptions ''docker'');
          useTests = not_false (get_prop backendOptions ''tests'')
      in Do (Mkdir projectPath) #
         FastifyBuilder_createPackageJson projectPath (projectName config) useTypeScript useRest
         @ FastifyBuilder_createSourceStructure projectPath useTypeScript
         @ FastifyBuilder_createMainApplication projectPath (projectName config) useTypeScript
         @ FastifyBuilder_createRoutes projectPath useTypeScript useRest
         @ FastifyBuilder_createConfig projectPath useTypeScript
         @ FastifyBuilder_createGitignore projectPath
         @ (if useDocker then FastifyBuilder_createDockerFiles projectPath (projectName config) else [])
         @ (if useTests then FastifyBuilder_createTestStructure projectPath (projectName config) useTypeScript else []))"

definition FastifyBuilder_ok :: "ProjectConfig \<Rightarrow> BuilderResult" where
  "FastifyBuilder_ok config =
     \<lparr>success = True,
      message = ''Fastify project '' @ quoted (projectName config) @ '' created successfully'',
      files = Some [''package.json'', ''src/app.ts'', ''src/routes.ts'', ''src/config.ts''],
      error = None\<rparr>"

definition FastifyBuilder_build :: "env \<Rightarrow> fs_op list \<Rightarrow> ProjectConfig \<Rightarrow> (string + BuilderResult) \<times> fs_op list" where
  "FastifyBuilder_build e tr config =
     (case resolve_project_path e config of
        Inl err \<Rightarrow> (Inl err, tr)
      | Inr projectPath \<Rightarrow>
          try_build (fs e) tr (FastifyBuilder_steps projectPath config) (FastifyBuilder_ok config)
            ''Failed to create Fastify project'')"

section \<open>NestJSBuilder (builders/nestjs-builder.ts)\<close>

definition NestJSBuilder_createPackageJson :: "path \<Rightarrow> string \<Rightarrow> bool \<Rightarrow> step list" where
  "NestJSBuilder_createPackageJson projectPath name useGraphQL =
     [Do (WriteFile (path_join projectPath [''package.json''])
            (Rendered ''NestJS.packageJson'' [S name, B useGraphQL]))]"

definition NestJSBuilder_createSourceStructure :: "path \<Rightarrow> step list" where
  "NestJSBuilder_createSourceStructure projectPath =
     (let srcPath = path_join projectPath [''src''];
          modulesPath = path_join srcPath [''modules''];
          commonPath = path_join srcPath [''common''];
          decoratorsPath = path_join commonPath [''decorators''];
          filtersPath = path_join commonPath [''filters''];
          guardsPath = path_join commonPath [''guards''];
          interceptorsPath = path_join commonPath [''interceptors''];
          pipesPath = path_join commonPath [''pipes'']
      in [Do (Mkdir modulesPath), Do (Mkdir decoratorsPath), Do (Mkdir filtersPath), Do (Mkdir guardsPath),
          Do (Mkdir interceptorsPath), Do (Mkdir pipesPath)])"

definition NestJSBuilder_createMainApplication :: "path \<Rightarrow> string \<Rightarrow> step list" where
  "NestJSBuilder_createMainApplication projectPath name =
     [Do (WriteFile (path_join projectPath [''src'', ''main.ts'']) (Rendered ''NestJS.content'' [S name]))]"

definition NestJSBuilder_createAppModule :: "path \<Rightarrow> string \<Rightarrow> step list" where
  "NestJSBuilder_createAppModule projectPath name =
     [Do (WriteFile (path_join projectPath [''src'', ''app.module.ts'']) (Rendered ''NestJS.appModule'' [])),
      Do (WriteFile (path_join projectPath [''src'', ''app.controller.ts'']) (Rendered ''NestJS.controllerContent'' [])),
      Do (WriteFile (path_join projectPath [''src'', ''app.service.ts'']) (Rendered ''NestJS.serviceContent'' []))]"

definition NestJSBuilder_createConfig :: "path \<Rightarrow> step list" where
  "NestJSBuilder_createConfig projectPath =
     [Do (WriteFile (path_join projectPath [''src'', ''config.ts'']) (Rendered ''NestJS.config'' [])),
      Do (WriteFile (path_join projectPath [''.env.example'']) (Rendered ''NestJS.envContent'' [])),
      Do (WriteFile (path_join projectPath [''nest-cli.json'']) (Rendered ''NestJS.nestCliContent'' []))]"

definition NestJSBuilder_createDockerFiles :: "path \<Rightarrow> string \<Rightarrow> step list" where
  "NestJSBuilder_createDockerFiles projectPath name =
     [Do (WriteFile (path_join projectPath [''Dockerfile'']) (Rendered ''NestJS.dockerfile'' [])),
      Do (WriteFile (path_join projectPath [''docker-compose.yml'']) (Rendered ''NestJS.dockerCompose'' []))]"

definition NestJSBuilder_createTestStructure :: "path \<Rightarrow> string \<Rightarrow> step list" where
  "NestJSBuilder_createTestStructure projectPath name =
     (let testPath = path_join projectPath [''test''] in
      [Do (Mkdir testPath),
       Do (WriteFile (path_join testPath [''app.e2e-spec.ts'']) (Rendered ''NestJS.appSpecContent'' [])),
       Do (WriteFile (path_join testPath [''jest-e2e.json'']) (Rendered ''NestJS.jestE2eContent'' []))])"

definition NestJSBuilder_createGitignore :: "path \<Rightarrow> step list" where
  "NestJSBuilder_createGitignore projectPath =
     [Do (WriteFile (path_join projectPath [''.gitignore'']) (Rendered ''NestJS.gitignore'' []))]"

definition NestJSBuilder_steps :: "path \<Rightarrow> ProjectConfig \<Rightarrow> step list" where
  "NestJSBuilder_steps projectPath config =
     (let opts = options_or_empty config;
          useGraphQL = (framework config = ''nestjs-graphql'');
          useDocker = not_false (get_prop opts ''docker'');
          useTests = not_false (get_prop opts ''tests'')
      in Do (Mkdir projectPath) #
         NestJSBuilder_createPackageJson projectPath (projectName config) useGraphQL
         @ NestJSBuilder_createSourceStructure projectPath
         @ NestJSBuilder_createMainApplication projectPath (projectName config)
         @ NestJSBuilder_createAppModule projectPath (projectName config)
         @ NestJSBuilder_createConfig projectPath
         @ NestJSBuilder_createGitignore projectPath
         @ (if useDocker then NestJSBuilder_createDockerFiles projectPath (projectName config) else [])
         @ (if useTests then NestJSBuilder_createTestStructure projectPath (projectName config) else []))"

definition NestJSBuilder_ok :: "ProjectConfig \<Rightarrow> BuilderResult" where
  "NestJSBuilder_ok config =
     \<lparr>success = True,
      message = ''NestJS project '' @ quoted (projectName config) @ '' created successfully'',
      files = Some [''package.json'', ''src/main.ts'', ''src/app.module.ts'', ''src/config.ts''],
      error = None\<rparr>"

definition NestJSBuilder_build :: "env \<Rightarrow> fs_op list \<Rightarrow> ProjectConfig \<Rightarrow> (string + BuilderResult) \<times> fs_op list" where
  "NestJSBuilder_build e tr config =
     (case resolve_project_path e config of
        Inl err \<Rightarrow> (Inl err, tr)
      | Inr projectPath \<Rightarrow>
          try_build (fs e) tr (NestJSBuilder_steps projectPath config) (NestJSBuilder_ok config)
            ''Failed to create NestJS project'')"

section \<open>DjangoBuilder (builders/django-builder.ts)\<close>

definition DjangoBuilder_requirements :: "bool \<Rightarrow> string" where
  "DjangoBuilder_requirements useRest =
     ''Django>=5.0.0\<newline>python-dotenv>=1.0.0\<newline>Pillow>=10.0.0\<newline>''
     @ (if useRest then ''djangorestframework>=3.14.0\<newline>django-cors-headers>=4.3.0\<newline>'' else [])"

definition DjangoBuilder_createRequirements :: "path \<Rightarrow> bool \<Rightarrow> step list" where
  "DjangoBuilder_createRequirements projectPath useRest =
     [Do (WriteFile (path_join projectPath [''requirements.txt'']) (Literal (DjangoBuilder_requirements useRest)))]"

definition DjangoBuilder_createProjectStructure :: "path \<Rightarrow> string \<Rightarrow> step list" where
  "DjangoBuilder_createProjectStructure projectPath name =
     (let projectDir = path_join projectPath [name] in
      [Do (Mkdir projectDir), Do (WriteFile (path_join projectDir [''__init__.py'']) (Literal []))])"

definition DjangoBuilder_createSettings :: "path \<Rightarrow> string \<Rightarrow> step list" where
  "DjangoBuilder_createSettings projectPath name =
     [Do (WriteFile (path_join projectPath [name, ''settings.py'']) (Rendered ''Django.settings'' [S name, S name, S name]))]"

definition DjangoBuilder_createUrls :: "path \<Rightarrow> string \<Rightarrow> step list" where
  "DjangoBuilder_createUrls projectPath name =
     [Do (WriteFile (path_join projectPath [name, ''urls.py'']) (Rendered ''Django.urls'' []))]"

definition DjangoBuilder_createWsgi :: "path \<Rightarrow> string \<Rightarrow> step list" where
  "DjangoBuilder_createWsgi projectPath name =
     [Do (WriteFile (path_join projectPath [name, ''wsgi.py'']) (Rendered ''Django.wsgi'' [S name]))]"

definition DjangoBuilder_createAsgi :: "path \<Rightarrow> string \<Rightarrow> step list" where
  "DjangoBuilder_createAsgi projectPath name =
     [Do (WriteFile (path_join projectPath [name, ''asgi.py'']) (Rendered ''Django.asgi'' [S name]))]"

definition DjangoBuilder_createManagePy :: "path \<Rightarrow> string \<Rightarrow> step list" where
  "DjangoBuilder_createManagePy projectPath name =
     [Do (WriteFile (path_join projectPath [''manage.py'']) (Rendered ''Django.managePy'' [S name]))]"

definition DjangoBuilder_createDockerFiles :: "path \<Rightarrow> string \<Rightarrow> step list" where
  "DjangoBuilder_createDockerFiles projectPath name =
     [Do (WriteFile (path_join projectPath [''Dockerfile'']) (Rendered ''Django.dockerfile'' [])),
      Do (WriteFile (path_join projectPath [''docker-compose.yml'']) (Rendered ''Django.dockerCompose'' []))]"

definition DjangoBuilder_createGitignore :: "path \<Rightarrow> step list" where
  "DjangoBuilder_createGitignore projectPath =
     [Do (WriteFile (path_join projectPath [''.gitignore'']) (Rendered ''Django.gitignore'' []))]"

definition DjangoBuilder_steps :: "path \<Rightarrow> ProjectConfig \<Rightarrow> step list" where
  "DjangoBuilder_steps projectPath config =
     (let backendOptions = options_or_empty config;
          pythonVersion = js_or (get_prop backendOptions ''pythonVersion'') (JStr ''3.11'');
          useDocker = not_false (get_prop backendOptions ''docker'');
          useRest = (framework config = ''django-rest'')
      in Do (Mkdir projectPath) #
         DjangoBuilder_createRequirements projectPath useRest
         @ DjangoBuilder_createProjectStructure projectPath (projectName config)
         @ DjangoBuilder_createSettings projectPath (projectName config)
         @ DjangoBuilder_createUrls projectPath (projectName config)
         @ DjangoBuilder_createWsgi projectPath (projectName config)
         @ DjangoBuilder_createAsgi projectPath (projectName config)
         @ DjangoBuilder_createManagePy projectPath (projectName config)
         @ DjangoBuilder_createGitignore projectPath
         @ (if useDocker then DjangoBuilder_createDockerFiles projectPath (projectName config) else []))"

definition DjangoBuilder_ok :: "ProjectConfig \<Rightarrow> BuilderResult" where
  "DjangoBuilder_ok config =
     \<lparr>success = True,
      message = ''Django project '' @ quoted (projectName config) @ '' created successfully'',
      files = Some [''requirements.txt'', ''manage.py'', ''project/settings.py'', ''project/urls.py''],
      error = None\<rparr>"

definition DjangoBuilder_build :: "env \<Rightarrow> fs_op list \<Rightarrow> ProjectConfig \<Rightarrow> (string + BuilderResult) \<times> fs_op list" where
  "DjangoBuilder_build e tr config =
     (case resolve_project_path e config of
        Inl err \<Rightarrow> (Inl err, tr)
      | Inr projectPath \<Rightarrow>
          try_build (fs e) tr (DjangoBuilder_steps projectPath config) (DjangoBuilder_ok config)
            ''Failed to create Django project'')"

section \<open>FastAPIBuilder (builders/fastapi-builder.ts)\<close>

definition FastAPIBuilder_createPyprojectToml :: "path \<Rightarrow> string \<Rightarrow> jsval \<Rightarrow> step list" where
  "FastAPIBuilder_createPyprojectToml projectPath name pythonVersion =
     (case to_string pythonVersion of
        None \<Rightarrow> [Raise cannot_convert]
      | Some v \<Rightarrow>
          [Do (WriteFile (path_join projectPath [''pyproject.toml''])
                 (Rendered ''FastAPI.pyprojectToml'' [S name, S v]))])"

definition FastAPIBuilder_createSourceStructure :: "path \<Rightarrow> string \<Rightarrow> step list" where
  "FastAPIBuilder_createSourceStructure projectPath name =
     (let appPath = path_join projectPath [''app''];
          apiPath = path_join appPath [''api''];
          modelsPath = path_join appPath [''models''];
          servicesPath = path_join appPath [''services'']
      in [Do (Mkdir apiPath), Do (Mkdir modelsPath), Do (Mkdir servicesPath),
          Do (WriteFile (path_join apiPath [''__init__.py'']) (Literal [])),
          Do (WriteFile (path_join modelsPath [''__init__.py'']) (Literal [])),
          Do (WriteFile (path_join servicesPath [''__init__.py'']) (Literal []))])"

definition FastAPIBuilder_createMainApplication :: "path \<Rightarrow> string \<Rightarrow> step list" where
  "FastAPIBuilder_createMainApplication projectPath name =
     [Do (WriteFile (path_join projectPath [''app'', ''main.py'']) (Rendered ''FastAPI.content'' [S name, S name]))]"

definition FastAPIBuilder_createConfig :: "path \<Rightarrow> step list" where
  "FastAPIBuilder_createConfig projectPath =
     [Do (WriteFile (path_join projectPath [''app'', ''config.py'']) (Rendered ''FastAPI.config'' []))]"

definition FastAPIBuilder_createRequirements :: "path \<Rightarrow> step list" where
  "FastAPIBuilder_createRequirements projectPath =
     [Do (WriteFile (path_join projectPath [''requirements.txt'']) (Rendered ''FastAPI.requirements'' []))]"

definition FastAPIBuilder_createDockerFiles :: "path \<Rightarrow> string \<Rightarrow> step list" where
  "FastAPIBuilder_createDockerFiles projectPath name =
     [Do (WriteFile (path_join projectPath [''Dockerfile'']) (Rendered ''FastAPI.dockerfile'' [])),
      Do (WriteFile (path_join projectPath [''docker-compose.yml'']) (Rendered ''FastAPI.dockerCompose'' []))]"

definition FastAPIBuilder_createTestStructure :: "path \<Rightarrow> string \<Rightarrow> step list" where
  "FastAPIBuilder_createTestStructure projectPath name =
     (let testsPath = path_join projectPath [''tests''] in
      [Do (Mkdir testsPath),
       Do (WriteFile (path_join testsPath [''test_main.py'']) (Rendered ''FastAPI.testContent'' [S name])),
       Do (WriteFile (path_join testsPath [''__init__.py'']) (Literal []))])"

definition FastAPIBuilder_createGitignore :: "path \<Rightarrow> step list" where
  "FastAPIBuilder_createGitignore projectPath =
     [Do (WriteFile (path_join projectPath [''.gitignore'']) (Rendered ''FastAPI.gitignore'' []))]"

definition FastAPIBuilder_steps :: "path \<Rightarrow> ProjectConfig \<Rightarrow> step list" where
  "FastAPIBuilder_steps projectPath config =
     (let backendOptions = options_or_empty config;
          pythonVersion = js_or (get_prop backendOptions ''pythonVersion'') (JStr ''3.11'');
          useDocker = not_false (get_prop backendOptions ''docker'');
          useTests = not_false (get_prop backendOptions ''tests'')
      in Do (Mkdir projectPath) #
         FastAPIBuilder_createPyprojectToml projectPath (projectName config) pythonVersion
         @ FastAPIBuilder_createSourceStructure projectPath (projectName config)
         @ FastAPIBuilder_createMainApplication projectPath (projectName config)
         @ FastAPIBuilder_createRequirements projectPath
         @ FastAPIBuilder_createConfig projectPath
         @ FastAPIBuilder_createGitignore projectPath
         @ (if useDocker then FastAPIBuilder_createDockerFiles projectPath (projectName config) else [])
         @ (if useTests then FastAPIBuilder_createTestStructure projectPath (projectName config) else []))"

definition FastAPIBuilder_ok :: "ProjectConfig \<Rightarrow> BuilderResult" where
  "FastAPIBuilder_ok config =
     \<lparr>success = True,
      message = ''FastAPI project '' @ quoted (projectName config) @ '' created successfully'',
      files = Some [''pyproject.toml'', ''app/main.py'', ''app/config.py'', ''requirements.txt''],
      error = None\<rparr>"

definition FastAPIBuilder_build :: "env \<Rightarrow> fs_op list \<Rightarrow> ProjectConfig \<Rightarrow> (string + BuilderResult) \<times> fs_op list" where
  "FastAPIBuilder_build e tr config =
     (case resolve_project_path e config of
        Inl err \<Rightarrow> (Inl err, tr)
      | Inr projectPath \<Rightarrow>
          try_build (fs e) tr (FastAPIBuilder_steps projectPath config) (FastAPIBuilder_ok config)
            ''Failed to create FastAPI project'')"

section \<open>VueBuilder (builders/vue-builder.ts)\<close>

definition VueBuilder_createTailwindConfig :: "path \<Rightarrow> bool \<Rightarrow> step list" where
  "VueBuilder_createTailwindConfig projectPath useTypeScript =
     (let ext = (if useTypeScript then ''.ts'' else ''.js'') in
      [Do (WriteFile (path_join projectPath [''tailwind.config'' @ ext]) (Rendered ''Vue.tailwindConfig'' [])),
       Do (WriteFile (path_join projectPath [''postcss.config.js'']) (Rendered ''Vue.postcssConfig'' []))])"

definition VueBuilder_createPiniaStore :: "path \<Rightarrow> string \<Rightarrow> step list" where
  "VueBuilder_createPiniaStore srcPath tsExt =
     (let storesPath = path_join srcPath [''stores''] in
      [Do (Mkdir storesPath),
       Do (WriteFile (path_join storesPath [''counter'' @ tsExt]) (Rendered ''Vue.storeContent'' []))])"

definition VueBuilder_createVueSourceFiles :: "path \<Rightarrow> bool \<Rightarrow> string \<Rightarrow> options \<Rightarrow> step list" where
  "VueBuilder_createVueSourceFiles projectPath useTypeScript tsExt opts =
     (let srcPath = path_join projectPath [''src''];
          tailwind = or_default (get_prop opts ''tailwind'') (JBool False);
          stateManagement = or_default (get_prop opts ''stateManagement'') (JStr ''none'');
          router = or_default (get_prop opts ''router'') (JBool False)
      in [Do (Mkdir srcPath)]
         @ (if truthy router
            then (let viewsPath = path_join srcPath [''views''];
                      routerPath = path_join srcPath [''router'']
                  in [Do (Mkdir viewsPath),
                      Do (WriteFile (path_join viewsPath [''Home.vue'']) (Rendered ''Vue.homeViewContent'' [])),
                      Do (WriteFile (path_join viewsPath [''About.vue'']) (Rendered ''Vue.aboutViewContent'' [])),
                      Do (Mkdir routerPath),
                      Do (WriteFile (path_join routerPath [''index'' @ tsExt]) (Rendered ''Vue.routerContent'' []))])
            else [])
         @ [Do (WriteFile (path_join srcPath [''App.vue''])
                  (Rendered ''Vue.appContent'' [B (truthy router), B useTypeScript])),
            Do (WriteFile (path_join srcPath [''main'' @ tsExt]) (Rendered ''Vue.mainContent'' [B (truthy router)])),
            Do (WriteFile (path_join srcPath [''style.css'']) (Rendered ''Vue.styleContent'' [B (truthy tailwind)])),
            Do (Mkdir (path_join srcPath [''assets'']))]
         @ (if stateManagement = JStr ''pinia'' then VueBuilder_createPiniaStore srcPath tsExt else []))"

definition VueBuilder_createIndexHtml :: "path \<Rightarrow> string \<Rightarrow> jsval \<Rightarrow> step list" where
  "VueBuilder_createIndexHtml projectPath name hasRouter =
     (let scriptSrc = (if truthy hasRouter then ''/src/main.ts'' else ''/src/main.ts'') in
      [Do (WriteFile (path_join projectPath [''index.html'']) (Rendered ''Vue.indexHtml'' [S name, S scriptSrc]))])"

definition VueBuilder_createGitignore :: "path \<Rightarrow> step list" where
  "VueBuilder_createGitignore projectPath =
     [Do (WriteFile (path_join projectPath [''.gitignore'']) (Rendered ''Vue.gitignore'' []))]"

definition VueBuilder_createVueProject :: "path \<Rightarrow> string \<Rightarrow> bool \<Rightarrow> options \<Rightarrow> step list" where
  "VueBuilder_createVueProject projectPath name useTypeScript opts =
     (let tsExt = (if useTypeScript then ''.ts'' else ''.js'');
          tailwind = or_default (get_prop opts ''tailwind'') (JBool False);
          stateManagement = or_default (get_prop opts ''stateManagement'') (JStr ''none'');
          router = or_default (get_prop opts ''router'') (JBool False);
          eslint = or_default (get_prop opts ''eslint'') (JBool True);
          prettier = or_default (get_prop opts ''prettier'') (JBool True)
      in [Do (WriteFile (path_join projectPath [''package.json''])
                (Rendered ''Vue.packageJson''
                   [S name, B (stateManagement = JStr ''pinia''), B (truthy router), B (truthy tailwind),
                    B (truthy eslint), B (truthy prettier)])),
          Do (WriteFile (path_join projectPath [''vite.config'' @ tsExt]) (Rendered ''Vue.viteConfig'' []))]
         @ (if useTypeScript
            then [Do (WriteFile (path_join projectPath [''tsconfig.json'']) (Rendered ''Vue.tsconfig'' [])),
                  Do (WriteFile (path_join projectPath [''tsconfig.node.json'']) (Rendered ''Vue.tsconfigNode'' []))]
            else [])
         @ (if truthy tailwind then VueBuilder_createTailwindConfig projectPath useTypeScript else [])
         @ VueBuilder_createVueSourceFiles projectPath useTypeScript tsExt opts
         @ VueBuilder_createIndexHtml projectPath name router
         @ VueBuilder_createGitignore projectPath)"

definition VueBuilder_steps :: "path \<Rightarrow> ProjectConfig \<Rightarrow> step list" where
  "VueBuilder_steps projectPath config =
     (let opts = options_or_empty config;
          useTypeScript = not_false (get_prop opts ''typescript'')
      in Do (Mkdir projectPath) # VueBuilder_createVueProject projectPath (projectName config) useTypeScript opts)"

definition VueBuilder_ok :: "ProjectConfig \<Rightarrow> BuilderResult" where
  "VueBuilder_ok config =
     \<lparr>success = True,
      message = ''Vue project '' @ quoted (projectName config) @ '' created successfully'',
      files = Some [''package.json'', ''src/App.vue'', ''src/main.ts'', ''index.html''],
      error = None\<rparr>"

definition VueBuilder_build :: "env \<Rightarrow> fs_op list \<Rightarrow> ProjectConfig \<Rightarrow> (string + BuilderResult) \<times> fs_op list" where
  "VueBuilder_build e tr config =
     (case resolve_project_path e config of
        Inl err \<Rightarrow> (Inl err, tr)
      | Inr projectPath \<Rightarrow>
          try_build (fs e) tr (VueBuilder_steps projectPath config) (VueBuilder_ok config)
            ''Failed to create Vue project'')"

section \<open>NuxtBuilder (builders/nuxt-builder.ts)\<close>

definition NuxtBuilder_createNuxtSourceFiles :: "path \<Rightarrow> bool \<Rightarrow> string \<Rightarrow> options \<Rightarrow> step list" where
  "NuxtBuilder_createNuxtSourceFiles projectPath useTypeScript ext opts =
     (let tailwind = or_default (get_prop opts ''tailwind'') (JBool False);
          stateManagement = or_default (get_prop opts ''stateManagement'') (JStr ''none'');
          pinia = (stateManagement = JStr ''pinia'');
          pagesPath = path_join projectPath [''pages''];
          counterPagePath = path_join pagesPath [''counter''];
          layoutsPath = path_join projectPath [''layouts''];
          assetsPath = path_join projectPath [''assets''];
          publicPath = path_join projectPath [''public'']
      in [Do (WriteFile (path_join projectPath [''app.vue'']) (Rendered ''Nuxt.appContent'' [])),
          Do (Mkdir pagesPath),
          Do (WriteFile (path_join pagesPath [''index.vue'']) (Rendered ''Nuxt.indexPageContent'' [B useTypeScript])),
          Do (WriteFile (path_join pagesPath [''about.vue'']) (Rendered ''Nuxt.aboutPageContent'' [B useTypeScript])),
          Do (Mkdir counterPagePath),
          Do (WriteFile (path_join counterPagePath [''index.vue''])
                (Rendered ''Nuxt.counterPageContent'' [B pinia, B useTypeScript, B pinia])),
          Do (Mkdir layoutsPath),
          Do (WriteFile (path_join layoutsPath [''default.vue'']) (Rendered ''Nuxt.defaultLayoutContent'' [])),
          Do (Mkdir (path_join assetsPath [''css''])),
          Do (WriteFile (path_join assetsPath [''css'', ''main.css'']) (Rendered ''Nuxt.cssContent'' [B (truthy tailwind)]))]
         @ (if pinia
            then (let storesPath = path_join projectPath [''stores''] in
                  [Do (Mkdir storesPath),
                   Do (WriteFile (path_join storesPath [''counter.'' @ ext]) (Rendered ''Nuxt.piniaStoreContent'' []))])
            else [])
         @ [Do (Mkdir publicPath),
            Do (WriteFile (path_join publicPath [''favicon.svg'']) (Rendered ''Nuxt.faviconContent'' []))])"

definition NuxtBuilder_createGitignore :: "path \<Rightarrow> step list" where
  "NuxtBuilder_createGitignore projectPath =
     [Do (WriteFile (path_join projectPath [''.gitignore'']) (Rendered ''Nuxt.gitignore'' []))]"

definition NuxtBuilder_createNuxtProject :: "path \<Rightarrow> string \<Rightarrow> bool \<Rightarrow> options \<Rightarrow> step list" where
  "NuxtBuilder_createNuxtProject projectPath name useTypeScript opts =
     (let ext = (if useTypeScript then ''.ts'' else ''.js'');
          tailwind = or_default (get_prop opts ''tailwind'') (JBool False);
          stateManagement = or_default (get_prop opts ''stateManagement'') (JStr ''none'');
          eslint = or_default (get_prop opts ''eslint'') (JBool True);
          prettier = or_default (get_prop opts ''prettier'') (JBool True);
          testing = or_default (get_prop opts ''testing'') (JBool False)
      in [Do (WriteFile (path_join projectPath [''package.json''])
                (Rendered ''Nuxt.packageJson''
                   [S name, B (stateManagement = JStr ''pinia''), B (truthy tailwind), B (truthy eslint),
                    B (truthy prettier), B (truthy testing)])),
          Do (WriteFile (path_join projectPath [''nuxt.config.'' @ ext])
                (Rendered ''Nuxt.nuxtConfig'' [B (truthy tailwind), B (stateManagement = JStr ''pinia'')]))]
         @ (if useTypeScript
            then [Do (WriteFile (path_join projectPath [''tsconfig.json'']) (Rendered ''Nuxt.tsConfig'' []))]
            else [])
         @ NuxtBuilder_createNuxtSourceFiles projectPath useTypeScript ext opts
         @ NuxtBuilder_createGitignore projectPath)"

definition NuxtBuilder_steps :: "path \<Rightarrow> ProjectConfig \<Rightarrow> step list" where
  "NuxtBuilder_steps projectPath config =
     (let frontendOptions = options_or_empty config;
          useTypeScript = not_false (get_prop frontendOptions ''typescript'')
      in Do (Mkdir projectPath) #
         NuxtBuilder_createNuxtProject projectPath (projectName config) useTypeScript frontendOptions)"

definition NuxtBuilder_ok :: "ProjectConfig \<Rightarrow> BuilderResult" where
  "NuxtBuilder_ok config =
     \<lparr>success = True,
      message = ''Nuxt.js project '' @ quoted (projectName config) @ '' created successfully'',
      files = Some [''package.json'', ''nuxt.config.ts'', ''app.vue'', ''pages/index.vue''],
      error = None\<rparr>"

definition NuxtBuilder_build :: "env \<Rightarrow> fs_op list \<Rightarrow> ProjectConfig \<Rightarrow> (string + BuilderResult) \<times> fs_op list" where
  "NuxtBuilder_build e tr config =
     (case resolve_project_path e config of
        Inl err \<Rightarrow> (Inl err, tr)
      | Inr projectPath \<Rightarrow>
          try_build (fs e) tr (NuxtBuilder_steps projectPath config) (NuxtBuilder_ok config)
            ''Failed to create Nuxt.js project'')"

section \<open>NextJSBuilder (builders/nextjs-builder.ts)\<close>

definition NextJSBuilder_createStore :: "path \<Rightarrow> string \<Rightarrow> jsval \<Rightarrow> step list" where
  \<comment> \<open>the block \<open>if (stateManagement !== 'none') { ... }\<close> that ends both source-file methods\<close>
  "NextJSBuilder_createStore srcPath tsExt stateManagement =
     (if stateManagement \<noteq> JStr ''none''
      then (let storePath = path_join srcPath [''store''] in
            [Do (Mkdir storePath)]
            @ (if stateManagement = JStr ''zustand''
               then [Do (WriteFile (path_join storePath [''counter.'' @ tsExt]) (Rendered ''NextJS.zustandContent'' []))]
               else [])
            @ (if stateManagement = JStr ''redux''
               then (let storePath2 = path_join storePath [''redux''] in
                     [Do (Mkdir storePath2),
                      Do (WriteFile (path_join storePath2 [''counterSlice.'' @ tsExt])
                            (Rendered ''NextJS.counterSliceContent'' [])),
                      Do (WriteFile (path_join storePath2 [''store.'' @ tsExt]) (Rendered ''NextJS.storeContent'' []))])
               else []))
      else [])"

definition NextJSBuilder_createAppRouterSourceFiles :: "path \<Rightarrow> bool \<Rightarrow> string \<Rightarrow> string \<Rightarrow> options \<Rightarrow> step list" where
  "NextJSBuilder_createAppRouterSourceFiles projectPath useTypeScript tsxExt tsExt opts =
     (let srcPath = path_join projectPath [''src''];
          appPath = path_join srcPath [''app''];
          tailwind = or_default (get_prop opts ''tailwind'') (JBool False);
          stateManagement = or_default (get_prop opts ''stateManagement'') (JStr ''none'');
          router = or_default (get_prop opts ''router'') (JBool True);
          managed = (stateManagement \<noteq> JStr ''none'')
      in [Do (Mkdir appPath),
          Do (WriteFile (path_join appPath [''layout.tsx'']) (Rendered ''NextJS.layoutContent'' [S ''css''])),
          Do (WriteFile (path_join appPath [''page.tsx''])
                (Rendered ''NextJS.pageContent'' [B managed, B managed, S ''{count}'', B managed])),
          Do (WriteFile (path_join appPath [''globals.css'']) (Rendered ''NextJS.globalsCss'' [B (truthy tailwind)]))]
         @ (if truthy router
            then (let aboutPagePath = path_join appPath [''about''];
                      postsPath = path_join appPath [''posts'']
                  in [Do (Mkdir aboutPagePath),
                      Do (WriteFile (path_join aboutPagePath [''page.tsx'']) (Rendered ''NextJS.aboutPageContent'' [])),
                      Do (Mkdir postsPath),
                      Do (WriteFile (path_join postsPath [''page.tsx'']) (Rendered ''NextJS.postsPageContent'' []))])
            else [])
         @ NextJSBuilder_createStore srcPath tsExt stateManagement)"

definition NextJSBuilder_createPagesRouterSourceFiles :: "path \<Rightarrow> bool \<Rightarrow> string \<Rightarrow> string \<Rightarrow> options \<Rightarrow> step list" where
  "NextJSBuilder_createPagesRouterSourceFiles projectPath useTypeScript tsxExt tsExt opts =
     (let srcPath = path_join projectPath [''src''];
          pagesPath = path_join srcPath [''pages''];
          publicPath = path_join projectPath [''public''];
          tailwind = or_default (get_prop opts ''tailwind'') (JBool False);
          stateManagement = or_default (get_prop opts ''stateManagement'') (JStr ''none'');
          router = or_default (get_prop opts ''router'') (JBool True);
          managed = (stateManagement \<noteq> JStr ''none'');
          stylesPath = path_join srcPath [''styles'']
      in [Do (Mkdir pagesPath),
          Do (Mkdir publicPath),
          Do (WriteFile (path_join pagesPath [''_app.tsx'']) (Rendered ''NextJS.appTsx'' [S ''css''])),
          Do (WriteFile (path_join pagesPath [''index.tsx''])
                (Rendered ''NextJS.indexContent'' [B managed, B managed, B managed])),
          Do (Mkdir stylesPath),
          Do (WriteFile (path_join stylesPath [''globals.'' @ ''css''])
                (Rendered ''NextJS.globalsContent'' [B (truthy tailwind)]))]
         @ (if truthy router
            then [Do (WriteFile (path_join pagesPath [''about.tsx'']) (Rendered ''NextJS.pages.aboutPageContent'' [])),
                  Do (WriteFile (path_join pagesPath [''posts.tsx'']) (Rendered ''NextJS.pages.postsPageContent'' []))]
            else [])
         @ [Do (WriteFile (path_join publicPath [''index.html'']) (Rendered ''NextJS.publicIndexHtml'' []))]
         @ NextJSBuilder_createStore srcPath tsExt stateManagement)"

definition NextJSBuilder_createTailwindConfig :: "path \<Rightarrow> bool \<Rightarrow> step list" where
  "NextJSBuilder_createTailwindConfig projectPath useTypeScript =
     (let ext = (if useTypeScript then ''.ts'' else ''.js'') in
      [Do (WriteFile (path_join projectPath [''tailwind.config.'' @ ext]) (Rendered ''NextJS.tailwindConfig'' [])),
       Do (WriteFile (path_join projectPath [''postcss.config.js'']) (Rendered ''NextJS.postcssConfig'' []))])"

definition NextJSBuilder_createGitignore :: "path \<Rightarrow> step list" where
  "NextJSBuilder_createGitignore projectPath =
     [Do (WriteFile (path_join projectPath [''.gitignore'']) (Rendered ''NextJS.gitignore'' []))]"

definition NextJSBuilder_createNextEnvFile :: "path \<Rightarrow> step list" where
  "NextJSBuilder_createNextEnvFile projectPath =
     [Do (WriteFile (path_join projectPath [''next-env.d.ts'']) (Rendered ''NextJS.nextEnv'' []))]"

definition NextJSBuilder_createNextJSProject :: "path \<Rightarrow> string \<Rightarrow> bool \<Rightarrow> bool \<Rightarrow> options \<Rightarrow> step list" where
  "NextJSBuilder_createNextJSProject projectPath name useTypeScript useAppRouter opts =
     (let ext = (if useTypeScript then ''.ts'' else ''.js'');
          tsExt = (if useTypeScript then ''.ts'' else ''.js'');
          tsxExt = (if useTypeScript then ''.tsx'' else ''.jsx'');
          tailwind = or_default (get_prop opts ''tailwind'') (JBool False);
          stateManagement = or_default (get_prop opts ''stateManagement'') (JStr ''none'');
          router = or_default (get_prop opts ''router'') (JBool True);
          eslint = or_default (get_prop opts ''eslint'') (JBool True);
          prettier = or_default (get_prop opts ''prettier'') (JBool True);
          testing = or_default (get_prop opts ''testing'') (JBool False)
      in [Do (WriteFile (path_join projectPath [''package.json''])
                (Rendered ''NextJS.packageJson''
                   [S name, B (stateManagement = JStr ''zustand''), B (stateManagement = JStr ''redux''),
                    B (truthy tailwind), B (truthy eslint), B (truthy prettier), B (truthy testing)])),
          Do (WriteFile (path_join projectPath [''next.config.'' @ ext]) (Rendered ''NextJS.nextConfig'' []))]
         @ (if useTypeScript
            then [Do (WriteFile (path_join projectPath [''tsconfig.json'']) (Rendered ''NextJS.tsconfig'' []))]
            else [])
         @ (if truthy tailwind then NextJSBuilder_createTailwindConfig projectPath useTypeScript else [])
         @ (if useAppRouter
            then NextJSBuilder_createAppRouterSourceFiles projectPath useTypeScript tsxExt tsExt opts
            else NextJSBuilder_createPagesRouterSourceFiles projectPath useTypeScript tsxExt tsExt opts)
         @ NextJSBuilder_createGitignore projectPath
         @ NextJSBuilder_createNextEnvFile projectPath)"

definition NextJSBuilder_steps :: "path \<Rightarrow> ProjectConfig \<Rightarrow> step list" where
  "NextJSBuilder_steps projectPath config =
     (let frontendOptions = options_or_empty config;
          useTypeScript = not_false (get_prop frontendOptions ''typescript'');
          useAppRouter = (framework config = ''next'' \<or> framework config = ''nextjs'' \<or> framework config = ''next-app'')
      in Do (Mkdir projectPath) #
         NextJSBuilder_createNextJSProject projectPath (projectName config) useTypeScript useAppRouter frontendOptions)"

definition NextJSBuilder_ok :: "ProjectConfig \<Rightarrow> BuilderResult" where
  "NextJSBuilder_ok config =
     \<lparr>success = True,
      message = ''Next.js project '' @ quoted (projectName config) @ '' created successfully'',
      files = Some [''package.json'', ''next.config.js'', ''src/app/page.tsx'', ''src/app/layout.tsx''],
      error = None\<rparr>"

definition NextJSBuilder_build :: "env \<Rightarrow> fs_op list \<Rightarrow> ProjectConfig \<Rightarrow> (string + BuilderResult) \<times> fs_op list" where
  "NextJSBuilder_build e tr config =
     (case resolve_project_path e config of
        Inl err \<Rightarrow> (Inl err, tr)
      | Inr projectPath \<Rightarrow>
          try_build (fs e) tr (NextJSBuilder_steps projectPath config) (NextJSBuilder_ok config)
            ''Failed to create Next.js project'')"

section \<open>BuilderFactory (builders/index.ts)\<close>

datatype builder =
    SpringBootBuilder | ReactBuilder | VueBuilder | FastAPIBuilder | DjangoBuilder | FlaskBuilder
  | ViteBuilder | ExpressBuilder | FastifyBuilder | NestJSBuilder | NextJSBuilder | NuxtBuilder

fun supportedFrameworks :: "builder \<Rightarrow> string list" where
  "supportedFrameworks SpringBootBuilder = [''spring-boot'', ''spring'', ''spring-mvc'', ''spring-webflux'']"
| "supportedFrameworks ReactBuilder = [''react'', ''react-vite'', ''react-cra'']"
| "supportedFrameworks VueBuilder = [''vue'', ''vue3'', ''vue-vite'']"
| "supportedFrameworks FastAPIBuilder = [''fastapi'', ''fastapi-uvicorn'', ''fastapi-gunicorn'']"
| "supportedFrameworks DjangoBuilder = [''django'', ''django-rest'', ''django-cms'']"
| "supportedFrameworks FlaskBuilder = [''flask'', ''flask-rest'', ''flask-sqlalchemy'']"
| "supportedFrameworks ViteBuilder = [''vite'', ''vite-vanilla'', ''vite-ts'']"
| "supportedFrameworks ExpressBuilder = [''express'', ''express-ts'', ''express-rest'']"
| "supportedFrameworks FastifyBuilder = [''fastify'', ''fastify-ts'', ''fastify-rest'']"
| "supportedFrameworks NestJSBuilder = [''nestjs'', ''nest'', ''nestjs-rest'', ''nestjs-graphql'']"
| "supportedFrameworks NextJSBuilder = [''next'', ''nextjs'', ''next-app'', ''next-pages'']"
| "supportedFrameworks NuxtBuilder = [''nuxt'', ''nuxt3'']"

text \<open>
  The repository holds two copies of the factory that differ in the \<open>builders\<close> array only:
  one registers twelve builders, the other stops after \<open>NestJSBuilder\<close>.
\<close>

definition builders :: "builder list" where
  "builders =
     [SpringBootBuilder, ReactBuilder, VueBuilder, FastAPIBuilder, DjangoBuilder, FlaskBuilder,
      ViteBuilder, ExpressBuilder, FastifyBuilder, NestJSBuilder, NextJSBuilder, NuxtBuilder]"

definition builders_ten :: "builder list" where
  "builders_ten =
     [SpringBootBuilder, ReactBuilder, VueBuilder, FastAPIBuilder, DjangoBuilder, FlaskBuilder,
      ViteBuilder, ExpressBuilder, FastifyBuilder, NestJSBuilder]"

definition getBuilder_of :: "builder list \<Rightarrow> string \<Rightarrow> builder option" where
  \<comment> \<open>\<open>this.builders.find(builder => builder.supportedFrameworks.includes(framework.toLowerCase())) || null\<close>\<close>
  "getBuilder_of bs fw = List.find (\<lambda>b. toLowerCase fw \<in> set (supportedFrameworks b)) bs"

definition getSupportedFrameworks_of :: "builder list \<Rightarrow> string list" where
  \<comment> \<open>\<open>this.builders.flatMap(builder => builder.supportedFrameworks)\<close>\<close>
  "getSupportedFrameworks_of bs = concat (map supportedFrameworks bs)"

definition getBuilder :: "string \<Rightarrow> builder option" where
  "getBuilder fw = getBuilder_of builders fw"

definition getSupportedFrameworks :: "string list" where
  "getSupportedFrameworks = getSupportedFrameworks_of builders"

section \<open>The tool handler (index.ts)\<close>

record tool_arguments =
  arg_projectName :: "string option"
  arg_projectType :: "string option"
  arg_framework :: "string option"
  arg_options :: "options option"

datatype tool_response = BuildResponse BuilderResult | TextResponse string

fun build :: "builder \<Rightarrow> env \<Rightarrow> fs_op list \<Rightarrow> ProjectConfig \<Rightarrow> (string + BuilderResult) \<times> fs_op list" where
  \<comment> \<open>\<open>builder.build(config)\<close>, dispatched on the class of the builder\<close>
  "build SpringBootBuilder = SpringBootBuilder_build"
| "build ReactBuilder = ReactBuilder_build"
| "build VueBuilder = VueBuilder_build"
| "build FastAPIBuilder = FastAPIBuilder_build"
| "build DjangoBuilder = DjangoBuilder_build"
| "build FlaskBuilder = FlaskBuilder_build"
| "build ViteBuilder = ViteBuilder_build"
| "build ExpressBuilder = ExpressBuilder_build"
| "build FastifyBuilder = FastifyBuilder_build"
| "build NestJSBuilder = NestJSBuilder_build"
| "build NextJSBuilder = NextJSBuilder_build"
| "build NuxtBuilder = NuxtBuilder_build"

fun includes_str :: "string \<Rightarrow> string \<Rightarrow> bool" where
  \<comment> \<open>\<open>s.includes(sub)\<close>\<close>
  "includes_str [] sub = (sub = [])"
| "includes_str (c # cs) sub = (prefix sub (c # cs) \<or> includes_str cs sub)"

definition groupedFrameworks :: "string list \<Rightarrow> (string \<times> string list) list" where
  "groupedFrameworks frameworks =
     [(''Spring/Java'', filter (\<lambda>f. includes_str f ''spring'') frameworks),
      (''Frontend'', filter (\<lambda>f. list_ex (\<lambda>p. prefix p f) [''react'', ''vite'']) frameworks),
      (''Next.js/React'', filter (\<lambda>f. list_ex (\<lambda>p. prefix p f) [''next'']) frameworks),
      (''Nuxt.js/Vue'', filter (\<lambda>f. list_ex (\<lambda>p. prefix p f) [''vue'', ''nuxt'']) frameworks),
      (''Python'', filter (\<lambda>f. list_ex (\<lambda>p. prefix p f) [''fastapi'', ''django'', ''flask'']) frameworks),
      (''JavaScript/TypeScript'', filter (\<lambda>f. list_ex (\<lambda>p. prefix p f) [''express'', ''fastify'', ''nestjs'']) frameworks)]"

definition formattedList :: "string list \<Rightarrow> string" where
  "formattedList frameworks =
     join_with ''\<newline>\<newline>''
       (map (\<lambda>(category, items). category @ '':\<newline>  - '' @ join_with ''\<newline>  - '' items)
          (filter (\<lambda>(category, items). items \<noteq> []) (groupedFrameworks frameworks)))"

definition unsupported_message :: "string \<Rightarrow> string" where
  \<comment> \<open>\<open>`Unsupported framework: ${framework}. Supported frameworks: ${BuilderFactory.getSupportedFrameworks().join(', ')}`\<close>\<close>
  "unsupported_message fw =
     ''Unsupported framework: '' @ fw @ ''. Supported frameworks: '' @ join_with '', '' getSupportedFrameworks"

text \<open>
  \<open>options.outputPath\<close> is passed on as it is. An error that leaves \<open>build\<close> leaves the
  handler too.
\<close>

definition build_project :: "env \<Rightarrow> fs_op list \<Rightarrow> tool_arguments \<Rightarrow> (string + tool_response) \<times> fs_op list" where
  "build_project e tr args =
     (case (arg_projectName args, arg_framework args) of
        (Some pn, Some fw) \<Rightarrow>
          if pn = [] \<or> fw = [] then (Inl ''projectName and framework are required'', tr)
          else
            (case getBuilder fw of
               None \<Rightarrow> (Inl (unsupported_message fw), tr)
             | Some b \<Rightarrow>
                 (let opts = (case arg_options args of None \<Rightarrow> Map.empty | Some opts \<Rightarrow> opts)
                  in case build b e tr
                            \<lparr>projectName = pn,
                             projectType = (case arg_projectType args of None \<Rightarrow> ''web'' | Some t \<Rightarrow> t),
                             framework = fw,
                             options = Some opts,
                             outputPath = get_prop opts ''outputPath''\<rparr> of
                       (Inl err, tr') \<Rightarrow> (Inl err, tr')
                     | (Inr result, tr') \<Rightarrow> (Inr (BuildResponse result), tr')))
      | _ \<Rightarrow> (Inl ''projectName and framework are required'', tr))"

definition CallTool_handler ::
  "env \<Rightarrow> fs_op list \<Rightarrow> string \<Rightarrow> tool_arguments \<Rightarrow> (string + tool_response) \<times> fs_op list" where
  "CallTool_handler e tr tool args =
     (if tool = ''build_project'' then build_project e tr args
      else if tool = ''list_frameworks''
      then (Inr (TextResponse (''Supported Frameworks:\<newline>\<newline>'' @ formattedList getSupportedFrameworks)), tr)
      else (Inl (''Unknown tool: '' @ tool), tr))"

section \<open>Vocabulary of the properties\<close>

fun raised :: "step list \<Rightarrow> string option" where
  \<comment> \<open>the \<open>TypeError\<close> a method throws by itself, if any\<close>
  "raised [] = None"
| "raised (Raise e # rest) = Some e"
| "raised (Do a # rest) = raised rest"

definition thrown :: "filesystem \<Rightarrow> fs_op list \<Rightarrow> step list \<Rightarrow> string option" where
  \<comment> \<open>the message of the error thrown while the steps run, if any\<close>
  "thrown f tr steps = snd (exec f tr steps)"

definition failure :: "string \<Rightarrow> string \<Rightarrow> BuilderResult" where
  "failure failed e = \<lparr>success = False, message = failed, files = None, error = Some e\<rparr>"

definition performed :: "fs_op list \<Rightarrow> fs_op list \<Rightarrow> fs_op list" where
  \<comment> \<open>the operations an invocation added to the trace it started from\<close>
  "performed tr tr' = drop (length tr) tr'"

definition rejecting :: "string \<Rightarrow> filesystem" where
  \<comment> \<open>a filesystem that rejects every operation\<close>
  "rejecting e = (\<lambda>tr a. Some e)"

definition full_after :: "nat \<Rightarrow> filesystem" where
  \<comment> \<open>a filesystem that accepts \<open>n\<close> operations and rejects the later ones\<close>
  "full_after n = (\<lambda>tr a. if length tr < n then None else Some ''ENOSPC: no space left on device'')"

definition ends_with :: "string \<Rightarrow> string \<Rightarrow> bool" where
  "ends_with s suf = prefix (rev suf) (rev s)"

definition typed_file :: "path \<Rightarrow> bool" where
  \<comment> \<open>the file name has a TypeScript extension\<close>
  "typed_file p = (case rev p of [] \<Rightarrow> False | n # _ \<Rightarrow> ends_with n ''.tsx'' \<or> ends_with n ''.ts'')"

definition shown :: "path \<Rightarrow> string" where
  \<comment> \<open>a relative path as the \<open>files\<close> field writes it\<close>
  "shown p = join_with ''/'' p"

fun is_string :: "jsval \<Rightarrow> bool" where
  \<comment> \<open>\<open>typeof v === 'string'\<close>\<close>
  "is_string (JStr s) = True"
| "is_string v = False"

fun accepted :: "filesystem \<Rightarrow> fs_op list \<Rightarrow> fs_op list \<Rightarrow> bool" where
  \<comment> \<open>the filesystem accepts the operations one after the other, starting from the trace \<open>tr\<close>\<close>
  "accepted f tr [] = True"
| "accepted f tr (a # ops) = (f tr a = None \<and> accepted f (tr @ [a]) ops)"

definition place :: "path \<Rightarrow> string list \<times> content \<Rightarrow> path \<times> content" where
  \<comment> \<open>a file given by the segments that \<open>path.join\<close> appends to the project path, and its content\<close>
  "place P node = (path_join P (fst node), snd node)"





definition gone :: env where
  \<comment> \<open>the working directory of the process has been removed\<close>
  "gone = \<lparr>cwd = Inl ''ENOENT: no such file or directory, uv_cwd'', fs = accepting\<rparr>"

definition builder_table ::
  "(builder \<times> (path \<Rightarrow> ProjectConfig \<Rightarrow> step list) \<times> (ProjectConfig \<Rightarrow> BuilderResult) \<times> string) list" where
  \<comment> \<open>for every builder: the body of the \<open>try\<close> block of \<open>build\<close>, its success result, its failure message\<close>
  "builder_table =
     [(SpringBootBuilder, SpringBootBuilder_steps, SpringBootBuilder_ok, ''Failed to create Spring Boot project''),
      (ReactBuilder, ReactBuilder_steps, ReactBuilder_ok, ''Failed to create React project''),
      (VueBuilder, VueBuilder_steps, VueBuilder_ok, ''Failed to create Vue project''),
      (FastAPIBuilder, FastAPIBuilder_steps, FastAPIBuilder_ok, ''Failed to create FastAPI project''),
      (DjangoBuilder, DjangoBuilder_steps, DjangoBuilder_ok, ''Failed to create Django project''),
      (FlaskBuilder, FlaskBuilder_steps, FlaskBuilder_ok, ''Failed to create Flask project''),
      (ViteBuilder, ViteBuilder_steps, ViteBuilder_ok, ''Failed to create Vite project''),
      (ExpressBuilder, ExpressBuilder_steps, ExpressBuilder_ok, ''Failed to create Express project''),
      (FastifyBuilder, FastifyBuilder_steps, FastifyBuilder_ok, ''Failed to create Fastify project''),
      (NestJSBuilder, NestJSBuilder_steps, NestJSBuilder_ok, ''Failed to create NestJS project''),
      (NextJSBuilder, NextJSBuilder_steps, NextJSBuilder_ok, ''Failed to create Next.js project''),
      (NuxtBuilder, NuxtBuilder_steps, NuxtBuilder_ok, ''Failed to create Nuxt.js project'')]"

definition workdir :: env where
  "workdir = \<lparr>cwd = Inr [''home'', ''dev''], fs = accepting\<rparr>"

definition react_js :: ProjectConfig where
  \<comment> \<open>\<open>{projectName: 'x', framework: 'react', options: {typescript: false}}\<close>\<close>
  "react_js = \<lparr>projectName = ''x'', projectType = ''web'', framework = ''react'',
                options = Some [''typescript'' \<mapsto> JBool False], outputPath = JUndefined\<rparr>"

definition react_default :: ProjectConfig where
  \<comment> \<open>\<open>{projectName: 'x', framework: 'react'}\<close>\<close>
  "react_default = \<lparr>projectName = ''x'', projectType = ''web'', framework = ''react'',
                     options = None, outputPath = JUndefined\<rparr>"

definition react_upper :: ProjectConfig where
  \<comment> \<open>\<open>{projectName: 'x', framework: 'REACT'}\<close>\<close>
  "react_upper = \<lparr>projectName = ''x'', projectType = ''web'', framework = ''REACT'',
                   options = None, outputPath = JUndefined\<rparr>"

definition vite_demo :: ProjectConfig where
  \<comment> \<open>\<open>{projectName: 'demo', framework: 'vite', options: {}}\<close>\<close>
  "vite_demo = \<lparr>projectName = ''demo'', projectType = ''web'', framework = ''vite'',
                 options = Some Map.empty, outputPath = JUndefined\<rparr>"


definition to_tmp :: "ProjectConfig \<Rightarrow> ProjectConfig" where
  \<comment> \<open>the same request with \<open>outputPath: '/tmp/out'\<close>\<close>
  "to_tmp config = config\<lparr>outputPath := JStr ''/tmp/out''\<rparr>"

definition spring_with :: "string \<Rightarrow> jsval \<Rightarrow> ProjectConfig" where
  \<comment> \<open>\<open>{projectName: 'svc', framework: 'spring-boot', options: {[key]: v}}\<close>\<close>
  "spring_with key v = \<lparr>projectName = ''svc'', projectType = ''api'', framework = ''spring-boot'',
                         options = Some [key \<mapsto> v], outputPath = JUndefined\<rparr>"

definition with_option :: "ProjectConfig \<Rightarrow> string \<Rightarrow> jsval \<Rightarrow> ProjectConfig" where
  \<comment> \<open>the same request with the option \<open>key\<close> declared as \<open>v\<close>\<close>
  "with_option config key v = config\<lparr>options := Some ((options_or_empty config)(key \<mapsto> v))\<rparr>"

definition demo2 :: tool_arguments where
  \<comment> \<open>\<open>{projectName: 'demo2', framework: 'not-a-real-framework'}\<close>\<close>
  "demo2 = \<lparr>arg_projectName = Some ''demo2'', arg_projectType = None,
             arg_framework = Some ''not-a-real-framework'', arg_options = None\<rparr>"

section \<open>Auxiliary facts\<close>

definition simple :: "string \<Rightarrow> bool" where
  \<comment> \<open>a single path segment that normalisation leaves alone\<close>
  "simple s = (s \<noteq> [] \<and> s \<noteq> ''.'' \<and> s \<noteq> ''..'' \<and> CHR ''/'' \<notin> set s)"

definition rooted :: "(path \<Rightarrow> step list) \<Rightarrow> bool" where
  \<comment> \<open>the files written, as segments joined to the project path, and the error raised are the same
      for every project path\<close>
  "rooted F = (\<exists>nodes r. \<forall>P. written (ops_of (F P)) = map (place P) nodes \<and> raised (F P) = r)"

lemma split_on_no_delim: "d \<notin> set s \<Longrightarrow> split_on d s = [s]"
  by (induction s) auto

lemma step_seg_simple: "simple s \<Longrightarrow> step_seg p s = p @ [s]"
  by (simp add: simple_def step_seg_def)

lemma segments_simple: "simple s \<Longrightarrow> segments s = [s]"
  by (simp add: simple_def segments_def split_on_no_delim)

lemma foldl_step_seg_simple: "list_all simple parts \<Longrightarrow> foldl step_seg p parts = p @ parts"
  by (induction parts arbitrary: p) (simp_all add: step_seg_simple)

lemma concat_segments_simple: "list_all simple parts \<Longrightarrow> concat (map segments parts) = parts"
  by (induction parts) (simp_all add: segments_simple)

lemma path_join_simple: "list_all simple parts \<Longrightarrow> path_join p parts = p @ parts"
  by (simp add: path_join_def concat_segments_simple foldl_step_seg_simple)




lemma find_unique:
  assumes "x \<in> set xs" and "P x" and "\<forall>y\<in>set xs. P y \<longrightarrow> y = x"
  shows "List.find P xs = Some x"
  using assms
proof (induction xs)
  case Nil
  then show ?case by simp
next
  case (Cons a xs)
  show ?case
  proof (cases "P a")
    case True
    with Cons.prems(3) have "a = x" by simp
    with True show ?thesis by simp
  next
    case False
    with Cons.prems(1,2) have "x \<in> set xs" by auto
    moreover from Cons.prems(3) have "\<forall>y\<in>set xs. P y \<longrightarrow> y = x" by simp
    ultimately have "List.find P xs = Some x" using Cons.IH Cons.prems(2) by blast
    with False show ?thesis by simp
  qed
qed

lemma builders_all: "b \<in> set builders"
  by (cases b) (simp_all add: builders_def)

lemma builders_ten_subset: "set builders_ten \<subseteq> set builders"
  by (rule subsetI) (rule builders_all)

lemma sf_disjoint: "F1 \<noteq> F2 \<Longrightarrow> set (supportedFrameworks F1) \<inter> set (supportedFrameworks F2) = {}"
  by (cases F1; cases F2; simp)

lemma getBuilder_of_unique:
  assumes "F \<in> set bs" and "toLowerCase s \<in> set (supportedFrameworks F)"
  shows "getBuilder_of bs s = Some F"
proof -
  have "\<forall>y\<in>set bs. toLowerCase s \<in> set (supportedFrameworks y) \<longrightarrow> y = F"
    using assms(2) sf_disjoint by blast
  with assms show ?thesis
    unfolding getBuilder_of_def by (rule find_unique [where P = "\<lambda>b. toLowerCase s \<in> set (supportedFrameworks b)"])
qed

section \<open>The registry\<close>

text \<open>
  C8. The identifier sets of two different registered builders are disjoint, so every
  builder that claims an identifier is the one the lookup returns for it; the list of all
  identifiers has no repetition. This holds for the array of twelve builders and for the
  array of ten.
\<close>

theorem supportedFrameworks_disjoint:
  "(F1 \<in> set builders \<and> F2 \<in> set builders \<and> F1 \<noteq> F2 \<longrightarrow>
      set (supportedFrameworks F1) \<inter> set (supportedFrameworks F2) = {})
   \<and> (F \<in> set builders \<and> toLowerCase s \<in> set (supportedFrameworks F) \<longrightarrow> getBuilder s = Some F)
   \<and> (F \<in> set builders_ten \<and> toLowerCase s \<in> set (supportedFrameworks F) \<longrightarrow>
        getBuilder_of builders_ten s = Some F)
   \<and> set builders_ten \<subseteq> set builders
   \<and> distinct getSupportedFrameworks
   \<and> distinct (getSupportedFrameworks_of builders_ten)"
proof -
  have d12: "distinct getSupportedFrameworks"
    by (simp add: getSupportedFrameworks_def getSupportedFrameworks_of_def builders_def)
  have d10: "distinct (getSupportedFrameworks_of builders_ten)"
    by (simp add: getSupportedFrameworks_of_def builders_ten_def)
  show ?thesis
    using d12 d10 sf_disjoint getBuilder_of_unique builders_ten_subset
    by (simp add: getBuilder_def)
qed

theorem supportedFrameworks_disjoint_witness:
  "ReactBuilder \<in> set builders \<and> ViteBuilder \<in> set builders \<and> ReactBuilder \<noteq> ViteBuilder
   \<and> set (supportedFrameworks ReactBuilder) \<inter> set (supportedFrameworks ViteBuilder) = {}
   \<and> toLowerCase ''Vite-TS'' \<in> set (supportedFrameworks ViteBuilder)
   \<and> getBuilder ''Vite-TS'' = Some ViteBuilder
   \<and> ViteBuilder \<in> set builders_ten
   \<and> getBuilder_of builders_ten ''Vite-TS'' = Some ViteBuilder"
proof -
  have h1: "ReactBuilder \<in> set builders \<and> ViteBuilder \<in> set builders \<and> ReactBuilder \<noteq> ViteBuilder"
    by (simp add: builders_def)
  have h2: "toLowerCase ''Vite-TS'' \<in> set (supportedFrameworks ViteBuilder)"
    by code_simp
  have h3: "ViteBuilder \<in> set builders_ten"
    by (simp add: builders_ten_def)
  show ?thesis
    using h1 h2 h3 supportedFrameworks_disjoint [of ReactBuilder ViteBuilder ViteBuilder "''Vite-TS''"]
    by blast
qed



section \<open>Running the steps\<close>

lemma exec_prefix: "\<exists>k. fst (exec f tr steps) = tr @ take k (ops_of steps)"
proof (induction steps arbitrary: tr)
  case Nil
  show ?case by simp
next
  case (Cons st steps)
  show ?case
  proof (cases st)
    case (Raise e)
    then show ?thesis by simp
  next
    case (Do a)
    show ?thesis
    proof (cases "f tr a")
      case (Some e)
      with Do have "fst (exec f tr (st # steps)) = tr @ take 0 (ops_of (st # steps))" by simp
      then show ?thesis by blast
    next
      case None
      from Cons.IH [of "tr @ [a]"] obtain k where "fst (exec f (tr @ [a]) steps) = (tr @ [a]) @ take k (ops_of steps)"
        by blast
      with None Do have "fst (exec f tr (st # steps)) = tr @ take (Suc k) (ops_of (st # steps))" by simp
      then show ?thesis by blast
    qed
  qed
qed

lemma exec_accepting: "exec accepting tr steps = (tr @ ops_of steps, raised steps)"
proof (induction steps arbitrary: tr)
  case Nil
  show ?case by simp
next
  case (Cons st steps)
  then show ?case by (cases st) (simp_all add: accepting_def)
qed

lemma exec_None: "snd (exec f tr steps) = None \<Longrightarrow> fst (exec f tr steps) = tr @ ops_of steps"
proof (induction steps arbitrary: tr)
  case Nil
  show ?case by simp
next
  case (Cons st steps)
  show ?case
  proof (cases st)
    case (Raise e)
    with Cons.prems show ?thesis by simp
  next
    case (Do a)
    with Cons.prems have n: "f tr a = None" by (cases "f tr a") simp_all
    with Cons.prems Do have "snd (exec f (tr @ [a]) steps) = None" by simp
    from Cons.IH [OF this] n Do show ?thesis by simp
  qed
qed

lemma exec_accepted: "accepted f tr ops \<Longrightarrow> exec f tr (map Do ops @ rest) = exec f (tr @ ops) rest"
  by (induction ops arbitrary: tr) simp_all

lemma parents_made_take: "parents_made made xs \<Longrightarrow> parents_made made (take k xs)"
proof (induction xs arbitrary: made k)
  case Nil
  then show ?case by simp
next
  case (Cons x xs)
  show ?case
  proof (cases k)
    case 0
    then show ?thesis by simp
  next
    case (Suc j)
    with Cons show ?thesis by (cases x) simp_all
  qed
qed

lemma try_build_result:
  "try_build f tr steps ok failed =
     (Inr (case thrown f tr steps of None \<Rightarrow> ok | Some e \<Rightarrow> failure failed e), fst (exec f tr steps))"
  by (cases "exec f tr steps") (simp add: try_build_def thrown_def failure_def split: option.splits)

lemma React_ops: "parents_made [] (ops_of (ReactBuilder_steps P config))"
  by (simp add: ReactBuilder_steps_def ReactBuilder_createViteReactProject_def ReactBuilder_createCRAProject_def
      ReactBuilder_createReactSourceFiles_def ReactBuilder_createIndexHtml_def ReactBuilder_createGitignore_def
      ReactBuilder_createPublicFolder_def Let_def path_join_simple simple_def butlast_append)

lemma Vite_ops: "parents_made [] (ops_of (ViteBuilder_steps P config))"
  by (simp add: ViteBuilder_steps_def ViteBuilder_createViteProject_def ViteBuilder_createSourceFiles_def
      ViteBuilder_createIndexHtml_def ViteBuilder_createGitignore_def Let_def path_join_simple simple_def butlast_append)

lemma Flask_ops: "parents_made [] (ops_of (FlaskBuilder_steps P config))"
  by (simp add: FlaskBuilder_steps_def FlaskBuilder_createRequirements_def FlaskBuilder_createSourceStructure_def
      FlaskBuilder_createMainApplication_def FlaskBuilder_createConfig_def FlaskBuilder_createGitignore_def
      FlaskBuilder_createDockerFiles_def FlaskBuilder_createTestStructure_def Let_def path_join_simple simple_def butlast_append)

lemma Express_ops: "parents_made [] (ops_of (ExpressBuilder_steps P config))"
  by (simp add: ExpressBuilder_steps_def ExpressBuilder_createPackageJson_def ExpressBuilder_createSourceStructure_def
      ExpressBuilder_createMainApplication_def ExpressBuilder_createRoutes_def ExpressBuilder_createConfig_def
      ExpressBuilder_createGitignore_def ExpressBuilder_createDockerFiles_def ExpressBuilder_createTestStructure_def
      Let_def path_join_simple simple_def butlast_append)

section \<open>The build boundary\<close>

lemma table_cases:
  assumes "(b, steps, ok, failed) \<in> set builder_table"
  shows "build b e tr config =
           (case resolve_project_path e config of
              Inl err \<Rightarrow> (Inl err, tr)
            | Inr P \<Rightarrow> try_build (fs e) tr (steps P config) (ok config) failed)
         \<and> success (ok config)
         \<and> (\<exists>rest. steps P config = Do (Mkdir P) # rest)"
  using assms
  by (auto simp add: builder_table_def SpringBootBuilder_build_def ReactBuilder_build_def FlaskBuilder_build_def
      ViteBuilder_build_def ExpressBuilder_build_def VueBuilder_build_def FastAPIBuilder_build_def
      DjangoBuilder_build_def FastifyBuilder_build_def NestJSBuilder_build_def NextJSBuilder_build_def
      NuxtBuilder_build_def SpringBootBuilder_ok_def ReactBuilder_ok_def FlaskBuilder_ok_def
      ViteBuilder_ok_def ExpressBuilder_ok_def VueBuilder_ok_def FastAPIBuilder_ok_def DjangoBuilder_ok_def
      FastifyBuilder_ok_def NestJSBuilder_ok_def NextJSBuilder_ok_def NuxtBuilder_ok_def
      SpringBootBuilder_steps_def ReactBuilder_steps_def FlaskBuilder_steps_def
      ViteBuilder_steps_def ExpressBuilder_steps_def VueBuilder_steps_def FastAPIBuilder_steps_def
      DjangoBuilder_steps_def FastifyBuilder_steps_def NestJSBuilder_steps_def NextJSBuilder_steps_def
      NuxtBuilder_steps_def Let_def)

lemma build_resolved:
  assumes "(b, steps, ok, failed) \<in> set builder_table" and "resolve_project_path e config = Inr P"
  shows "build b e tr config = try_build (fs e) tr (steps P config) (ok config) failed"
  using table_cases [OF assms(1), of e tr config] assms(2) by simp

lemma build_unresolved:
  assumes "(b, steps, ok, failed) \<in> set builder_table" and "resolve_project_path e config = Inl err"
  shows "build b e tr config = (Inl err, tr)"
  using table_cases [OF assms(1), of e tr config] assms(2) by simp

lemma build_performed:
  assumes "(b, steps, ok, failed) \<in> set builder_table" and "resolve_project_path e config = Inr P"
  shows "\<exists>k. snd (build b e tr config) = tr @ take k (ops_of (steps P config))"
proof -
  obtain k where "fst (exec (fs e) tr (steps P config)) = tr @ take k (ops_of (steps P config))"
    using exec_prefix by blast
  then have "snd (build b e tr config) = tr @ take k (ops_of (steps P config))"
    by (simp add: build_resolved [OF assms] try_build_result)
  then show ?thesis by blast
qed

lemma resolve_cases:
  "(\<not> truthy (outputPath config) \<and> cwd e = Inl err \<longrightarrow> resolve_project_path e config = Inl err)
   \<and> (truthy (outputPath config) \<and> \<not> is_string (outputPath config) \<and> \<not> is_absolute (projectName config) \<longrightarrow>
        resolve_project_path e config = Inl (invalid_arg_type (outputPath config)))
   \<and> (outputPath config = JStr out \<and> out \<noteq> [] \<and> \<not> is_absolute out \<and> \<not> is_absolute (projectName config)
        \<and> cwd e = Inl err \<longrightarrow> resolve_project_path e config = Inl err)
   \<and> ((cwd e = Inr cur \<and> (\<not> truthy (outputPath config) \<or> outputPath config = JStr out))
        \<or> (truthy (outputPath config) \<and> is_absolute (projectName config))
        \<or> (outputPath config = JStr out \<and> is_absolute out) \<longrightarrow>
        (\<exists>Q. resolve_project_path e config = Inr Q))"
proof -
  have a: "resolve_project_path e config = Inl err" if "\<not> truthy (outputPath config)" "cwd e = Inl err"
    using that by (simp add: resolve_project_path_def)
  have b: "resolve_project_path e config = Inl (invalid_arg_type (outputPath config))"
    if "truthy (outputPath config)" "\<not> is_string (outputPath config)" "\<not> is_absolute (projectName config)"
    using that by (cases "outputPath config") (simp_all add: resolve_project_path_def)
  have c: "resolve_project_path e config = Inl err"
    if "outputPath config = JStr out" "out \<noteq> []" "\<not> is_absolute out" "\<not> is_absolute (projectName config)"
       "cwd e = Inl err"
    using that by (simp add: resolve_project_path_def)
  have d1: "\<exists>Q. resolve_project_path e config = Inr Q"
    if "cwd e = Inr cur" "\<not> truthy (outputPath config) \<or> outputPath config = JStr out"
    using that by (auto simp add: resolve_project_path_def)
  have d2: "\<exists>Q. resolve_project_path e config = Inr Q"
    if "truthy (outputPath config)" "is_absolute (projectName config)"
    using that by (simp add: resolve_project_path_def)
  have d3: "\<exists>Q. resolve_project_path e config = Inr Q"
    if "outputPath config = JStr out" "is_absolute out"
  proof -
    from that have "out \<noteq> []" by (auto simp add: is_absolute_def)
    with that show ?thesis by (simp add: resolve_project_path_def)
  qed
  from a b c d1 d2 d3 show ?thesis by blast
qed

lemma React_steps_head: "ReactBuilder_steps P config = Do (Mkdir P) # tl (ReactBuilder_steps P config)"
  by (simp add: ReactBuilder_steps_def Let_def)

text \<open>
  C2 as stated fails: \<open>build\<close> resolves the project path before its \<open>try\<close> block. When the
  working directory has been removed, \<open>process.cwd()\<close> throws and the error leaves \<open>build\<close>;
  so does the \<open>TypeError\<close> of \<open>path.resolve\<close> for \<open>outputPath: 5\<close>. No \<open>BuilderResult\<close> is
  returned.
\<close>

theorem build_propagates_resolution_error:
  "build ReactBuilder gone [] react_js = (Inl ''ENOENT: no such file or directory, uv_cwd'', [])
   \<and> \<not> (\<exists>r tr'. build ReactBuilder gone [] react_js = (Inr r, tr'))
   \<and> build ReactBuilder workdir [] (react_js\<lparr>outputPath := JNum ''5''\<rparr>) =
       (Inl (invalid_arg_type (JNum ''5'')), [])
   \<and> invalid_arg_type (JNum ''5'') =
       ''The '' @ [CHR 0x22] @ ''paths[0]'' @ [CHR 0x22] @ '' argument must be of type string. Received type number (5)''"
  by (simp add: ReactBuilder_build_def resolve_project_path_def gone_def workdir_def react_js_def
      is_absolute_def invalid_arg_type_def)

text \<open>
  C2, amended. The errors of path resolution leave \<open>build\<close>, with no result and no
  filesystem operation: the error of \<open>process.cwd()\<close>, when \<open>outputPath\<close> is falsy or when it
  and the project name are relative paths, and the \<open>TypeError\<close> of \<open>path.resolve\<close> for an
  \<open>outputPath\<close> that is truthy and no string while the project name is not absolute. In
  every other case the path is resolved. Once it is, \<open>build\<close> returns a result and
  propagates nothing. The result is the builder's success result when the filesystem
  accepts every operation and the builder's own code throws nothing. Otherwise it has
  \<open>success = false\<close>, the builder's fixed failure message, and as \<open>error\<close> the message of the
  first operation that the filesystem rejects, or of the \<open>TypeError\<close> that the builder's
  code throws; the operations before it have been performed and stay. This holds for each
  of the twelve builders.
\<close>

theorem build_boundary:
  assumes "(b, steps, ok, failed) \<in> set builder_table"
  shows "(resolve_project_path e config = Inl err \<longrightarrow> build b e tr config = (Inl err, tr))
         \<and> (\<not> truthy (outputPath config) \<and> cwd e = Inl err \<longrightarrow> build b e tr config = (Inl err, tr))
         \<and> (truthy (outputPath config) \<and> \<not> is_string (outputPath config) \<and> \<not> is_absolute (projectName config) \<longrightarrow>
              build b e tr config = (Inl (invalid_arg_type (outputPath config)), tr))
         \<and> (outputPath config = JStr out \<and> out \<noteq> [] \<and> \<not> is_absolute out \<and> \<not> is_absolute (projectName config)
              \<and> cwd e = Inl err \<longrightarrow> build b e tr config = (Inl err, tr))
         \<and> ((cwd e = Inr cur \<and> (\<not> truthy (outputPath config) \<or> outputPath config = JStr out))
              \<or> (truthy (outputPath config) \<and> is_absolute (projectName config))
              \<or> (outputPath config = JStr out \<and> is_absolute out) \<longrightarrow>
              (\<exists>Q. resolve_project_path e config = Inr Q))
         \<and> (resolve_project_path e config = Inr P \<longrightarrow>
              (\<exists>r. fst (build b e tr config) = Inr r)
              \<and> (steps P config = map Do ops \<and> accepted (fs e) tr ops \<longrightarrow>
                   build b e tr config = (Inr (ok config), tr @ ops))
              \<and> (steps P config = map Do ops @ Do a # rest \<and> accepted (fs e) tr ops
                   \<and> fs e (tr @ ops) a = Some err \<longrightarrow>
                   build b e tr config = (Inr (failure failed err), tr @ ops))
              \<and> (steps P config = map Do ops @ Raise err # rest \<and> accepted (fs e) tr ops \<longrightarrow>
                   build b e tr config = (Inr (failure failed err), tr @ ops)))
         \<and> success (ok config) \<and> \<not> success (failure failed err)
         \<and> message (failure failed err) = failed \<and> error (failure failed err) = Some err"
proof -
  note rc = resolve_cases [of config e err out cur]
  have u: "build b e tr config = (Inl x, tr)" if "resolve_project_path e config = Inl x" for x
    using build_unresolved [OF assms that] .
  have u1: "\<not> truthy (outputPath config) \<and> cwd e = Inl err \<longrightarrow> build b e tr config = (Inl err, tr)"
    using rc u by blast
  have u2: "truthy (outputPath config) \<and> \<not> is_string (outputPath config) \<and> \<not> is_absolute (projectName config) \<longrightarrow>
              build b e tr config = (Inl (invalid_arg_type (outputPath config)), tr)"
    using rc u by blast
  have u3: "outputPath config = JStr out \<and> out \<noteq> [] \<and> \<not> is_absolute out \<and> \<not> is_absolute (projectName config)
              \<and> cwd e = Inl err \<longrightarrow> build b e tr config = (Inl err, tr)"
    using rc u by blast
  have d: "(cwd e = Inr cur \<and> (\<not> truthy (outputPath config) \<or> outputPath config = JStr out))
              \<or> (truthy (outputPath config) \<and> is_absolute (projectName config))
              \<or> (outputPath config = JStr out \<and> is_absolute out) \<longrightarrow>
              (\<exists>Q. resolve_project_path e config = Inr Q)"
    using rc by blast
  have r: "(\<exists>r. fst (build b e tr config) = Inr r)
              \<and> (steps P config = map Do ops \<and> accepted (fs e) tr ops \<longrightarrow>
                   build b e tr config = (Inr (ok config), tr @ ops))
              \<and> (steps P config = map Do ops @ Do a # rest \<and> accepted (fs e) tr ops
                   \<and> fs e (tr @ ops) a = Some err \<longrightarrow>
                   build b e tr config = (Inr (failure failed err), tr @ ops))
              \<and> (steps P config = map Do ops @ Raise err # rest \<and> accepted (fs e) tr ops \<longrightarrow>
                   build b e tr config = (Inr (failure failed err), tr @ ops))"
    if h: "resolve_project_path e config = Inr P"
  proof -
    note bld = build_resolved [OF assms h, of tr]
    have r1: "\<exists>r. fst (build b e tr config) = Inr r"
      by (simp add: bld try_build_result)
    have r2: "build b e tr config = (Inr (ok config), tr @ ops)"
      if "steps P config = map Do ops" "accepted (fs e) tr ops"
    proof -
      from that(1) have "steps P config = map Do ops @ []" by simp
      with exec_accepted [OF that(2), of "[]"] show ?thesis
        by (simp add: bld try_build_def)
    qed
    have r3: "build b e tr config = (Inr (failure failed err), tr @ ops)"
      if "steps P config = map Do ops @ Do a # rest" "accepted (fs e) tr ops" "fs e (tr @ ops) a = Some err"
      using exec_accepted [OF that(2), of "Do a # rest"] that(1,3)
      by (simp add: bld try_build_def failure_def)
    have r4: "build b e tr config = (Inr (failure failed err), tr @ ops)"
      if "steps P config = map Do ops @ Raise err # rest" "accepted (fs e) tr ops"
      using exec_accepted [OF that(2), of "Raise err # rest"] that(1)
      by (simp add: bld try_build_def failure_def)
    from r1 r2 r3 r4 show ?thesis by blast
  qed
  have s: "success (ok config) \<and> \<not> success (failure failed err)
         \<and> message (failure failed err) = failed \<and> error (failure failed err) = Some err"
    using table_cases [OF assms, of e tr config] by (simp add: failure_def)
  from u [of err] u1 u2 u3 d r s show ?thesis by blast
qed

section \<open>Concrete invocations\<close>

lemmas React_defs = ReactBuilder_build_def ReactBuilder_steps_def ReactBuilder_createViteReactProject_def
  ReactBuilder_createCRAProject_def ReactBuilder_createReactSourceFiles_def ReactBuilder_createIndexHtml_def
  ReactBuilder_createGitignore_def ReactBuilder_createPublicFolder_def ReactBuilder_useTypeScript_def
  ReactBuilder_ok_def

lemmas eval_defs = try_build_def accepting_def workdir_def resolve_project_path_def options_or_empty_def
  get_prop_def not_false_def path_join_def segments_def step_seg_def is_absolute_def Let_def

lemma react_js_run:
  "ReactBuilder_build workdir [] react_js =
     (Inr (ReactBuilder_ok react_js),
      [Mkdir [''home'', ''dev'', ''x''],
       WriteFile [''home'', ''dev'', ''x'', ''package.json''] (Rendered ''React.vite.packageJson'' [S ''x'']),
       WriteFile [''home'', ''dev'', ''x'', ''vite.config..js''] (Rendered ''React.viteConfig'' []),
       Mkdir [''home'', ''dev'', ''x'', ''src''],
       WriteFile [''home'', ''dev'', ''x'', ''src'', ''App.jsx''] (Rendered ''React.appContent'' [S ''.jsx'', S ''.jsx'']),
       WriteFile [''home'', ''dev'', ''x'', ''src'', ''main.jsx''] (Rendered ''React.mainContent'' [S ''.jsx'']),
       WriteFile [''home'', ''dev'', ''x'', ''src'', ''index.css''] (Rendered ''React.cssContent'' []),
       Mkdir [''home'', ''dev'', ''x'', ''src'', ''assets''],
       WriteFile [''home'', ''dev'', ''x'', ''index.html''] (Rendered ''React.indexHtml'' [S ''x'']),
       WriteFile [''home'', ''dev'', ''x'', ''.gitignore''] (Rendered ''React.gitignore'' [])])"
  by (simp add: React_defs eval_defs react_js_def)

lemma react_default_run:
  "ReactBuilder_build workdir [] react_default =
     (Inr (ReactBuilder_ok react_default),
      [Mkdir [''home'', ''dev'', ''x''],
       WriteFile [''home'', ''dev'', ''x'', ''package.json''] (Rendered ''React.vite.packageJson'' [S ''x'']),
       WriteFile [''home'', ''dev'', ''x'', ''vite.config..ts''] (Rendered ''React.viteConfig'' []),
       WriteFile [''home'', ''dev'', ''x'', ''tsconfig.json''] (Rendered ''React.vite.tsconfig'' []),
       WriteFile [''home'', ''dev'', ''x'', ''tsconfig.node.json''] (Rendered ''React.vite.tsconfigNode'' []),
       Mkdir [''home'', ''dev'', ''x'', ''src''],
       WriteFile [''home'', ''dev'', ''x'', ''src'', ''App.tsx''] (Rendered ''React.appContent'' [S ''.tsx'', S ''.tsx'']),
       WriteFile [''home'', ''dev'', ''x'', ''src'', ''main.tsx''] (Rendered ''React.mainContent'' [S ''.tsx'']),
       WriteFile [''home'', ''dev'', ''x'', ''src'', ''index.css''] (Rendered ''React.cssContent'' []),
       Mkdir [''home'', ''dev'', ''x'', ''src'', ''assets''],
       WriteFile [''home'', ''dev'', ''x'', ''index.html''] (Rendered ''React.indexHtml'' [S ''x'']),
       WriteFile [''home'', ''dev'', ''x'', ''.gitignore''] (Rendered ''React.gitignore'' [])])"
  by (simp add: React_defs eval_defs react_default_def)

lemma react_upper_run:
  "ReactBuilder_build workdir [] react_upper =
     (Inr (ReactBuilder_ok react_upper),
      [Mkdir [''home'', ''dev'', ''x''],
       WriteFile [''home'', ''dev'', ''x'', ''package.json''] (Rendered ''React.cra.packageJson'' [S ''x'']),
       WriteFile [''home'', ''dev'', ''x'', ''tsconfig.json''] (Rendered ''React.cra.tsconfig'' []),
       Mkdir [''home'', ''dev'', ''x'', ''src''],
       WriteFile [''home'', ''dev'', ''x'', ''src'', ''App.tsx''] (Rendered ''React.appContent'' [S ''.tsx'', S ''.tsx'']),
       WriteFile [''home'', ''dev'', ''x'', ''src'', ''main.tsx''] (Rendered ''React.mainContent'' [S ''.tsx'']),
       WriteFile [''home'', ''dev'', ''x'', ''src'', ''index.css''] (Rendered ''React.cssContent'' []),
       Mkdir [''home'', ''dev'', ''x'', ''src'', ''assets''],
       Mkdir [''home'', ''dev'', ''x'', ''public''],
       WriteFile [''home'', ''dev'', ''x'', ''public'', ''index.html''] (Rendered ''React.publicIndexHtml'' [S ''x'']),
       WriteFile [''home'', ''dev'', ''x'', ''.gitignore''] (Rendered ''React.gitignore'' [])])"
  by (simp add: React_defs eval_defs react_upper_def)

lemma react_js_steps:
  "ReactBuilder_steps [''home'', ''dev'', ''x''] react_js =
     map Do
      [Mkdir [''home'', ''dev'', ''x''],
       WriteFile [''home'', ''dev'', ''x'', ''package.json''] (Rendered ''React.vite.packageJson'' [S ''x'']),
       WriteFile [''home'', ''dev'', ''x'', ''vite.config..js''] (Rendered ''React.viteConfig'' []),
       Mkdir [''home'', ''dev'', ''x'', ''src''],
       WriteFile [''home'', ''dev'', ''x'', ''src'', ''App.jsx''] (Rendered ''React.appContent'' [S ''.jsx'', S ''.jsx'']),
       WriteFile [''home'', ''dev'', ''x'', ''src'', ''main.jsx''] (Rendered ''React.mainContent'' [S ''.jsx'']),
       WriteFile [''home'', ''dev'', ''x'', ''src'', ''index.css''] (Rendered ''React.cssContent'' []),
       Mkdir [''home'', ''dev'', ''x'', ''src'', ''assets''],
       WriteFile [''home'', ''dev'', ''x'', ''index.html''] (Rendered ''React.indexHtml'' [S ''x'']),
       WriteFile [''home'', ''dev'', ''x'', ''.gitignore''] (Rendered ''React.gitignore'' [])]"
  by (simp add: React_defs eval_defs react_js_def)

lemma spring_group5_steps:
  "SpringBootBuilder_steps [''home'', ''dev'', ''svc''] (spring_with ''groupId'' (JNum ''5'')) =
     map Do
      [Mkdir [''home'', ''dev'', ''svc''],
       WriteFile [''home'', ''dev'', ''svc'', ''pom.xml'']
         (Rendered ''SpringBoot.pomXml'' [S ''3.2.0'', S ''5'', S ''svc'', S ''svc'', S ''17''])]
     @ Raise ''groupId.replace is not a function''
     # drop 3 (SpringBootBuilder_steps [''home'', ''dev'', ''svc''] (spring_with ''groupId'' (JNum ''5'')))"
  by (simp add: SpringBootBuilder_steps_def SpringBootBuilder_createSourceStructure_def
      SpringBootBuilder_generatePomXml_def SpringBootBuilder_javaVersion_def SpringBootBuilder_springBootVersion_def
      SpringBootBuilder_groupId_def SpringBootBuilder_artifactId_def eval_defs spring_with_def js_or_def)

theorem build_boundary_witness:
  "\<not> truthy (outputPath react_js) \<and> cwd gone = Inl ''ENOENT: no such file or directory, uv_cwd''
   \<and> build ReactBuilder gone [] react_js = (Inl ''ENOENT: no such file or directory, uv_cwd'', [])
   \<and> truthy (JNum ''5'') \<and> \<not> is_string (JNum ''5'') \<and> \<not> is_absolute ''x''
   \<and> build ReactBuilder workdir [] (react_js\<lparr>outputPath := JNum ''5''\<rparr>) = (Inl (invalid_arg_type (JNum ''5'')), [])
   \<and> \<not> is_absolute ''out''
   \<and> build ReactBuilder gone [] (react_js\<lparr>outputPath := JStr ''out''\<rparr>) =
        (Inl ''ENOENT: no such file or directory, uv_cwd'', [])
   \<and> cwd workdir = Inr [''home'', ''dev'']
   \<and> (\<exists>Q. resolve_project_path workdir react_js = Inr Q)
   \<and> outputPath (to_tmp react_js) = JStr ''/tmp/out'' \<and> is_absolute ''/tmp/out''
   \<and> (\<exists>Q. resolve_project_path gone (to_tmp react_js) = Inr Q)
   \<and> truthy (outputPath (to_tmp react_js\<lparr>projectName := ''/srv/x''\<rparr>))
   \<and> is_absolute (projectName (to_tmp react_js\<lparr>projectName := ''/srv/x''\<rparr>))
   \<and> (\<exists>Q. resolve_project_path gone (to_tmp react_js\<lparr>projectName := ''/srv/x''\<rparr>) = Inr Q)
   \<and> resolve_project_path (workdir\<lparr>fs := rejecting ''EACCES: permission denied''\<rparr>) react_js = Inr [''home'', ''dev'', ''x'']
   \<and> build ReactBuilder (workdir\<lparr>fs := rejecting ''EACCES: permission denied''\<rparr>) [] react_js =
        (Inr \<lparr>success = False, message = ''Failed to create React project'', files = None,
              error = Some ''EACCES: permission denied''\<rparr>, [])
   \<and> build ReactBuilder (workdir\<lparr>fs := full_after 3\<rparr>) [] react_js =
        (Inr \<lparr>success = False, message = ''Failed to create React project'', files = None,
              error = Some ''ENOSPC: no space left on device''\<rparr>,
         [Mkdir [''home'', ''dev'', ''x''],
          WriteFile [''home'', ''dev'', ''x'', ''package.json''] (Rendered ''React.vite.packageJson'' [S ''x'']),
          WriteFile [''home'', ''dev'', ''x'', ''vite.config..js''] (Rendered ''React.viteConfig'' [])])
   \<and> build SpringBootBuilder workdir [] (spring_with ''groupId'' (JNum ''5'')) =
        (Inr \<lparr>success = False, message = ''Failed to create Spring Boot project'', files = None,
              error = Some ''groupId.replace is not a function''\<rparr>,
         [Mkdir [''home'', ''dev'', ''svc''],
          WriteFile [''home'', ''dev'', ''svc'', ''pom.xml'']
            (Rendered ''SpringBoot.pomXml'' [S ''3.2.0'', S ''5'', S ''svc'', S ''svc'', S ''17''])])
   \<and> fst (build ReactBuilder workdir [] react_js) = Inr (ReactBuilder_ok react_js)
   \<and> length (snd (build ReactBuilder workdir [] react_js)) = 10"
proof -
  have tR: "(ReactBuilder, ReactBuilder_steps, ReactBuilder_ok, ''Failed to create React project'') \<in> set builder_table"
    by (simp add: builder_table_def)
  have tS: "(SpringBootBuilder, SpringBootBuilder_steps, SpringBootBuilder_ok, ''Failed to create Spring Boot project'')
              \<in> set builder_table"
    by (simp add: builder_table_def)
  let ?rej = "workdir\<lparr>fs := rejecting ''EACCES: permission denied''\<rparr>"
  let ?full = "workdir\<lparr>fs := full_after 3\<rparr>"
  let ?P = "[''home'', ''dev'', ''x'']"
  let ?S = "[''home'', ''dev'', ''svc'']"
  let ?abs = "to_tmp react_js\<lparr>projectName := ''/srv/x''\<rparr>"
  let ?five = "react_js\<lparr>outputPath := JNum ''5''\<rparr>"
  let ?rel = "react_js\<lparr>outputPath := JStr ''out''\<rparr>"
  let ?enoent = "''ENOENT: no such file or directory, uv_cwd''"
  have g: "\<not> truthy (outputPath react_js) \<and> cwd gone = Inl ?enoent"
    by (simp add: gone_def react_js_def)
  have n5: "truthy (JNum ''5'') \<and> \<not> is_string (JNum ''5'') \<and> \<not> is_absolute ''x''"
    by (simp add: is_absolute_def)
  have n5': "truthy (outputPath ?five) \<and> \<not> is_string (outputPath ?five) \<and> \<not> is_absolute (projectName ?five)"
    by (simp add: is_absolute_def react_js_def)
  have rl: "\<not> is_absolute ''out''"
    by (simp add: is_absolute_def)
  have rl': "outputPath ?rel = JStr ''out'' \<and> ''out'' \<noteq> [] \<and> \<not> is_absolute ''out''
      \<and> \<not> is_absolute (projectName ?rel) \<and> cwd gone = Inl ?enoent"
    by (simp add: is_absolute_def react_js_def gone_def)
  have w: "cwd workdir = Inr [''home'', ''dev'']"
    by (simp add: workdir_def)
  have tm: "outputPath (to_tmp react_js) = JStr ''/tmp/out'' \<and> is_absolute ''/tmp/out''"
    by (simp add: to_tmp_def is_absolute_def)
  have ab: "truthy (outputPath ?abs) \<and> is_absolute (projectName ?abs)"
    by (simp add: to_tmp_def is_absolute_def)
  have p1: "resolve_project_path ?rej react_js = Inr ?P"
    by (simp add: eval_defs react_js_def)
  have p2: "resolve_project_path ?full react_js = Inr ?P"
    by (simp add: eval_defs react_js_def)
  have p3: "resolve_project_path workdir react_js = Inr ?P"
    by (simp add: eval_defs react_js_def)
  have p4: "resolve_project_path workdir (spring_with ''groupId'' (JNum ''5'')) = Inr ?S"
    by (simp add: eval_defs spring_with_def)
  have a1: "build ReactBuilder gone [] react_js = (Inl ?enoent, [])"
    using build_boundary [OF tR, of gone react_js ?enoent "[]"] g
    by blast
  have a1b: "build ReactBuilder workdir [] ?five = (Inl (invalid_arg_type (JNum ''5'')), [])"
    using build_boundary [OF tR, of workdir ?five _ "[]"] n5'
    by simp
  have a1c: "build ReactBuilder gone [] ?rel = (Inl ?enoent, [])"
    using build_boundary [OF tR, of gone ?rel ?enoent "[]" "''out''"] rl'
    by blast
  have a2: "\<exists>Q. resolve_project_path workdir react_js = Inr Q"
    using build_boundary [OF tR, of workdir react_js _ "[]" _ "[''home'', ''dev'']"] w g
    by blast
  have a2b: "\<exists>Q. resolve_project_path gone (to_tmp react_js) = Inr Q"
    using build_boundary [OF tR, of gone "to_tmp react_js" _ "[]" "''/tmp/out''"] tm
    by blast
  have a3: "\<exists>Q. resolve_project_path gone ?abs = Inr Q"
    using build_boundary [OF tR, of gone ?abs] ab
    by blast
  have a4: "build ReactBuilder ?rej [] react_js =
        (Inr (failure ''Failed to create React project'' ''EACCES: permission denied''), [])"
  proof -
    have s: "ReactBuilder_steps ?P react_js = map Do [] @ Do (Mkdir ?P) # tl (ReactBuilder_steps ?P react_js)"
      using React_steps_head [of ?P react_js] by simp
    have f: "fs ?rej ([] @ []) (Mkdir ?P) = Some ''EACCES: permission denied''"
      by (simp add: rejecting_def)
    have c: "accepted (fs ?rej) [] []"
      by simp
    from build_boundary [OF tR, of ?rej react_js "''EACCES: permission denied''" "[]" _ _ ?P "[]" "Mkdir ?P"
        "tl (ReactBuilder_steps ?P react_js)"] p1 s f c
    show ?thesis by simp
  qed
  have a5: "build ReactBuilder ?full [] react_js =
        (Inr (failure ''Failed to create React project'' ''ENOSPC: no space left on device''),
         [Mkdir ?P,
          WriteFile [''home'', ''dev'', ''x'', ''package.json''] (Rendered ''React.vite.packageJson'' [S ''x'']),
          WriteFile [''home'', ''dev'', ''x'', ''vite.config..js''] (Rendered ''React.viteConfig'' [])])"
  proof -
    let ?ops = "[Mkdir ?P,
          WriteFile [''home'', ''dev'', ''x'', ''package.json''] (Rendered ''React.vite.packageJson'' [S ''x'']),
          WriteFile [''home'', ''dev'', ''x'', ''vite.config..js''] (Rendered ''React.viteConfig'' [])]"
    have s: "ReactBuilder_steps ?P react_js =
        map Do ?ops @ Do (Mkdir [''home'', ''dev'', ''x'', ''src'']) # drop 4 (ReactBuilder_steps ?P react_js)"
      by (simp add: react_js_steps)
    have f: "fs ?full ([] @ ?ops) (Mkdir [''home'', ''dev'', ''x'', ''src'']) = Some ''ENOSPC: no space left on device''"
      by (simp add: full_after_def)
    have c: "accepted (fs ?full) [] ?ops"
      by (simp add: full_after_def)
    from build_boundary [OF tR, of ?full react_js "''ENOSPC: no space left on device''" "[]" _ _ ?P ?ops
        "Mkdir [''home'', ''dev'', ''x'', ''src'']" "drop 4 (ReactBuilder_steps ?P react_js)"] p2 s f c
    show ?thesis by simp
  qed
  have a6: "build SpringBootBuilder workdir [] (spring_with ''groupId'' (JNum ''5'')) =
        (Inr (failure ''Failed to create Spring Boot project'' ''groupId.replace is not a function''),
         [Mkdir ?S,
          WriteFile [''home'', ''dev'', ''svc'', ''pom.xml'']
            (Rendered ''SpringBoot.pomXml'' [S ''3.2.0'', S ''5'', S ''svc'', S ''svc'', S ''17''])])"
  proof -
    let ?ops = "[Mkdir ?S,
          WriteFile [''home'', ''dev'', ''svc'', ''pom.xml'']
            (Rendered ''SpringBoot.pomXml'' [S ''3.2.0'', S ''5'', S ''svc'', S ''svc'', S ''17''])]"
    have c: "accepted (fs workdir) [] ?ops"
      by (simp add: workdir_def accepting_def)
    from build_boundary [OF tS, of workdir "spring_with ''groupId'' (JNum ''5'')" "''groupId.replace is not a function''"
        "[]" _ _ ?S ?ops _ "drop 3 (SpringBootBuilder_steps ?S (spring_with ''groupId'' (JNum ''5'')))"]
      p4 spring_group5_steps c
    show ?thesis by simp
  qed
  have a7: "build ReactBuilder workdir [] react_js =
      (Inr (ReactBuilder_ok react_js), [] @ map (\<lambda>s. case s of Do a \<Rightarrow> a) (ReactBuilder_steps ?P react_js))"
  proof -
    let ?ops = "map (\<lambda>s. case s of Do a \<Rightarrow> a) (ReactBuilder_steps ?P react_js)"
    have s: "ReactBuilder_steps ?P react_js = map Do ?ops"
      by (simp add: react_js_steps)
    have c: "accepted (fs workdir) [] ?ops"
      by (simp add: react_js_steps workdir_def accepting_def)
    from build_boundary [OF tR, of workdir react_js _ "[]" _ _ ?P ?ops] p3 s c
    show ?thesis by simp
  qed
  have a8: "fst (build ReactBuilder workdir [] react_js) = Inr (ReactBuilder_ok react_js)
      \<and> length (snd (build ReactBuilder workdir [] react_js)) = 10"
    using a7 by (simp add: react_js_steps)
  from g a1 n5 a1b rl a1c w a2 tm a2b ab a3 p1 a4 a5 a6 a8 show ?thesis
    by (simp add: failure_def)
qed

section \<open>Order of the filesystem operations\<close>

lemma path_join_snoc: "simple s \<Longrightarrow> path_join p (parts @ [s]) = path_join p parts @ [s]"
  by (simp add: path_join_def segments_simple step_seg_simple)

lemma path_join_nested: "path_join (path_join p xs) ys = path_join p (xs @ ys)"
  by (simp add: path_join_def)

lemma Fastify_ops: "parents_made [] (ops_of (FastifyBuilder_steps P config))"
  by (simp add: FastifyBuilder_steps_def FastifyBuilder_createPackageJson_def FastifyBuilder_createSourceStructure_def
      FastifyBuilder_createMainApplication_def FastifyBuilder_createRoutes_def FastifyBuilder_createConfig_def
      FastifyBuilder_createGitignore_def FastifyBuilder_createDockerFiles_def FastifyBuilder_createTestStructure_def
      Let_def path_join_simple simple_def butlast_append)

lemma NestJS_ops: "parents_made [] (ops_of (NestJSBuilder_steps P config))"
  by (simp add: NestJSBuilder_steps_def NestJSBuilder_createPackageJson_def NestJSBuilder_createSourceStructure_def
      NestJSBuilder_createMainApplication_def NestJSBuilder_createAppModule_def NestJSBuilder_createConfig_def
      NestJSBuilder_createGitignore_def NestJSBuilder_createDockerFiles_def NestJSBuilder_createTestStructure_def
      Let_def path_join_simple simple_def butlast_append)

lemma FastAPI_ops: "parents_made [] (ops_of (FastAPIBuilder_steps P config))"
  by (simp add: FastAPIBuilder_steps_def FastAPIBuilder_createPyprojectToml_def FastAPIBuilder_createSourceStructure_def
      FastAPIBuilder_createMainApplication_def FastAPIBuilder_createRequirements_def FastAPIBuilder_createConfig_def
      FastAPIBuilder_createGitignore_def FastAPIBuilder_createDockerFiles_def FastAPIBuilder_createTestStructure_def
      Let_def path_join_simple simple_def butlast_append split: option.split)

lemma Django_ops: "parents_made [] (ops_of (DjangoBuilder_steps P config))"
proof -
  have s: "simple ''settings.py'' \<and> simple ''urls.py'' \<and> simple ''wsgi.py'' \<and> simple ''asgi.py''
           \<and> simple ''__init__.py''"
    by (simp add: simple_def)
  have j: "path_join P [projectName config, f] = path_join P [projectName config] @ [f]" if "simple f" for f
    using path_join_snoc [OF that, of P "[projectName config]"] by simp
  have k: "path_join (path_join P [projectName config]) [f] = path_join P [projectName config] @ [f]" if "simple f" for f
    using that by (simp add: path_join_nested j)
  show ?thesis
    using s
    by (simp add: DjangoBuilder_steps_def DjangoBuilder_createRequirements_def DjangoBuilder_createProjectStructure_def
        DjangoBuilder_createSettings_def DjangoBuilder_createUrls_def DjangoBuilder_createWsgi_def
        DjangoBuilder_createAsgi_def DjangoBuilder_createManagePy_def DjangoBuilder_createGitignore_def
        DjangoBuilder_createDockerFiles_def Let_def j k path_join_simple [of "[''requirements.txt'']"]
        path_join_simple [of "[''manage.py'']"] path_join_simple [of "[''.gitignore'']"]
        path_join_simple [of "[''Dockerfile'']"] path_join_simple [of "[''docker-compose.yml'']"] simple_def)
qed

lemma Vue_ops: "parents_made [] (ops_of (VueBuilder_steps P config))"
  by (simp add: VueBuilder_steps_def VueBuilder_createVueProject_def VueBuilder_createVueSourceFiles_def
      VueBuilder_createTailwindConfig_def VueBuilder_createPiniaStore_def VueBuilder_createIndexHtml_def
      VueBuilder_createGitignore_def Let_def path_join_simple simple_def butlast_append)

lemma Nuxt_ops: "parents_made [] (ops_of (NuxtBuilder_steps P config))"
  by (simp add: NuxtBuilder_steps_def NuxtBuilder_createNuxtProject_def NuxtBuilder_createNuxtSourceFiles_def
      NuxtBuilder_createGitignore_def Let_def path_join_simple simple_def butlast_append)

lemma NextJS_ops: "parents_made [] (ops_of (NextJSBuilder_steps P config))"
  by (simp add: NextJSBuilder_steps_def NextJSBuilder_createNextJSProject_def
      NextJSBuilder_createAppRouterSourceFiles_def NextJSBuilder_createPagesRouterSourceFiles_def
      NextJSBuilder_createStore_def NextJSBuilder_createTailwindConfig_def NextJSBuilder_createGitignore_def
      NextJSBuilder_createNextEnvFile_def Let_def path_join_simple simple_def butlast_append)


lemma upper_char_slash: "(upper_char c = CHR ''/'') = (c = CHR ''/'')"
proof (cases "is_lower c")
  case False
  then show ?thesis by (simp add: upper_char_def)
next
  case True
  then have r: "65 \<le> (of_char c :: nat) - 32 \<and> (of_char c :: nat) - 32 \<le> 90"
    unfolding is_lower_def by arith
  then have "(of_char (char_of ((of_char c :: nat) - 32)) :: nat) = (of_char c :: nat) - 32"
    by simp
  with r have n: "(of_char (char_of ((of_char c :: nat) - 32)) :: nat) \<noteq> 47"
    by arith
  have "char_of ((of_char c :: nat) - 32) \<noteq> CHR ''/''"
  proof
    assume "char_of ((of_char c :: nat) - 32) = CHR ''/''"
    then have "(of_char (char_of ((of_char c :: nat) - 32)) :: nat) = of_char (CHR ''/'')"
      by simp
    with n show False by simp
  qed
  moreover from True have "c \<noteq> CHR ''/''"
    by (auto simp add: is_lower_def)
  ultimately show ?thesis using True by (simp add: upper_char_def)
qed

lemma pascal_rest_no_slash: "CHR ''/'' \<notin> set s \<Longrightarrow> CHR ''/'' \<notin> set (pascal_rest s)"
proof (induction s rule: pascal_rest.induct)
  case 1
  then show ?case by simp
next
  case (2 c)
  then show ?case by simp
next
  case (3 c d cs)
  from 3(3) have c: "c \<noteq> CHR ''/''" and d: "d \<noteq> CHR ''/''" and cs: "CHR ''/'' \<notin> set cs"
    by auto
  show ?case
  proof (cases "c = CHR ''-'' \<and> is_word d")
    case True
    with 3(1) cs have "CHR ''/'' \<notin> set (pascal_rest cs)" by simp
    moreover from d have "upper_char d \<noteq> CHR ''/''" by (simp add: upper_char_slash)
    ultimately show ?thesis using True by auto
  next
    case False
    with 3(2) d cs have "CHR ''/'' \<notin> set (pascal_rest (d # cs))" by simp
    with False c show ?thesis by auto
  qed
qed

lemma toPascalCase_no_slash: "CHR ''/'' \<notin> set s \<Longrightarrow> CHR ''/'' \<notin> set (toPascalCase s)"
proof (cases s)
  case Nil
  then show ?thesis by (simp add: toPascalCase_def)
next
  case (Cons c cs)
  assume h: "CHR ''/'' \<notin> set s"
  with Cons have c: "c \<noteq> CHR ''/''" and cs: "CHR ''/'' \<notin> set cs" by auto
  from c have u: "upper_char c \<noteq> CHR ''/''" by (simp add: upper_char_slash)
  from cs have r: "CHR ''/'' \<notin> set (pascal_rest cs)" by (rule pascal_rest_no_slash)
  from h have r2: "CHR ''/'' \<notin> set (pascal_rest s)" by (rule pascal_rest_no_slash)
  show ?thesis
  proof (cases "is_word c")
    case True
    with Cons u r show ?thesis by (auto simp add: toPascalCase_def)
  next
    case False
    with Cons r2 show ?thesis by (simp add: toPascalCase_def)
  qed
qed

lemma simple_class_file: "CHR ''/'' \<notin> set s \<Longrightarrow> simple (s @ ''Application.java'')"
proof -
  assume h: "CHR ''/'' \<notin> set s"
  have a: "s @ ''Application.java'' \<noteq> ''.''"
  proof
    assume "s @ ''Application.java'' = ''.''"
    then have "length (s @ ''Application.java'') = length ''.''" by simp
    then show False by simp
  qed
  have b: "s @ ''Application.java'' \<noteq> ''..''"
  proof
    assume "s @ ''Application.java'' = ''..''"
    then have "length (s @ ''Application.java'') = length ''..''" by simp
    then show False by simp
  qed
  from h a b show ?thesis by (simp add: simple_def)
qed


lemma pascal_a_b: "toPascalCase ''a/b'' = ''A/b''"
  by code_simp

lemma Spring_ops:
  assumes "case SpringBootBuilder_artifactId (options_or_empty config) (projectName config) of
             JStr a \<Rightarrow> CHR ''/'' \<notin> set a | _ \<Rightarrow> True"
  shows "parents_made [] (ops_of (SpringBootBuilder_steps P config))"
proof (cases "SpringBootBuilder_groupId (options_or_empty config)")
  case (JStr g)
  note g = this
  show ?thesis
  proof (cases "SpringBootBuilder_artifactId (options_or_empty config) (projectName config)")
    case (JStr a)
    with assms have "CHR ''/'' \<notin> set a" by simp
    then have "simple (toPascalCase a @ ''Application.java'')"
      by (intro simple_class_file toPascalCase_no_slash)
    from path_join_snoc [OF this, of P "[''src'', ''main'', ''java'', dots_to_slashes g]"]
    have j: "path_join P [''src'', ''main'', ''java'', dots_to_slashes g, toPascalCase a @ ''Application.java''] =
             path_join P [''src'', ''main'', ''java'', dots_to_slashes g] @ [toPascalCase a @ ''Application.java'']"
      by simp
    show ?thesis
      using JStr g
      by (simp add: SpringBootBuilder_steps_def SpringBootBuilder_createSourceStructure_def
          SpringBootBuilder_createApplicationProperties_def SpringBootBuilder_createMainApplication_def
          SpringBootBuilder_createGitignore_def Let_def j
          path_join_simple [of "[''pom.xml'']"] path_join_simple [of "[''.gitignore'']"]
          path_join_simple [of "[''src'', ''main'', ''resources'']"]
          path_join_simple [of "[''src'', ''main'', ''resources'', ''application.properties'']"] simple_def
          butlast_append split: option.split)
  qed (simp_all add: g
        SpringBootBuilder_steps_def SpringBootBuilder_createSourceStructure_def
          SpringBootBuilder_createApplicationProperties_def SpringBootBuilder_createMainApplication_def
          SpringBootBuilder_createGitignore_def Let_def
          path_join_simple [of "[''pom.xml'']"] path_join_simple [of "[''.gitignore'']"]
          path_join_simple [of "[''src'', ''main'', ''resources'']"]
          path_join_simple [of "[''src'', ''main'', ''resources'', ''application.properties'']"] simple_def
          butlast_append split: option.split)
qed (simp_all add: SpringBootBuilder_steps_def SpringBootBuilder_createSourceStructure_def Let_def
      path_join_simple [of "[''pom.xml'']"] simple_def split: option.split)

lemma steps_parents_made:
  assumes "(b, steps, ok, failed) \<in> set builder_table"
    and "b = SpringBootBuilder \<longrightarrow>
           (case SpringBootBuilder_artifactId (options_or_empty config) (projectName config) of
              JStr a \<Rightarrow> CHR ''/'' \<notin> set a | _ \<Rightarrow> True)"
  shows "parents_made [] (ops_of (steps P config))"
  using assms
  by (auto simp add: builder_table_def React_ops Vite_ops Flask_ops Express_ops Fastify_ops NestJS_ops
      FastAPI_ops Django_ops Vue_ops Nuxt_ops NextJS_ops Spring_ops)

lemma hd_take_Cons: "take k (x # xs) = [] \<or> hd (take k (x # xs)) = x"
  by (cases k) simp_all

lemmas Spring_defs = SpringBootBuilder_build_def SpringBootBuilder_steps_def SpringBootBuilder_createSourceStructure_def
  SpringBootBuilder_createApplicationProperties_def SpringBootBuilder_createMainApplication_def
  SpringBootBuilder_createGitignore_def SpringBootBuilder_generatePomXml_def SpringBootBuilder_javaVersion_def
  SpringBootBuilder_springBootVersion_def SpringBootBuilder_groupId_def SpringBootBuilder_artifactId_def
  SpringBootBuilder_ok_def

lemma spring_slash_run:
  "SpringBootBuilder_build workdir [] (spring_with ''artifactId'' (JStr ''a/b'')) =
     (Inr (SpringBootBuilder_ok (spring_with ''artifactId'' (JStr ''a/b''))),
      [Mkdir [''home'', ''dev'', ''svc''],
       WriteFile [''home'', ''dev'', ''svc'', ''pom.xml'']
         (Rendered ''SpringBoot.pomXml'' [S ''3.2.0'', S ''com.example'', S ''a/b'', S ''a/b'', S ''17'']),
       Mkdir [''home'', ''dev'', ''svc'', ''src'', ''main'', ''java'', ''com'', ''example''],
       Mkdir [''home'', ''dev'', ''svc'', ''src'', ''main'', ''resources''],
       Mkdir [''home'', ''dev'', ''svc'', ''src'', ''test'', ''java'', ''com'', ''example''],
       WriteFile [''home'', ''dev'', ''svc'', ''src'', ''main'', ''resources'', ''application.properties'']
         (Rendered ''SpringBoot.applicationProperties'' []),
       WriteFile [''home'', ''dev'', ''svc'', ''src'', ''main'', ''java'', ''com'', ''example'', ''A'', ''bApplication.java'']
         (Rendered ''SpringBoot.mainApplication'' [S ''com.example'', S ''A/b'', S ''A/b'']),
       WriteFile [''home'', ''dev'', ''svc'', ''.gitignore''] (Rendered ''SpringBoot.gitignore'' [])])"
  by (simp add: Spring_defs eval_defs spring_with_def js_or_def dots_to_slashes_def pascal_a_b)

text \<open>
  C10 as stated fails for the Spring Boot builder: the class file is named after the
  artifact id, and for \<open>{projectName: 'svc', framework: 'spring-boot', options: {artifactId: 'a/b'}}\<close>
  it is written to \<open>src/main/java/com/example/A/bApplication.java\<close>, in a directory \<open>A\<close>
  that no operation of the invocation creates.
\<close>

theorem spring_class_file_without_parent:
  "fst (build SpringBootBuilder workdir [] (spring_with ''artifactId'' (JStr ''a/b''))) =
     Inr (SpringBootBuilder_ok (spring_with ''artifactId'' (JStr ''a/b'')))
   \<and> performed [] (snd (build SpringBootBuilder workdir [] (spring_with ''artifactId'' (JStr ''a/b'')))) ! 6 =
       WriteFile [''home'', ''dev'', ''svc'', ''src'', ''main'', ''java'', ''com'', ''example'', ''A'', ''bApplication.java'']
         (Rendered ''SpringBoot.mainApplication'' [S ''com.example'', S ''A/b'', S ''A/b''])
   \<and> filter (\<lambda>a. case a of Mkdir d \<Rightarrow> prefix [''home'', ''dev'', ''svc'', ''src'', ''main'', ''java'', ''com'', ''example'', ''A''] d
                        | WriteFile p c \<Rightarrow> False)
        (performed [] (snd (build SpringBootBuilder workdir [] (spring_with ''artifactId'' (JStr ''a/b''))))) = []
   \<and> \<not> parents_made [] (performed [] (snd (build SpringBootBuilder workdir [] (spring_with ''artifactId'' (JStr ''a/b'')))))"
  by (simp add: spring_slash_run performed_def)

text \<open>
  C10, amended. Within one invocation the operations are ordered: the first operation
  performed is the creation of the project root, and every file is written after a
  recursive creation of its parent directory (or of a directory below that parent). This
  holds for every builder, whatever the filesystem accepts or rejects; for the Spring Boot
  builder it holds when the artifact id (the \<open>artifactId\<close> option, else the project name)
  is a string without \<open>/\<close>, or no string. When the project path does not resolve, no
  operation is performed.
\<close>

theorem operations_ordered:
  assumes "(b, steps, ok, failed) \<in> set builder_table"
    and "b = SpringBootBuilder \<longrightarrow>
           (case SpringBootBuilder_artifactId (options_or_empty config) (projectName config) of
              JStr a \<Rightarrow> CHR ''/'' \<notin> set a | _ \<Rightarrow> True)"
  shows "take (length tr) (snd (build b e tr config)) = tr
         \<and> (resolve_project_path e config = Inl err \<longrightarrow> performed tr (snd (build b e tr config)) = [])
         \<and> (resolve_project_path e config = Inr P \<longrightarrow>
              performed tr (snd (build b e tr config)) = []
              \<or> hd (performed tr (snd (build b e tr config))) = Mkdir P)
         \<and> parents_made [] (performed tr (snd (build b e tr config)))"
proof (cases "resolve_project_path e config")
  case (Inl x)
  from build_unresolved [OF assms(1) Inl, of tr] have "snd (build b e tr config) = tr"
    by simp
  with Inl show ?thesis
    by (simp add: performed_def)
next
  case (Inr Q)
  from table_cases [OF assms(1), of e tr config Q] obtain rest where st: "steps Q config = Do (Mkdir Q) # rest"
    by blast
  obtain k where tr': "snd (build b e tr config) = tr @ take k (ops_of (steps Q config))"
    using build_performed [OF assms(1) Inr] by blast
  then have p: "performed tr (snd (build b e tr config)) = take k (ops_of (steps Q config))"
    by (simp add: performed_def)
  have a: "take (length tr) (snd (build b e tr config)) = tr"
    using tr' by simp
  have b: "performed tr (snd (build b e tr config)) = []
              \<or> hd (performed tr (snd (build b e tr config))) = Mkdir Q"
    using p st hd_take_Cons [of k "Mkdir Q" "ops_of rest"] by simp
  have c: "parents_made [] (performed tr (snd (build b e tr config)))"
    using p steps_parents_made [OF assms, of Q] parents_made_take by simp
  from a b c Inr show ?thesis by auto
qed

theorem operations_ordered_witness:
  "(ReactBuilder, ReactBuilder_steps, ReactBuilder_ok, ''Failed to create React project'') \<in> set builder_table
   \<and> ReactBuilder \<noteq> SpringBootBuilder
   \<and> resolve_project_path workdir react_js = Inr [''home'', ''dev'', ''x'']
   \<and> hd (performed [] (snd (build ReactBuilder workdir [] react_js))) = Mkdir [''home'', ''dev'', ''x'']
   \<and> parents_made [] (performed [] (snd (build ReactBuilder workdir [] react_js)))
   \<and> length (performed [] (snd (build ReactBuilder workdir [] react_js))) = 10
   \<and> resolve_project_path gone react_js = Inl ''ENOENT: no such file or directory, uv_cwd''
   \<and> performed [] (snd (build ReactBuilder gone [] react_js)) = []
   \<and> (SpringBootBuilder, SpringBootBuilder_steps, SpringBootBuilder_ok, ''Failed to create Spring Boot project'')
        \<in> set builder_table
   \<and> SpringBootBuilder_artifactId (options_or_empty (spring_with ''javaVersion'' (JNum ''21'')))
        (projectName (spring_with ''javaVersion'' (JNum ''21''))) = JStr ''svc''
   \<and> CHR ''/'' \<notin> set ''svc''
   \<and> parents_made [] (performed [] (snd (build SpringBootBuilder workdir [] (spring_with ''javaVersion'' (JNum ''21'')))))"
proof -
  have h1: "(ReactBuilder, ReactBuilder_steps, ReactBuilder_ok, ''Failed to create React project'') \<in> set builder_table"
    by (simp add: builder_table_def)
  have h2: "ReactBuilder \<noteq> SpringBootBuilder"
    by simp
  have p1: "resolve_project_path workdir react_js = Inr [''home'', ''dev'', ''x'']"
    by (simp add: eval_defs react_js_def)
  have p2: "resolve_project_path gone react_js = Inl ''ENOENT: no such file or directory, uv_cwd''"
    by (simp add: resolve_project_path_def gone_def react_js_def)
  have n: "length (performed [] (snd (build ReactBuilder workdir [] react_js))) = 10"
    by (simp add: react_js_run performed_def)
  have s1: "(SpringBootBuilder, SpringBootBuilder_steps, SpringBootBuilder_ok, ''Failed to create Spring Boot project'')
        \<in> set builder_table"
    by (simp add: builder_table_def)
  have s2: "SpringBootBuilder_artifactId (options_or_empty (spring_with ''javaVersion'' (JNum ''21'')))
        (projectName (spring_with ''javaVersion'' (JNum ''21''))) = JStr ''svc''"
    by (simp add: SpringBootBuilder_artifactId_def options_or_empty_def spring_with_def get_prop_def js_or_def)
  have s3: "CHR ''/'' \<notin> set ''svc''"
    by simp
  from operations_ordered [OF h1, of react_js "[]" workdir _ "[''home'', ''dev'', ''x'']"] h2 p1 n
  have a: "hd (performed [] (snd (build ReactBuilder workdir [] react_js))) = Mkdir [''home'', ''dev'', ''x'']
           \<and> parents_made [] (performed [] (snd (build ReactBuilder workdir [] react_js)))"
    by auto
  from operations_ordered [OF h1, of react_js "[]" gone "''ENOENT: no such file or directory, uv_cwd''"] h2 p2
  have g: "performed [] (snd (build ReactBuilder gone [] react_js)) = []"
    by blast
  from operations_ordered [OF s1, of "spring_with ''javaVersion'' (JNum ''21'')" "[]" workdir] s2 s3
  have b: "parents_made [] (performed [] (snd (build SpringBootBuilder workdir [] (spring_with ''javaVersion'' (JNum ''21'')))))"
    by simp
  from h1 h2 p1 p2 n s1 s2 s3 a g b show ?thesis by blast
qed

section \<open>Composition\<close>

lemma React_vite_nodes:
  "file_nodes P (ops_of (ReactBuilder_createViteReactProject P name ts opts)) =
     (if ts
      then [([''package.json''], Rendered ''React.vite.packageJson'' [S name]),
            ([''vite.config..ts''], Rendered ''React.viteConfig'' []),
            ([''tsconfig.json''], Rendered ''React.vite.tsconfig'' []),
            ([''tsconfig.node.json''], Rendered ''React.vite.tsconfigNode'' []),
            ([''src'', ''App.tsx''], Rendered ''React.appContent'' [S ''.tsx'', S ''.tsx'']),
            ([''src'', ''main.tsx''], Rendered ''React.mainContent'' [S ''.tsx'']),
            ([''src'', ''index.css''], Rendered ''React.cssContent'' []),
            ([''index.html''], Rendered ''React.indexHtml'' [S name]),
            ([''.gitignore''], Rendered ''React.gitignore'' [])]
      else [([''package.json''], Rendered ''React.vite.packageJson'' [S name]),
            ([''vite.config..js''], Rendered ''React.viteConfig'' []),
            ([''src'', ''App.jsx''], Rendered ''React.appContent'' [S ''.jsx'', S ''.jsx'']),
            ([''src'', ''main.jsx''], Rendered ''React.mainContent'' [S ''.jsx'']),
            ([''src'', ''index.css''], Rendered ''React.cssContent'' []),
            ([''index.html''], Rendered ''React.indexHtml'' [S name]),
            ([''.gitignore''], Rendered ''React.gitignore'' [])])"
  by (simp add: ReactBuilder_createViteReactProject_def ReactBuilder_createReactSourceFiles_def
      ReactBuilder_createIndexHtml_def ReactBuilder_createGitignore_def Let_def path_join_simple simple_def
      file_nodes_def relative_to_def)

lemma React_cra_nodes:
  "file_nodes P (ops_of (ReactBuilder_createCRAProject P name ts opts)) =
     (if ts
      then [([''package.json''], Rendered ''React.cra.packageJson'' [S name]),
            ([''tsconfig.json''], Rendered ''React.cra.tsconfig'' []),
            ([''src'', ''App.tsx''], Rendered ''React.appContent'' [S ''.tsx'', S ''.tsx'']),
            ([''src'', ''main.tsx''], Rendered ''React.mainContent'' [S ''.tsx'']),
            ([''src'', ''index.css''], Rendered ''React.cssContent'' []),
            ([''public'', ''index.html''], Rendered ''React.publicIndexHtml'' [S name]),
            ([''.gitignore''], Rendered ''React.gitignore'' [])]
      else [([''package.json''], Rendered ''React.cra.packageJson'' [S name]),
            ([''src'', ''App.jsx''], Rendered ''React.appContent'' [S ''.jsx'', S ''.jsx'']),
            ([''src'', ''main.jsx''], Rendered ''React.mainContent'' [S ''.jsx'']),
            ([''src'', ''index.css''], Rendered ''React.cssContent'' []),
            ([''public'', ''index.html''], Rendered ''React.publicIndexHtml'' [S name]),
            ([''.gitignore''], Rendered ''React.gitignore'' [])])"
  by (simp add: ReactBuilder_createCRAProject_def ReactBuilder_createReactSourceFiles_def
      ReactBuilder_createPublicFolder_def ReactBuilder_createGitignore_def Let_def path_join_simple simple_def
      file_nodes_def relative_to_def)

lemma React_steps_nodes:
  "file_nodes P (ops_of (ReactBuilder_steps P config)) =
     (if framework config = ''react-vite'' \<or> framework config = ''react''
      then file_nodes P (ops_of (ReactBuilder_createViteReactProject P (projectName config)
             (ReactBuilder_useTypeScript (options_or_empty config)) (options_or_empty config)))
      else file_nodes P (ops_of (ReactBuilder_createCRAProject P (projectName config)
             (ReactBuilder_useTypeScript (options_or_empty config)) (options_or_empty config))))"
  by (simp add: ReactBuilder_steps_def Let_def file_nodes_def)





lemma ops_of_append: "ops_of (xs @ ys) = (if raised xs = None then ops_of xs @ ops_of ys else ops_of xs)"
proof (induction xs)
  case Nil
  show ?case by simp
next
  case (Cons x xs)
  then show ?case by (cases x) simp_all
qed

lemma raised_append: "raised (xs @ ys) = (if raised xs = None then raised ys else raised xs)"
proof (induction xs)
  case Nil
  show ?case by simp
next
  case (Cons x xs)
  then show ?case by (cases x) simp_all
qed

lemma written_append: "written (xs @ ys) = written xs @ written ys"
proof (induction xs)
  case Nil
  show ?case by simp
next
  case (Cons x xs)
  then show ?case by (cases x) simp_all
qed



lemma rooted_root: "rooted F \<Longrightarrow> rooted (\<lambda>P. Do (Mkdir P) # F P)"
  by (simp add: rooted_def)































lemma build_success_trace:
  assumes "(b, steps, ok, failed) \<in> set builder_table"
    and "resolve_project_path e config = Inr P"
    and "thrown (fs e) tr (steps P config) = None"
  shows "performed tr (snd (build b e tr config)) = ops_of (steps P config)"
proof -
  have "snd (build b e tr config) = fst (exec (fs e) tr (steps P config))"
    by (simp add: build_resolved [OF assms(1,2)] try_build_result)
  with exec_None [of "fs e" tr "steps P config"] assms(3)
  show ?thesis by (simp add: thrown_def performed_def)
qed


lemma thrown_accepting: "thrown accepting tr steps = raised steps"
  by (simp add: thrown_def exec_accepting)


lemma React_raised: "raised (ReactBuilder_steps P config) = None"
  by (simp add: ReactBuilder_steps_def ReactBuilder_createViteReactProject_def ReactBuilder_createCRAProject_def
      ReactBuilder_createReactSourceFiles_def ReactBuilder_createIndexHtml_def ReactBuilder_createGitignore_def
      ReactBuilder_createPublicFolder_def Let_def)

lemma React_in_table:
  "(ReactBuilder, ReactBuilder_steps, ReactBuilder_ok, ''Failed to create React project'') \<in> set builder_table"
  by (simp add: builder_table_def)




section \<open>The typescript option\<close>

lemma written_take_filter:
  "filter Q (map fst (written ops)) = [] \<Longrightarrow> filter Q (map fst (written (take k ops))) = []"
proof (induction ops arbitrary: k)
  case Nil
  then show ?case by simp
next
  case (Cons a ops)
  show ?case
  proof (cases k)
    case 0
    then show ?thesis by simp
  next
    case (Suc j)
    with Cons show ?thesis by (cases a) (simp_all split: if_splits)
  qed
qed

lemma React_untyped:
  "\<not> ReactBuilder_useTypeScript (options_or_empty config) \<Longrightarrow>
     filter typed_file (map fst (written (ops_of (ReactBuilder_steps P config)))) = []"
  by (simp add: ReactBuilder_steps_def ReactBuilder_createViteReactProject_def ReactBuilder_createCRAProject_def
      ReactBuilder_createReactSourceFiles_def ReactBuilder_createIndexHtml_def ReactBuilder_createGitignore_def
      ReactBuilder_createPublicFolder_def Let_def path_join_simple simple_def typed_file_def ends_with_def)

lemma React_performed:
  "\<exists>k P. performed tr (snd (ReactBuilder_build e tr config)) = take k (ops_of (ReactBuilder_steps P config))"
proof (cases "resolve_project_path e config")
  case (Inl err)
  then have "performed tr (snd (ReactBuilder_build e tr config)) = take 0 (ops_of (ReactBuilder_steps [] config))"
    by (simp add: ReactBuilder_build_def performed_def)
  then show ?thesis by blast
next
  case (Inr P)
  from build_performed [OF React_in_table Inr, of tr] obtain k where
    "snd (ReactBuilder_build e tr config) = tr @ take k (ops_of (ReactBuilder_steps P config))"
    by auto
  then have "performed tr (snd (ReactBuilder_build e tr config)) = take k (ops_of (ReactBuilder_steps P config))"
    by (simp add: performed_def)
  then show ?thesis by blast
qed

text \<open>
  C4. For a request with framework \<open>react\<close>: when \<open>typescript\<close> is \<open>false\<close>, no file with a
  \<open>.ts\<close> or \<open>.tsx\<close> name is written, whatever the filesystem does, and a build that runs to
  the end writes the entry files \<open>src/App.jsx\<close> and \<open>src/main.jsx\<close>; when the key is
  omitted, \<open>useTypeScript\<close> is true and a build that runs to the end writes \<open>src/App.tsx\<close>
  and \<open>src/main.tsx\<close>.
\<close>

theorem react_typescript_option:
  assumes "framework config = ''react''"
  shows "(get_prop (options_or_empty config) ''typescript'' = JBool False \<longrightarrow>
            filter typed_file (map fst (written (performed tr (snd (ReactBuilder_build e tr config))))) = []
            \<and> (resolve_project_path e config = Inr P \<and> thrown (fs e) tr (ReactBuilder_steps P config) = None \<longrightarrow>
                 map fst (file_nodes P (performed tr (snd (ReactBuilder_build e tr config)))) =
                   [[''package.json''], [''vite.config..js''], [''src'', ''App.jsx''], [''src'', ''main.jsx''],
                    [''src'', ''index.css''], [''index.html''], [''.gitignore'']]))
       \<and> (get_prop (options_or_empty config) ''typescript'' = JUndefined \<longrightarrow>
            ReactBuilder_useTypeScript (options_or_empty config)
            \<and> (resolve_project_path e config = Inr P \<and> thrown (fs e) tr (ReactBuilder_steps P config) = None \<longrightarrow>
                 map fst (file_nodes P (performed tr (snd (ReactBuilder_build e tr config)))) =
                   [[''package.json''], [''vite.config..ts''], [''tsconfig.json''], [''tsconfig.node.json''],
                    [''src'', ''App.tsx''], [''src'', ''main.tsx''], [''src'', ''index.css''], [''index.html''],
                    [''.gitignore'']]))"
proof -
  let ?done = "performed tr (snd (ReactBuilder_build e tr config))"
  have ok: "?done = ops_of (ReactBuilder_steps P config)"
    if "resolve_project_path e config = Inr P" "thrown (fs e) tr (ReactBuilder_steps P config) = None"
    using build_success_trace [OF React_in_table that] by simp
  have js: "filter typed_file (map fst (written ?done)) = []
            \<and> (resolve_project_path e config = Inr P \<and> thrown (fs e) tr (ReactBuilder_steps P config) = None \<longrightarrow>
                 map fst (file_nodes P ?done) =
                   [[''package.json''], [''vite.config..js''], [''src'', ''App.jsx''], [''src'', ''main.jsx''],
                    [''src'', ''index.css''], [''index.html''], [''.gitignore'']])"
    if f: "get_prop (options_or_empty config) ''typescript'' = JBool False"
  proof -
    from f have u: "\<not> ReactBuilder_useTypeScript (options_or_empty config)"
      by (simp add: ReactBuilder_useTypeScript_def not_false_def)
    obtain k Q where "?done = take k (ops_of (ReactBuilder_steps Q config))"
      using React_performed by blast
    with React_untyped [OF u, of Q] have a: "filter typed_file (map fst (written ?done)) = []"
      by (simp add: written_take_filter)
    have b: "map fst (file_nodes P ?done) =
                   [[''package.json''], [''vite.config..js''], [''src'', ''App.jsx''], [''src'', ''main.jsx''],
                    [''src'', ''index.css''], [''index.html''], [''.gitignore'']]"
      if "resolve_project_path e config = Inr P" "thrown (fs e) tr (ReactBuilder_steps P config) = None"
      using ok [OF that] u assms by (simp add: React_steps_nodes React_vite_nodes)
    from a b show ?thesis by blast
  qed
  have ts: "ReactBuilder_useTypeScript (options_or_empty config)
            \<and> (resolve_project_path e config = Inr P \<and> thrown (fs e) tr (ReactBuilder_steps P config) = None \<longrightarrow>
                 map fst (file_nodes P ?done) =
                   [[''package.json''], [''vite.config..ts''], [''tsconfig.json''], [''tsconfig.node.json''],
                    [''src'', ''App.tsx''], [''src'', ''main.tsx''], [''src'', ''index.css''], [''index.html''],
                    [''.gitignore'']])"
    if f: "get_prop (options_or_empty config) ''typescript'' = JUndefined"
  proof -
    from f have u: "ReactBuilder_useTypeScript (options_or_empty config)"
      by (simp add: ReactBuilder_useTypeScript_def not_false_def)
    have b: "map fst (file_nodes P ?done) =
                   [[''package.json''], [''vite.config..ts''], [''tsconfig.json''], [''tsconfig.node.json''],
                    [''src'', ''App.tsx''], [''src'', ''main.tsx''], [''src'', ''index.css''], [''index.html''],
                    [''.gitignore'']]"
      if "resolve_project_path e config = Inr P" "thrown (fs e) tr (ReactBuilder_steps P config) = None"
      using ok [OF that] u assms by (simp add: React_steps_nodes React_vite_nodes)
    from u b show ?thesis by blast
  qed
  from js ts show ?thesis by blast
qed

theorem react_typescript_option_witness:
  "framework react_js = ''react''
   \<and> get_prop (options_or_empty react_js) ''typescript'' = JBool False
   \<and> resolve_project_path workdir react_js = Inr [''home'', ''dev'', ''x'']
   \<and> thrown (fs workdir) [] (ReactBuilder_steps [''home'', ''dev'', ''x''] react_js) = None
   \<and> filter typed_file (map fst (written (performed [] (snd (ReactBuilder_build workdir [] react_js))))) = []
   \<and> map fst (file_nodes [''home'', ''dev'', ''x''] (performed [] (snd (ReactBuilder_build workdir [] react_js)))) =
        [[''package.json''], [''vite.config..js''], [''src'', ''App.jsx''], [''src'', ''main.jsx''],
         [''src'', ''index.css''], [''index.html''], [''.gitignore'']]
   \<and> framework react_default = ''react''
   \<and> get_prop (options_or_empty react_default) ''typescript'' = JUndefined
   \<and> resolve_project_path workdir react_default = Inr [''home'', ''dev'', ''x'']
   \<and> thrown (fs workdir) [] (ReactBuilder_steps [''home'', ''dev'', ''x''] react_default) = None
   \<and> ReactBuilder_useTypeScript (options_or_empty react_default)
   \<and> map fst (file_nodes [''home'', ''dev'', ''x''] (performed [] (snd (ReactBuilder_build workdir [] react_default)))) =
        [[''package.json''], [''vite.config..ts''], [''tsconfig.json''], [''tsconfig.node.json''],
         [''src'', ''App.tsx''], [''src'', ''main.tsx''], [''src'', ''index.css''], [''index.html''], [''.gitignore'']]"
proof -
  have f1: "framework react_js = ''react''"
    by (simp add: react_js_def)
  have g1: "get_prop (options_or_empty react_js) ''typescript'' = JBool False"
    by (simp add: react_js_def options_or_empty_def get_prop_def)
  have p1: "resolve_project_path workdir react_js = Inr [''home'', ''dev'', ''x'']"
    by (simp add: eval_defs react_js_def)
  have t1: "thrown (fs workdir) [] (ReactBuilder_steps [''home'', ''dev'', ''x''] react_js) = None"
    by (simp add: workdir_def thrown_accepting React_raised)
  have f2: "framework react_default = ''react''"
    by (simp add: react_default_def)
  have g2: "get_prop (options_or_empty react_default) ''typescript'' = JUndefined"
    by (simp add: react_default_def options_or_empty_def get_prop_def)
  have p2: "resolve_project_path workdir react_default = Inr [''home'', ''dev'', ''x'']"
    by (simp add: eval_defs react_default_def)
  have t2: "thrown (fs workdir) [] (ReactBuilder_steps [''home'', ''dev'', ''x''] react_default) = None"
    by (simp add: workdir_def thrown_accepting React_raised)
  from react_typescript_option [OF f1, of "[]" workdir "[''home'', ''dev'', ''x'']"]
    react_typescript_option [OF f2, of "[]" workdir "[''home'', ''dev'', ''x'']"]
    f1 g1 p1 t1 f2 g2 p2 t2
  show ?thesis by simp
qed

section \<open>Further concrete invocations\<close>

lemma pascal_svc: "toPascalCase ''svc'' = ''Svc''"
  by code_simp

lemma spring_java21_run:
  "SpringBootBuilder_build workdir [] (spring_with ''javaVersion'' (JNum ''21'')) =
     (Inr (SpringBootBuilder_ok (spring_with ''javaVersion'' (JNum ''21''))),
      [Mkdir [''home'', ''dev'', ''svc''],
       WriteFile [''home'', ''dev'', ''svc'', ''pom.xml'']
         (Rendered ''SpringBoot.pomXml'' [S ''3.2.0'', S ''com.example'', S ''svc'', S ''svc'', S ''21'']),
       Mkdir [''home'', ''dev'', ''svc'', ''src'', ''main'', ''java'', ''com'', ''example''],
       Mkdir [''home'', ''dev'', ''svc'', ''src'', ''main'', ''resources''],
       Mkdir [''home'', ''dev'', ''svc'', ''src'', ''test'', ''java'', ''com'', ''example''],
       WriteFile [''home'', ''dev'', ''svc'', ''src'', ''main'', ''resources'', ''application.properties'']
         (Rendered ''SpringBoot.applicationProperties'' []),
       WriteFile [''home'', ''dev'', ''svc'', ''src'', ''main'', ''java'', ''com'', ''example'', ''SvcApplication.java'']
         (Rendered ''SpringBoot.mainApplication'' [S ''com.example'', S ''Svc'', S ''Svc'']),
       WriteFile [''home'', ''dev'', ''svc'', ''.gitignore''] (Rendered ''SpringBoot.gitignore'' [])])"
  by (simp add: Spring_defs eval_defs spring_with_def js_or_def dots_to_slashes_def pascal_svc)

lemma spring_group5_run:
  "SpringBootBuilder_build workdir [] (spring_with ''groupId'' (JNum ''5'')) =
     (Inr (failure ''Failed to create Spring Boot project'' ''groupId.replace is not a function''),
      [Mkdir [''home'', ''dev'', ''svc''],
       WriteFile [''home'', ''dev'', ''svc'', ''pom.xml'']
         (Rendered ''SpringBoot.pomXml'' [S ''3.2.0'', S ''5'', S ''svc'', S ''svc'', S ''17''])])"
  by (simp add: Spring_defs eval_defs spring_with_def js_or_def failure_def)


lemma vite_demo_run:
  "ViteBuilder_build workdir [] vite_demo =
     (Inr (ViteBuilder_ok vite_demo),
      [Mkdir [''home'', ''dev'', ''demo''],
       WriteFile [''home'', ''dev'', ''demo'', ''package.json''] (Rendered ''Vite.packageJson'' [S ''demo'']),
       WriteFile [''home'', ''dev'', ''demo'', ''vite.config.ts''] (Rendered ''Vite.viteConfig'' []),
       WriteFile [''home'', ''dev'', ''demo'', ''tsconfig.json''] (Rendered ''Vite.tsconfig'' []),
       Mkdir [''home'', ''dev'', ''demo'', ''src''],
       WriteFile [''home'', ''dev'', ''demo'', ''src'', ''main.ts''] (Rendered ''Vite.mainContent'' []),
       WriteFile [''home'', ''dev'', ''demo'', ''src'', ''style.css''] (Rendered ''Vite.styleContent'' []),
       WriteFile [''home'', ''dev'', ''demo'', ''index.html''] (Rendered ''Vite.indexHtml'' [S ''demo'']),
       WriteFile [''home'', ''dev'', ''demo'', ''.gitignore''] (Rendered ''Vite.gitignore'' [])])"
  by (simp add: ViteBuilder_build_def ViteBuilder_steps_def ViteBuilder_createViteProject_def
      ViteBuilder_createSourceFiles_def ViteBuilder_createIndexHtml_def ViteBuilder_createGitignore_def
      ViteBuilder_useTypeScript_def ViteBuilder_ok_def eval_defs vite_demo_def)

section \<open>The files field\<close>

text \<open>
  C3. For \<open>{projectName: 'x', framework: 'react', options: {typescript: false}}\<close> on a
  filesystem that accepts everything, the build succeeds and its \<open>files\<close> field lists
  \<open>src/App.tsx\<close> and \<open>src/main.tsx\<close>, which the invocation did not write: it wrote
  \<open>src/App.jsx\<close> and \<open>src/main.jsx\<close>. Likewise the Vite builder lists \<open>src/main.js\<close> for
  \<open>{projectName: 'demo', framework: 'vite', options: {}}\<close> and writes \<open>src/main.ts\<close>.
\<close>

theorem files_lists_unwritten_paths:
  "fst (ReactBuilder_build workdir [] react_js) = Inr (ReactBuilder_ok react_js)
   \<and> success (ReactBuilder_ok react_js)
   \<and> files (ReactBuilder_ok react_js) = Some [''package.json'', ''src/App.tsx'', ''src/main.tsx'', ''index.html'']
   \<and> map shown (map fst (file_nodes [''home'', ''dev'', ''x''] (snd (ReactBuilder_build workdir [] react_js)))) =
        [''package.json'', ''vite.config..js'', ''src/App.jsx'', ''src/main.jsx'', ''src/index.css'',
         ''index.html'', ''.gitignore'']
   \<and> fst (ViteBuilder_build workdir [] vite_demo) = Inr (ViteBuilder_ok vite_demo)
   \<and> files (ViteBuilder_ok vite_demo) = Some [''package.json'', ''index.html'', ''src/main.js'']
   \<and> map shown (map fst (file_nodes [''home'', ''dev'', ''demo''] (snd (ViteBuilder_build workdir [] vite_demo)))) =
        [''package.json'', ''vite.config.ts'', ''tsconfig.json'', ''src/main.ts'', ''src/style.css'',
         ''index.html'', ''.gitignore'']"
  by (simp add: react_js_run vite_demo_run file_nodes_def relative_to_def shown_def ReactBuilder_ok_def
      ViteBuilder_ok_def)

section \<open>Variant selection\<close>

lemma lower_REACT: "toLowerCase ''REACT'' = ''react''"
  by code_simp

lemma lower_FLASK_REST: "toLowerCase ''FLASK-REST'' = ''flask-rest''"
  by code_simp

lemma getBuilder_react: "getBuilder ''REACT'' = Some ReactBuilder \<and> getBuilder ''react'' = Some ReactBuilder"
  by code_simp

lemma getBuilder_flask: "getBuilder ''FLASK-REST'' = Some FlaskBuilder \<and> getBuilder ''flask-rest'' = Some FlaskBuilder"
  by code_simp

text \<open>
  C7. \<open>REACT\<close> and \<open>react\<close> resolve to the same builder, but \<open>build\<close> compares the
  identifier as the caller wrote it: \<open>react\<close> gives the Vite project and \<open>REACT\<close> the
  create-react-app project, with a different set of files. In the same way \<open>FLASK-REST\<close>
  and \<open>flask-rest\<close> both reach the Flask builder and get different \<open>requirements.txt\<close>.
\<close>

theorem variant_selection_case_sensitive:
  "getBuilder (framework react_upper) = getBuilder (framework react_default)
   \<and> getBuilder (framework react_upper) = Some ReactBuilder
   \<and> map shown (map fst (file_nodes [''home'', ''dev'', ''x''] (snd (ReactBuilder_build workdir [] react_default)))) =
        [''package.json'', ''vite.config..ts'', ''tsconfig.json'', ''tsconfig.node.json'', ''src/App.tsx'',
         ''src/main.tsx'', ''src/index.css'', ''index.html'', ''.gitignore'']
   \<and> map shown (map fst (file_nodes [''home'', ''dev'', ''x''] (snd (ReactBuilder_build workdir [] react_upper)))) =
        [''package.json'', ''tsconfig.json'', ''src/App.tsx'', ''src/main.tsx'', ''src/index.css'',
         ''public/index.html'', ''.gitignore'']
   \<and> getBuilder ''FLASK-REST'' = getBuilder ''flask-rest''
   \<and> FlaskBuilder_requirements ''flask-rest'' =
        ''Flask>=3.0.0\<newline>python-dotenv>=1.0.0\<newline>flask-restful>=0.3.10\<newline>flask-cors>=4.0.0\<newline>''
   \<and> FlaskBuilder_requirements ''FLASK-REST'' = ''Flask>=3.0.0\<newline>python-dotenv>=1.0.0\<newline>''"
proof -
  have f: "framework react_upper = ''REACT'' \<and> framework react_default = ''react''"
    by (simp add: react_upper_def react_default_def)
  have a: "getBuilder (framework react_upper) = getBuilder (framework react_default)
     \<and> getBuilder (framework react_upper) = Some ReactBuilder"
    using f getBuilder_react by simp
  have b: "map shown (map fst (file_nodes [''home'', ''dev'', ''x''] (snd (ReactBuilder_build workdir [] react_default)))) =
        [''package.json'', ''vite.config..ts'', ''tsconfig.json'', ''tsconfig.node.json'', ''src/App.tsx'',
         ''src/main.tsx'', ''src/index.css'', ''index.html'', ''.gitignore'']"
    by (simp add: react_default_run file_nodes_def relative_to_def shown_def)
  have c: "map shown (map fst (file_nodes [''home'', ''dev'', ''x''] (snd (ReactBuilder_build workdir [] react_upper)))) =
        [''package.json'', ''tsconfig.json'', ''src/App.tsx'', ''src/main.tsx'', ''src/index.css'',
         ''public/index.html'', ''.gitignore'']"
    by (simp add: react_upper_run file_nodes_def relative_to_def shown_def)
  have d: "getBuilder ''FLASK-REST'' = getBuilder ''flask-rest''"
    using getBuilder_flask by simp
  have e: "FlaskBuilder_requirements ''flask-rest'' =
        ''Flask>=3.0.0\<newline>python-dotenv>=1.0.0\<newline>flask-restful>=0.3.10\<newline>flask-cors>=4.0.0\<newline>''
     \<and> FlaskBuilder_requirements ''FLASK-REST'' = ''Flask>=3.0.0\<newline>python-dotenv>=1.0.0\<newline>''"
    by (simp add: FlaskBuilder_requirements_def)
  from a b c d e show ?thesis by blast
qed

section \<open>Option resolution\<close>

lemma get_prop_upd: "get_prop (opts(k \<mapsto> v)) k = v"
  by (simp add: get_prop_def)

lemma get_prop_other: "k' \<noteq> k \<Longrightarrow> get_prop (opts(k \<mapsto> v)) k' = get_prop opts k'"
  by (simp add: get_prop_def)

lemma options_with_option: "options_or_empty (with_option config key v) = (options_or_empty config)(key \<mapsto> v)"
  by (simp add: with_option_def options_or_empty_def)

lemma resolve_with_option: "resolve_project_path e (with_option config key v) = resolve_project_path e config"
  by (simp add: resolve_project_path_def with_option_def split: sum.split jsval.split)

lemma projectName_with_option: "projectName (with_option config key v) = projectName config"
  by (simp add: with_option_def)

lemma Spring_in_table:
  "(SpringBootBuilder, SpringBootBuilder_steps, SpringBootBuilder_ok, ''Failed to create Spring Boot project'')
     \<in> set builder_table"
  by (simp add: builder_table_def)

lemma build_raise:
  assumes "(b, steps, ok, failed) \<in> set builder_table" and "resolve_project_path e config = Inr P"
    and "steps P config = map Do ops @ Raise m # rest" and "accepted (fs e) tr ops"
  shows "build b e tr config = (Inr (failure failed m), tr @ ops)"
  using exec_accepted [OF assms(4), of "Raise m # rest"] assms(3)
  by (simp add: build_resolved [OF assms(1,2)] try_build_def failure_def)

lemma pom_unconvertible:
  "to_string javaVersion = None \<Longrightarrow> SpringBootBuilder_generatePomXml groupId artifactId version javaVersion = None"
  by (simp add: SpringBootBuilder_generatePomXml_def split: option.split)

lemma pom_javaVersion:
  assumes "to_string j1 \<noteq> None" and "to_string j2 \<noteq> None"
  shows "(SpringBootBuilder_generatePomXml groupId artifactId version j1 = None) =
         (SpringBootBuilder_generatePomXml groupId artifactId version j2 = None)"
  using assms by (auto simp add: SpringBootBuilder_generatePomXml_def split: option.split)

lemma Spring_javaVersion_unconvertible:
  assumes "truthy v" and "to_string v = None"
  shows "SpringBootBuilder_steps P (with_option config ''javaVersion'' v) =
           map Do [Mkdir P] @ Raise cannot_convert # tl (tl (SpringBootBuilder_steps P (with_option config ''javaVersion'' v)))"
proof -
  from assms have "SpringBootBuilder_javaVersion (options_or_empty (with_option config ''javaVersion'' v)) = v"
    by (simp add: SpringBootBuilder_javaVersion_def options_with_option get_prop_upd js_or_def)
  with assms(2) show ?thesis
    by (simp add: SpringBootBuilder_steps_def Let_def pom_unconvertible)
qed

lemma Spring_javaVersion_paths:
  assumes "\<not> truthy v \<or> to_string v \<noteq> None"
  shows "map fst (written (ops_of (SpringBootBuilder_steps P (with_option config ''javaVersion'' v)))) =
           map fst (written (ops_of (SpringBootBuilder_steps P (with_option config ''javaVersion'' JUndefined))))
         \<and> raised (SpringBootBuilder_steps P (with_option config ''javaVersion'' v)) =
             raised (SpringBootBuilder_steps P (with_option config ''javaVersion'' JUndefined))"
proof -
  let ?c = "with_option config ''javaVersion'' v"
  let ?d = "with_option config ''javaVersion'' JUndefined"
  have g: "SpringBootBuilder_groupId (options_or_empty ?c) = SpringBootBuilder_groupId (options_or_empty ?d)"
    by (simp add: SpringBootBuilder_groupId_def options_with_option get_prop_other)
  have a: "SpringBootBuilder_artifactId (options_or_empty ?c) (projectName config) =
           SpringBootBuilder_artifactId (options_or_empty ?d) (projectName config)"
    by (simp add: SpringBootBuilder_artifactId_def options_with_option get_prop_other)
  have s: "SpringBootBuilder_springBootVersion (options_or_empty ?c) =
           SpringBootBuilder_springBootVersion (options_or_empty ?d)"
    by (simp add: SpringBootBuilder_springBootVersion_def options_with_option get_prop_other)
  have j1: "to_string (SpringBootBuilder_javaVersion (options_or_empty ?c)) \<noteq> None"
    using assms by (auto simp add: SpringBootBuilder_javaVersion_def options_with_option get_prop_upd js_or_def)
  have j2: "to_string (SpringBootBuilder_javaVersion (options_or_empty ?d)) \<noteq> None"
    by (simp add: SpringBootBuilder_javaVersion_def options_with_option get_prop_upd js_or_def)
  note pom = pom_javaVersion [OF j1 j2, of "SpringBootBuilder_groupId (options_or_empty ?d)"
      "SpringBootBuilder_artifactId (options_or_empty ?d) (projectName config)"
      "SpringBootBuilder_springBootVersion (options_or_empty ?d)"]
  show ?thesis
  proof (cases "SpringBootBuilder_generatePomXml (SpringBootBuilder_groupId (options_or_empty ?d))
                  (SpringBootBuilder_artifactId (options_or_empty ?d) (projectName config))
                  (SpringBootBuilder_springBootVersion (options_or_empty ?d))
                  (SpringBootBuilder_javaVersion (options_or_empty ?d))")
    case None
    with pom have "SpringBootBuilder_generatePomXml (SpringBootBuilder_groupId (options_or_empty ?d))
                  (SpringBootBuilder_artifactId (options_or_empty ?d) (projectName config))
                  (SpringBootBuilder_springBootVersion (options_or_empty ?d))
                  (SpringBootBuilder_javaVersion (options_or_empty ?c)) = None"
      by simp
    with None show ?thesis
      by (simp add: SpringBootBuilder_steps_def Let_def g a s projectName_with_option)
  next
    case (Some body)
    with pom obtain body' where "SpringBootBuilder_generatePomXml (SpringBootBuilder_groupId (options_or_empty ?d))
                  (SpringBootBuilder_artifactId (options_or_empty ?d) (projectName config))
                  (SpringBootBuilder_springBootVersion (options_or_empty ?d))
                  (SpringBootBuilder_javaVersion (options_or_empty ?c)) = Some body'"
      by auto
    with Some show ?thesis
      by (simp add: SpringBootBuilder_steps_def Let_def g a s projectName_with_option
          ops_of_append raised_append written_append)
  qed
qed

lemma Spring_groupId_throws:
  assumes "truthy v" and "\<not> is_string v"
  shows "raised (SpringBootBuilder_steps P (with_option config ''groupId'' v)) = Some cannot_convert
         \<or> raised (SpringBootBuilder_steps P (with_option config ''groupId'' v)) = Some ''groupId.replace is not a function''"
proof -
  from assms(1) have g: "SpringBootBuilder_groupId (options_or_empty (with_option config ''groupId'' v)) = v"
    by (simp add: SpringBootBuilder_groupId_def options_with_option get_prop_upd js_or_def)
  from assms(2) have c: "SpringBootBuilder_createSourceStructure P v a = [Raise ''groupId.replace is not a function'']" for a
    by (cases v) (simp_all add: SpringBootBuilder_createSourceStructure_def)
  show ?thesis
    by (simp add: SpringBootBuilder_steps_def Let_def g c split: option.split)
qed

text \<open>
  C5 as stated fails: a number declared for \<open>javaVersion\<close> is not replaced by the
  default \<open>'17'\<close> but written into \<open>pom.xml\<close>, and a number declared for \<open>groupId\<close>
  makes the build fail.
\<close>

theorem type_mismatch_not_defaulted:
  "SpringBootBuilder_javaVersion (options_or_empty (spring_with ''javaVersion'' (JNum ''21''))) \<noteq> JStr ''17''
   \<and> SpringBootBuilder_javaVersion (options_or_empty (spring_with ''javaVersion'' (JNum ''21''))) = JNum ''21''
   \<and> fst (SpringBootBuilder_build workdir [] (spring_with ''javaVersion'' (JNum ''21''))) =
        Inr (SpringBootBuilder_ok (spring_with ''javaVersion'' (JNum ''21'')))
   \<and> snd (SpringBootBuilder_build workdir [] (spring_with ''javaVersion'' (JNum ''21''))) ! 1 =
        WriteFile [''home'', ''dev'', ''svc'', ''pom.xml'']
          (Rendered ''SpringBoot.pomXml'' [S ''3.2.0'', S ''com.example'', S ''svc'', S ''svc'', S ''21''])
   \<and> fst (SpringBootBuilder_build workdir [] (spring_with ''groupId'' (JNum ''5''))) =
        Inr \<lparr>success = False, message = ''Failed to create Spring Boot project'', files = None,
             error = Some ''groupId.replace is not a function''\<rparr>"
proof -
  have a: "SpringBootBuilder_javaVersion (options_or_empty (spring_with ''javaVersion'' (JNum ''21''))) = JNum ''21''"
    by (simp add: SpringBootBuilder_javaVersion_def options_or_empty_def spring_with_def get_prop_def js_or_def)
  have b: "fst (SpringBootBuilder_build workdir [] (spring_with ''javaVersion'' (JNum ''21''))) =
        Inr (SpringBootBuilder_ok (spring_with ''javaVersion'' (JNum ''21'')))"
    by (simp add: spring_java21_run)
  have c: "snd (SpringBootBuilder_build workdir [] (spring_with ''javaVersion'' (JNum ''21''))) ! 1 =
        WriteFile [''home'', ''dev'', ''svc'', ''pom.xml'']
          (Rendered ''SpringBoot.pomXml'' [S ''3.2.0'', S ''com.example'', S ''svc'', S ''svc'', S ''21''])"
    by (simp add: spring_java21_run)
  have d: "fst (SpringBootBuilder_build workdir [] (spring_with ''groupId'' (JNum ''5''))) =
        Inr \<lparr>success = False, message = ''Failed to create Spring Boot project'', files = None,
             error = Some ''groupId.replace is not a function''\<rparr>"
    by (simp add: spring_group5_run failure_def)
  from a b c d show ?thesis by simp
qed

text \<open>
  C5, amended. Option resolution checks no types. \<open>typescript\<close> (React) is read with
  \<open>!== false\<close>: every declared value other than the boolean \<open>false\<close>, of whatever type,
  gives \<open>true\<close>, and none makes the builder's own code throw. \<open>javaVersion\<close> (Spring Boot)
  is read with \<open>||\<close>: a declared value that is falsy gives the default \<open>'17'\<close>, every other
  value, of whatever type, is used as it is. A truthy value without string conversion (an
  object with an own \<open>toString\<close> property, an array that holds one) makes the builder's
  code throw when \<open>pom.xml\<close> is composed: once the project path is resolved and the root
  directory created, \<open>build\<close> returns \<open>success = false\<close> with the error
  \<open>Cannot convert object to primitive value\<close> and has written no file. Every other value of
  \<open>javaVersion\<close> leaves the paths of the files written, and the error that the builder's
  own code throws, if any, as they are when the option holds \<open>undefined\<close>. A truthy
  \<open>groupId\<close> that is not a string always makes the builder's code throw, that error or
  \<open>groupId.replace is not a function\<close>.
\<close>

theorem option_resolution_untyped:
  "ReactBuilder_useTypeScript (options_or_empty (with_option config ''typescript'' v)) = (v \<noteq> JBool False)
   \<and> raised (ReactBuilder_steps P (with_option config ''typescript'' v)) = None
   \<and> SpringBootBuilder_javaVersion (options_or_empty (with_option config ''javaVersion'' v)) =
       (if truthy v then v else JStr ''17'')
   \<and> (truthy v \<and> to_string v = None \<longrightarrow>
        raised (SpringBootBuilder_steps P (with_option config ''javaVersion'' v)) = Some cannot_convert
        \<and> ops_of (SpringBootBuilder_steps P (with_option config ''javaVersion'' v)) = [Mkdir P]
        \<and> (resolve_project_path e config = Inr P \<and> fs e tr (Mkdir P) = None \<longrightarrow>
             build SpringBootBuilder e tr (with_option config ''javaVersion'' v) =
               (Inr \<lparr>success = False, message = ''Failed to create Spring Boot project'', files = None,
                     error = Some cannot_convert\<rparr>, tr @ [Mkdir P])))
   \<and> (\<not> truthy v \<or> to_string v \<noteq> None \<longrightarrow>
        raised (SpringBootBuilder_steps P (with_option config ''javaVersion'' v)) =
          raised (SpringBootBuilder_steps P (with_option config ''javaVersion'' JUndefined))
        \<and> map fst (written (ops_of (SpringBootBuilder_steps P (with_option config ''javaVersion'' v)))) =
            map fst (written (ops_of (SpringBootBuilder_steps P (with_option config ''javaVersion'' JUndefined)))))
   \<and> (truthy v \<and> \<not> is_string v \<longrightarrow>
        raised (SpringBootBuilder_steps P (with_option config ''groupId'' v)) = Some cannot_convert
        \<or> raised (SpringBootBuilder_steps P (with_option config ''groupId'' v)) =
             Some ''groupId.replace is not a function'')"
proof -
  have a: "ReactBuilder_useTypeScript (options_or_empty (with_option config ''typescript'' v)) = (v \<noteq> JBool False)"
    by (simp add: ReactBuilder_useTypeScript_def options_with_option get_prop_upd not_false_def)
  have b: "SpringBootBuilder_javaVersion (options_or_empty (with_option config ''javaVersion'' v)) =
       (if truthy v then v else JStr ''17'')"
    by (simp add: SpringBootBuilder_javaVersion_def options_with_option get_prop_upd js_or_def)
  have c: "raised (SpringBootBuilder_steps P (with_option config ''javaVersion'' v)) = Some cannot_convert
        \<and> ops_of (SpringBootBuilder_steps P (with_option config ''javaVersion'' v)) = [Mkdir P]
        \<and> (resolve_project_path e config = Inr P \<and> fs e tr (Mkdir P) = None \<longrightarrow>
             build SpringBootBuilder e tr (with_option config ''javaVersion'' v) =
               (Inr \<lparr>success = False, message = ''Failed to create Spring Boot project'', files = None,
                     error = Some cannot_convert\<rparr>, tr @ [Mkdir P]))"
    if h: "truthy v" "to_string v = None"
  proof -
    note s = Spring_javaVersion_unconvertible [OF h, of P config]
    have c1: "raised (SpringBootBuilder_steps P (with_option config ''javaVersion'' v)) = Some cannot_convert"
      by (subst s) simp
    have c2: "ops_of (SpringBootBuilder_steps P (with_option config ''javaVersion'' v)) = [Mkdir P]"
      by (subst s) simp
    have c3: "build SpringBootBuilder e tr (with_option config ''javaVersion'' v) =
               (Inr \<lparr>success = False, message = ''Failed to create Spring Boot project'', files = None,
                     error = Some cannot_convert\<rparr>, tr @ [Mkdir P])"
      if r: "resolve_project_path e config = Inr P" "fs e tr (Mkdir P) = None"
    proof -
      from r(1) have r': "resolve_project_path e (with_option config ''javaVersion'' v) = Inr P"
        by (simp add: resolve_with_option)
      from r(2) have acc: "accepted (fs e) tr [Mkdir P]"
        by simp
      from build_raise [OF Spring_in_table r' s acc] show ?thesis
        by (simp add: failure_def)
    qed
    from c1 c2 c3 show ?thesis by blast
  qed
  from a b c React_raised [of P "with_option config ''typescript'' v"] Spring_javaVersion_paths [of v P config]
    Spring_groupId_throws [of v P config]
  show ?thesis by blast
qed

theorem option_resolution_untyped_witness:
  "truthy (JObj [(''toString'', JNum ''0'')]) \<and> to_string (JObj [(''toString'', JNum ''0'')]) = None
   \<and> resolve_project_path workdir (spring_with ''springBootVersion'' (JStr ''3.3.0'')) = Inr [''home'', ''dev'', ''svc'']
   \<and> fs workdir [] (Mkdir [''home'', ''dev'', ''svc'']) = None
   \<and> build SpringBootBuilder workdir []
        (with_option (spring_with ''springBootVersion'' (JStr ''3.3.0'')) ''javaVersion'' (JObj [(''toString'', JNum ''0'')])) =
       (Inr \<lparr>success = False, message = ''Failed to create Spring Boot project'', files = None,
             error = Some ''Cannot convert object to primitive value''\<rparr>, [Mkdir [''home'', ''dev'', ''svc'']])
   \<and> to_string (JArr [JNum ''21'', JNull, JStr ''x'']) = Some ''21,,x''
   \<and> SpringBootBuilder_javaVersion
        (options_or_empty (with_option (spring_with ''springBootVersion'' (JStr ''3.3.0'')) ''javaVersion''
           (JArr [JNum ''21'', JNull, JStr ''x'']))) = JArr [JNum ''21'', JNull, JStr ''x'']
   \<and> raised (SpringBootBuilder_steps [''p''] (with_option (spring_with ''springBootVersion'' (JStr ''3.3.0''))
        ''javaVersion'' (JArr [JNum ''21'', JNull, JStr ''x'']))) = None
   \<and> truthy (JBool True) \<and> \<not> is_string (JBool True)
   \<and> raised (SpringBootBuilder_steps [''p''] (with_option (spring_with ''springBootVersion'' (JStr ''3.3.0''))
        ''groupId'' (JBool True))) = Some ''groupId.replace is not a function''
   \<and> ReactBuilder_useTypeScript (options_or_empty (with_option react_js ''typescript'' (JStr ''false'')))"
proof -
  let ?c = "spring_with ''springBootVersion'' (JStr ''3.3.0'')"
  let ?o = "JObj [(''toString'', JNum ''0'')]"
  let ?a = "JArr [JNum ''21'', JNull, JStr ''x'']"
  have h1: "truthy ?o \<and> to_string ?o = None"
    by simp
  have h2: "resolve_project_path workdir ?c = Inr [''home'', ''dev'', ''svc'']"
    by (simp add: eval_defs spring_with_def)
  have h3: "fs workdir [] (Mkdir [''home'', ''dev'', ''svc'']) = None"
    by (simp add: workdir_def accepting_def)
  have h4: "to_string ?a = Some ''21,,x''"
    by simp
  have h5: "truthy (JBool True) \<and> \<not> is_string (JBool True)"
    by simp
  have r0: "raised (SpringBootBuilder_steps [''p''] (with_option ?c ''javaVersion'' JUndefined)) = None"
    by (simp add: Spring_defs with_option_def spring_with_def options_or_empty_def get_prop_def js_or_def Let_def)
  have nc: "raised (SpringBootBuilder_steps [''p''] (with_option ?c ''groupId'' (JBool True))) \<noteq> Some cannot_convert"
    by (simp add: Spring_defs with_option_def spring_with_def options_or_empty_def get_prop_def js_or_def
        cannot_convert_def Let_def)
  note t1 = option_resolution_untyped [of ?c ?o "[''home'', ''dev'', ''svc'']" workdir "[]"]
  note t2 = option_resolution_untyped [of ?c ?a "[''p'']"]
  note t3 = option_resolution_untyped [of ?c "JBool True" "[''p'']"]
  note t4 = option_resolution_untyped [of react_js "JStr ''false''"]
  from t1 h1 h2 h3 have a: "build SpringBootBuilder workdir [] (with_option ?c ''javaVersion'' ?o) =
       (Inr \<lparr>success = False, message = ''Failed to create Spring Boot project'', files = None,
             error = Some ''Cannot convert object to primitive value''\<rparr>, [Mkdir [''home'', ''dev'', ''svc'']])"
    by (simp add: cannot_convert_def)
  from t2 h4 have b: "SpringBootBuilder_javaVersion (options_or_empty (with_option ?c ''javaVersion'' ?a)) = ?a"
    by simp
  from t2 h4 r0 have c: "raised (SpringBootBuilder_steps [''p''] (with_option ?c ''javaVersion'' ?a)) = None"
    by simp
  from t3 h5 nc have d: "raised (SpringBootBuilder_steps [''p''] (with_option ?c ''groupId'' (JBool True))) =
      Some ''groupId.replace is not a function''"
    by blast
  from t4 have e: "ReactBuilder_useTypeScript (options_or_empty (with_option react_js ''typescript'' (JStr ''false'')))"
    by simp
  from h1 h2 h3 a h4 b c h5 d e show ?thesis by blast
qed

section \<open>Unknown frameworks\<close>

lemma includes_str_iff: "includes_str s sub \<longleftrightarrow> (\<exists>p q. s = p @ sub @ q)"
proof (induction s)
  case Nil
  show ?case by auto
next
  case (Cons c cs)
  show ?case
  proof
    assume "includes_str (c # cs) sub"
    then consider "prefix sub (c # cs)" | "includes_str cs sub" by auto
    then show "\<exists>p q. c # cs = p @ sub @ q"
    proof cases
      case 1
      then obtain q where "c # cs = sub @ q" by (auto simp add: prefix_def)
      then have "c # cs = [] @ sub @ q" by simp
      then show ?thesis by blast
    next
      case 2
      with Cons.IH obtain p q where "cs = p @ sub @ q" by blast
      then have "c # cs = (c # p) @ sub @ q" by simp
      then show ?thesis by blast
    qed
  next
    assume "\<exists>p q. c # cs = p @ sub @ q"
    then obtain p q where e: "c # cs = p @ sub @ q" by blast
    show "includes_str (c # cs) sub"
    proof (cases p)
      case Nil
      with e have "prefix sub (c # cs)" by (simp add: prefix_def)
      then show ?thesis by simp
    next
      case (Cons a p')
      with e have "cs = p' @ sub @ q" by simp
      with Cons.IH have "includes_str cs sub" by blast
      then show ?thesis by simp
    qed
  qed
qed

lemma join_with_member: "x \<in> set xs \<Longrightarrow> \<exists>p q. join_with sep xs = p @ x @ q"
proof (induction sep xs rule: join_with.induct)
  case (1 sep)
  then show ?case by simp
next
  case (2 sep y)
  then have "join_with sep [y] = [] @ x @ []" by simp
  then show ?case by blast
next
  case (3 sep y z zs)
  show ?case
  proof (cases "x = y")
    case True
    then have "join_with sep (y # z # zs) = [] @ x @ (sep @ join_with sep (z # zs))" by simp
    then show ?thesis by blast
  next
    case False
    with 3 obtain p q where "join_with sep (z # zs) = p @ x @ q" by auto
    then have "join_with sep (y # z # zs) = (y @ sep @ p) @ x @ q" by simp
    then show ?thesis by blast
  qed
qed

lemma unsupported_message_lists:
  assumes "i \<in> set getSupportedFrameworks"
  shows "includes_str (unsupported_message fw) i"
proof -
  from join_with_member [OF assms, of "'', ''"] obtain p q where
    "join_with '', '' getSupportedFrameworks = p @ i @ q" by blast
  then have "unsupported_message fw = (''Unsupported framework: '' @ fw @ ''. Supported frameworks: '' @ p) @ i @ q"
    by (simp add: unsupported_message_def)
  then show ?thesis unfolding includes_str_iff by blast
qed

lemma getBuilder_demo2: "getBuilder ''not-a-real-framework'' = None"
  by code_simp

text \<open>
  C1 as stated fails: for \<open>{projectName: 'demo2', framework: 'not-a-real-framework'}\<close> the
  handler returns no result with \<open>success = false\<close>: it throws.
\<close>

theorem unknown_framework_no_outcome:
  "\<not> (\<exists>r tr'. CallTool_handler workdir [] ''build_project'' demo2 = (Inr (BuildResponse r), tr')
         \<and> \<not> success r)"
  by (simp add: CallTool_handler_def build_project_def demo2_def getBuilder_demo2)

text \<open>
  C1, amended. When \<open>projectName\<close> and \<open>framework\<close> are present and not empty and the
  framework matches no registered identifier, the handler throws an \<open>Error\<close> (no
  \<open>BuilderResult\<close> is produced) before any filesystem operation: the trace is unchanged and
  no builder is invoked. The message is \<open>Unsupported framework: <framework>. Supported
  frameworks: \<close> followed by all registered identifiers, so it contains each of them.
\<close>

theorem unknown_framework_rejected:
  assumes "arg_projectName args = Some pn" and "pn \<noteq> []"
    and "arg_framework args = Some fw" and "fw \<noteq> []"
    and "getBuilder fw = None"
  shows "CallTool_handler e tr ''build_project'' args = (Inl (unsupported_message fw), tr)
         \<and> unsupported_message fw =
             ''Unsupported framework: '' @ fw @ ''. Supported frameworks: '' @ join_with '', '' getSupportedFrameworks
         \<and> list_all (includes_str (unsupported_message fw)) getSupportedFrameworks
         \<and> length getSupportedFrameworks = 38"
proof -
  have a: "CallTool_handler e tr ''build_project'' args = (Inl (unsupported_message fw), tr)"
    using assms by (simp add: CallTool_handler_def build_project_def)
  have b: "list_all (includes_str (unsupported_message fw)) getSupportedFrameworks"
    unfolding list_all_iff using unsupported_message_lists by blast
  have c: "length getSupportedFrameworks = 38"
    by (simp add: getSupportedFrameworks_def getSupportedFrameworks_of_def builders_def)
  from a b c show ?thesis by (simp add: unsupported_message_def)
qed

theorem unknown_framework_rejected_witness:
  "arg_projectName demo2 = Some ''demo2'' \<and> ''demo2'' \<noteq> []
   \<and> arg_framework demo2 = Some ''not-a-real-framework'' \<and> ''not-a-real-framework'' \<noteq> []
   \<and> getBuilder ''not-a-real-framework'' = None
   \<and> CallTool_handler workdir [] ''build_project'' demo2 =
        (Inl (unsupported_message ''not-a-real-framework''), [])
   \<and> includes_str (unsupported_message ''not-a-real-framework'') ''react''"
proof -
  have h1: "arg_projectName demo2 = Some ''demo2''" by (simp add: demo2_def)
  have h2: "''demo2'' \<noteq> []" by simp
  have h3: "arg_framework demo2 = Some ''not-a-real-framework''" by (simp add: demo2_def)
  have h4: "''not-a-real-framework'' \<noteq> []" by simp
  have m: "''react'' \<in> set getSupportedFrameworks"
    by (simp add: getSupportedFrameworks_def getSupportedFrameworks_of_def builders_def)
  from unknown_framework_rejected [OF h1 h2 h3 h4 getBuilder_demo2, of workdir "[]"] m
  have "CallTool_handler workdir [] ''build_project'' demo2 =
        (Inl (unsupported_message ''not-a-real-framework''), [])
     \<and> includes_str (unsupported_message ''not-a-real-framework'') ''react''"
    unfolding list_all_iff by blast
  with h1 h2 h3 h4 getBuilder_demo2 show ?thesis by blast
qed

end
